theory Spec2Isabelle
  imports Complex_Main "HOL-Library.Sublist"
begin

section \<open>JavaScript values used by the risk modules\<close>

text \<open>
  The modules compute with IEEE doubles. Numbers are modelled as \<^typ>\<open>real\<close>: every
  statement below is about the exact value of each expression, and "within floating-point
  tolerance" in a property means equality of these exact values. \<open>NaN\<close> and the
  infinities are outside the model. An object literal used as a lookup table is an
  association list consulted for its own keys only; an absent or \<open>undefined\<close> property
  is \<open>None\<close>.
\<close>

datatype js_error = Error string | TypeError

text \<open>\<open>v || d\<close> on a number that may be undefined: zero is falsy, like \<open>undefined\<close>.\<close>

definition js_or :: "real option \<Rightarrow> real \<Rightarrow> real" where
  "js_or v d = (case v of None \<Rightarrow> d | Some x \<Rightarrow> if x = 0 then d else x)"

text \<open>\<open>Math.round\<close>: the nearest integer, a tie going towards plus infinity.\<close>

definition js_round :: "real \<Rightarrow> real" where
  "js_round x = of_int \<lfloor>x + 1 / 2\<rfloor>"

text \<open>\<open>Math.max(lo, Math.min(hi, x))\<close>, the clamp every module writes inline.\<close>

definition clamp :: "real \<Rightarrow> real \<Rightarrow> real \<Rightarrow> real" where
  "clamp lo hi x = max lo (min hi x)"

text \<open>\<open>String.prototype.toLowerCase\<close> on the ASCII letters (other characters are kept).\<close>

definition lower_char :: "char \<Rightarrow> char" where
  "lower_char c =
     (case map_of (zip ''ABCDEFGHIJKLMNOPQRSTUVWXYZ'' ''abcdefghijklmnopqrstuvwxyz'') c of
        Some d \<Rightarrow> d | None \<Rightarrow> c)"

definition toLowerCase :: "string \<Rightarrow> string" where
  "toLowerCase s = map lower_char s"

text \<open>\<open>s.includes(t)\<close>: \<open>t\<close> occurs in \<open>s\<close> as a contiguous run.\<close>

fun js_includes :: "string \<Rightarrow> string \<Rightarrow> bool" where
  "js_includes [] t = (t = [])"
| "js_includes (c # s) t = (prefix t (c # s) \<or> js_includes s t)"

text \<open>\<open>table[key?.toLowerCase()]\<close> with an optional string key.\<close>

definition lookup_lower :: "(string \<times> 'a) list \<Rightarrow> string option \<Rightarrow> 'a option" where
  "lookup_lower table key =
     (case key of None \<Rightarrow> None | Some k \<Rightarrow> map_of table (toLowerCase k))"

text \<open>\<open>xs.slice(-n)\<close> for \<open>n > 0\<close>: the last \<open>n\<close> elements; \<open>slice(-0)\<close> is \<open>slice(0)\<close>, the whole array.\<close>

definition slice_last :: "nat \<Rightarrow> 'a list \<Rightarrow> 'a list" where
  "slice_last n xs = (if n = 0 then xs else drop (length xs - n) xs)"

section \<open>adaptiveRiskEngine.js\<close>

text \<open>
  Line 378 of the source reads \<open>this.analyzeFactor Performance(factor, recentOutcomes)\<close>,
  with a blank inside the method name; the method defined at line 409 is
  \<open>analyzeFactorPerformance\<close>, and the model calls that one.
\<close>

datatype factor = Weather | Time | Crowd | Location | Visibility

text \<open>The keys of \<open>this.weights\<close> and of a \<open>base_scores\<close> object, in insertion order.\<close>

definition factors :: "factor list" where
  "factors = [Weather, Time, Crowd, Location, Visibility]"

datatype visibility_value = VisNumber real | VisString string

record conditions =
  weather :: "string option"
  time :: "string option"
  crowd_density :: "string option"
  location :: "string option"
  visibility :: "visibility_value option"

record thresholds_t =
  low_to_medium :: real
  medium_to_high :: real

record metrics =
  totalPredictions :: nat
  correctPredictions :: nat
  falsePositives :: nat
  falseNegatives :: nat
  accuracy :: real

record prediction =
  pred_id :: string
  pred_timestamp :: int
  pred_conditions :: conditions
  base_scores :: "factor \<Rightarrow> real"
  weights_used :: "factor \<Rightarrow> real"
  weighted_score :: real
  risk_level :: string
  thresholds_used :: thresholds_t
  pred_confidence :: real
  awaiting_outcome :: bool

text \<open>The \<open>actualOutcome\<close> argument of \<open>recordOutcome\<close>; an absent field is \<open>None\<close>.\<close>

record actual_outcome =
  in_actual_risk_level :: "string option"
  in_incident_occurred :: "bool option"
  in_incident_severity :: "real option"
  in_user_feedback :: "string option"
  in_environmental_accuracy :: "real option"

text \<open>An entry of \<open>outcomeHistory\<close>: the outcome record, its prediction and its accuracy.\<close>

record outcome =
  prediction_id :: string
  timestamp :: int
  actual_risk_level :: string
  incident_occurred :: bool
  incident_severity :: real
  user_feedback :: "string option"
  environmental_accuracy :: real
  out_prediction :: prediction
  out_accuracy :: real

record adaptation =
  ad_timestamp :: int
  old_weights :: "factor \<Rightarrow> real"
  new_weights :: "factor \<Rightarrow> real"
  weight_adjustments :: "factor \<Rightarrow> real"
  threshold_adjustments :: "(string \<times> real) list"
  outcomes_analyzed :: nat
  trigger_reason :: string

record engine =
  weights :: "factor \<Rightarrow> real"
  learningRate :: real
  adaptationThreshold :: nat
  maxWeightChange :: real
  confidenceDecay :: real
  outcomeHistory :: "outcome list"
  adaptationHistory :: "adaptation list"
  performanceMetrics :: metrics
  thresholds :: thresholds_t
  recentPredictions :: "prediction list option"

text \<open>The constructor.\<close>

fun initial_weights :: "factor \<Rightarrow> real" where
  "initial_weights Weather = 30 / 100"
| "initial_weights Time = 20 / 100"
| "initial_weights Crowd = 25 / 100"
| "initial_weights Location = 15 / 100"
| "initial_weights Visibility = 10 / 100"

definition new_engine :: engine where
  "new_engine =
     \<lparr> weights = initial_weights,
       learningRate = 5 / 100,
       adaptationThreshold = 5,
       maxWeightChange = 1 / 10,
       confidenceDecay = 95 / 100,
       outcomeHistory = [],
       adaptationHistory = [],
       performanceMetrics =
         \<lparr> totalPredictions = 0, correctPredictions = 0, falsePositives = 0,
           falseNegatives = 0, accuracy = 0 \<rparr>,
       thresholds = \<lparr> low_to_medium = 25 / 10, medium_to_high = 4 \<rparr>,
       recentPredictions = None \<rparr>"

subsection \<open>Base scores\<close>

definition weatherScores :: "(string \<times> real) list" where
  "weatherScores =
     [(''clear'', 0), (''sunny'', 0), (''cloudy'', 1), (''overcast'', 15 / 10),
      (''light_rain'', 2), (''rainy'', 3), (''heavy_rain'', 4),
      (''thunderstorm'', 5), (''stormy'', 5), (''foggy'', 3),
      (''snow'', 3), (''blizzard'', 5), (''tornado'', 10), (''hurricane'', 10)]"

definition timeScores :: "(string \<times> real) list" where
  "timeScores =
     [(''morning'', 0), (''afternoon'', 0), (''evening'', 1),
      (''night'', 2), (''late_night'', 3), (''dawn'', 1)]"

definition crowdScores :: "(string \<times> real) list" where
  "crowdScores =
     [(''isolated'', 2), (''light'', 0), (''moderate'', 1),
      (''heavy'', 2), (''overcrowded'', 4), (''dangerous'', 5)]"

definition visibilityScores :: "(string \<times> real) list" where
  "visibilityScores =
     [(''excellent'', 0), (''good'', 0), (''fair'', 1),
      (''poor'', 2), (''very_poor'', 3), (''zero'', 4)]"

definition calculateLocationScore :: "string option \<Rightarrow> real" where
  "calculateLocationScore loc =
     (case loc of
        None \<Rightarrow> 0
      | Some l \<Rightarrow>
          if l = [] then 0
          else
            let s = toLowerCase l;
                score0 = (0::real);
                score1 = (if js_includes s ''construction'' \<or> js_includes s ''industrial''
                          then score0 + 2 else score0);
                score2 = (if js_includes s ''remote'' \<or> js_includes s ''isolated''
                          then score1 + 1 else score1);
                score3 = (if js_includes s ''water'' \<or> js_includes s ''beach''
                          then score2 + 1 else score2);
                score4 = (if js_includes s ''mountain'' \<or> js_includes s ''cliff''
                          then score3 + 2 else score3);
                score5 = (if js_includes s ''urban'' \<or> js_includes s ''city''
                          then score4 + 1 / 2 else score4)
            in min score5 5)"

definition calculateVisibilityScore :: "visibility_value option \<Rightarrow> real" where
  "calculateVisibilityScore v =
     (case v of
        Some (VisNumber x) \<Rightarrow> max 0 ((1 - x) * 3)
      | Some (VisString s) \<Rightarrow> js_or (lookup_lower visibilityScores (Some s)) 1
      | None \<Rightarrow> js_or (lookup_lower visibilityScores None) 1)"

fun calculateBaseScores :: "conditions \<Rightarrow> factor \<Rightarrow> real" where
  "calculateBaseScores c Weather = js_or (lookup_lower weatherScores (weather c)) 1"
| "calculateBaseScores c Time = js_or (lookup_lower timeScores (time c)) 0"
| "calculateBaseScores c Crowd = js_or (lookup_lower crowdScores (crowd_density c)) 1"
| "calculateBaseScores c Location = calculateLocationScore (location c)"
| "calculateBaseScores c Visibility = calculateVisibilityScore (visibility c)"

subsection \<open>Weighted score and risk level\<close>

definition applyAdaptiveWeights :: "engine \<Rightarrow> (factor \<Rightarrow> real) \<Rightarrow> real" where
  "applyAdaptiveWeights e baseScores =
     (let weightedScore =
            foldl (\<lambda>acc f. acc + baseScores f * js_or (Some (weights e f)) 0) 0 factors
      in js_round (weightedScore * 10) / 10)"

record risk_level_info =
  level :: string
  color :: string
  description :: string

definition determineAdaptiveRiskLevel :: "engine \<Rightarrow> real \<Rightarrow> risk_level_info" where
  "determineAdaptiveRiskLevel e score =
     (if score \<ge> medium_to_high (thresholds e) then
        \<lparr> level = ''HIGH'', color = ''#dc2626'',
          description = ''High risk conditions detected'' \<rparr>
      else if score \<ge> low_to_medium (thresholds e) then
        \<lparr> level = ''MEDIUM'', color = ''#d97706'',
          description = ''Moderate risk conditions'' \<rparr>
      else
        \<lparr> level = ''LOW'', color = ''#16a34a'',
          description = ''Low risk conditions'' \<rparr>)"

definition calculatePredictionConfidence :: "engine \<Rightarrow> real" where
  "calculatePredictionConfidence e =
     (if length (outcomeHistory e) < 3 then 7 / 10
      else
        let recentOutcomes = slice_last 10 (outcomeHistory e);
            recentAccuracy =
              foldl (\<lambda>s out. s + out_accuracy out) 0 recentOutcomes
                / real (length recentOutcomes);
            dataVolumeBonus = min (2 / 10) (real (length (outcomeHistory e)) * (1 / 100))
        in min (95 / 100) (max (3 / 10) (recentAccuracy + dataVolumeBonus)))"

subsection \<open>Recommendations\<close>

definition getFactorRecommendations :: "factor \<Rightarrow> real \<Rightarrow> string list" where
  "getFactorRecommendations f score =
     (case f of
        Weather \<Rightarrow>
          if score \<ge> 4 then [''Severe weather - seek immediate shelter'']
          else if score \<ge> 2 then [''Monitor weather conditions closely'']
          else []
      | Crowd \<Rightarrow>
          if score \<ge> 3 then [''Avoid crowded areas or identify exit routes'']
          else if score \<ge> 2 then [''Stay aware in crowded conditions'']
          else []
      | Time \<Rightarrow>
          if score \<ge> 2 then [''Use additional lighting and stay in populated areas'']
          else []
      | Location \<Rightarrow>
          if score \<ge> 2 then [''Exercise extra caution in this location type'']
          else []
      | Visibility \<Rightarrow>
          if score \<ge> 2 then [''Improve visibility with lights or reflective gear'']
          else [])"

text \<open>
  \<open>Object.entries(baseScores).sort(([,a], [,b]) => b - a)\<close>: a stable sort, highest score
  first; \<^const>\<open>sort_key\<close> is the stable insertion sort.
\<close>

definition sortedFactors :: "(factor \<Rightarrow> real) \<Rightarrow> (factor \<times> real) list" where
  "sortedFactors baseScores =
     sort_key (\<lambda>(f, s). - s) (map (\<lambda>f. (f, baseScores f)) factors)"

definition generateAdaptiveRecommendations ::
  "engine \<Rightarrow> (factor \<Rightarrow> real) \<Rightarrow> risk_level_info \<Rightarrow> string list" where
  "generateAdaptiveRecommendations e baseScores riskLevel =
     (let base =
            (if level riskLevel = ''HIGH'' then
               [''High risk detected - take immediate precautions'']
             else if level riskLevel = ''MEDIUM'' then
               [''Moderate risk - stay alert and prepared'']
             else [''Low risk - maintain basic awareness'']);
          specific =
            concat (map (\<lambda>(f, score). if score \<ge> 2 then getFactorRecommendations f score else [])
                        (take 2 (sortedFactors baseScores)));
          adaptive =
            (if falsePositives (performanceMetrics e) > falseNegatives (performanceMetrics e)
             then [''System tends toward caution - verify conditions independently'']
             else [])
      in base @ specific @ adaptive)"

subsection \<open>Assessment\<close>

definition storePrediction :: "prediction \<Rightarrow> engine \<Rightarrow> engine" where
  "storePrediction p e =
     (let ps = (case recentPredictions e of None \<Rightarrow> [] | Some qs \<Rightarrow> qs) @ [p]
      in e\<lparr>recentPredictions := Some (if length ps > 100 then slice_last 100 ps else ps)\<rparr>)"

definition findPrediction :: "engine \<Rightarrow> string \<Rightarrow> prediction option" where
  "findPrediction e predictionId =
     (case recentPredictions e of
        None \<Rightarrow> None
      | Some ps \<Rightarrow> find (\<lambda>p. pred_id p = predictionId) ps)"

record risk_assessment =
  ra_risk_level :: string
  ra_risk_score :: real
  ra_confidence :: real
  ra_base_scores :: "factor \<Rightarrow> real"
  ra_adaptive_weights :: "factor \<Rightarrow> real"
  ra_thresholds :: thresholds_t

record assessment_result =
  ar_prediction_id :: string
  ar_risk_assessment :: risk_assessment
  ar_recommendations :: "string list"
  ar_total_outcomes :: nat
  ar_accuracy :: real

text \<open>
  \<open>assessRiskAdaptive(conditions, outcomeId)\<close>. The clock reading \<open>now\<close> (milliseconds) and
  the identifier \<open>generatePredictionId()\<close> would return are arguments. \<open>None\<close> for the
  conditions is a \<open>null\<close> or \<open>undefined\<close> argument, whose property read throws inside the
  \<open>try\<close>; the \<open>catch\<close> returns the failure object.
\<close>

definition assessRiskAdaptive ::
  "int \<Rightarrow> string \<Rightarrow> conditions option \<Rightarrow> string option \<Rightarrow> engine
     \<Rightarrow> engine \<times> (js_error + assessment_result)" where
  "assessRiskAdaptive now freshId conds outcomeId e =
     (case conds of
        None \<Rightarrow> (e, Inl TypeError)
      | Some c \<Rightarrow>
          let baseScores = calculateBaseScores c;
              weightedScore = applyAdaptiveWeights e baseScores;
              riskLevel = determineAdaptiveRiskLevel e weightedScore;
              recommendations = generateAdaptiveRecommendations e baseScores riskLevel;
              p = \<lparr> pred_id = (case outcomeId of
                                   None \<Rightarrow> freshId
                                 | Some i \<Rightarrow> if i = [] then freshId else i),
                    pred_timestamp = now,
                    pred_conditions = c,
                    base_scores = baseScores,
                    weights_used = weights e,
                    weighted_score = weightedScore,
                    risk_level = level riskLevel,
                    thresholds_used = thresholds e,
                    pred_confidence = calculatePredictionConfidence e,
                    awaiting_outcome = True \<rparr>;
              e' = storePrediction p e
          in (e',
              Inr \<lparr> ar_prediction_id = pred_id p,
                    ar_risk_assessment =
                      \<lparr> ra_risk_level = level riskLevel,
                        ra_risk_score = weightedScore,
                        ra_confidence = pred_confidence p,
                        ra_base_scores = baseScores,
                        ra_adaptive_weights = weights e',
                        ra_thresholds = thresholds e' \<rparr>,
                    ar_recommendations = recommendations,
                    ar_total_outcomes = length (outcomeHistory e'),
                    ar_accuracy = accuracy (performanceMetrics e') \<rparr>))"

subsection \<open>Recording an outcome\<close>

definition validateOutcome :: "actual_outcome \<Rightarrow> js_error + unit" where
  "validateOutcome out =
     (case in_actual_risk_level out of
        None \<Rightarrow> Inl (Error ''Invalid actual_risk_level. Must be LOW, MEDIUM, or HIGH'')
      | Some l \<Rightarrow>
          if l \<in> set [''LOW'', ''MEDIUM'', ''HIGH''] then Inr ()
          else Inl (Error ''Invalid actual_risk_level. Must be LOW, MEDIUM, or HIGH''))"

definition levelMap :: "(string \<times> real) list" where
  "levelMap = [(''LOW'', 0), (''MEDIUM'', 1), (''HIGH'', 2)]"

definition calculatePredictionAccuracy :: "prediction \<Rightarrow> outcome \<Rightarrow> real" where
  "calculatePredictionAccuracy p out =
     (let accuracy1 =
            (if risk_level p = actual_risk_level out then 6 / 10
             else
               let predictedLevel = js_or (map_of levelMap (risk_level p)) 1;
                   actualLevel = js_or (map_of levelMap (actual_risk_level out)) 1;
                   levelDiff = \<bar>predictedLevel - actualLevel\<bar>
               in max 0 (6 / 10 - levelDiff * (3 / 10)));
          predictedIncidentRisk = (if risk_level p = ''HIGH'' then (1::nat) else 0);
          actualIncident = (if incident_occurred out then (1::nat) else 0);
          accuracy2 =
            (if predictedIncidentRisk = actualIncident then accuracy1 + 3 / 10 else accuracy1);
          accuracy3 = accuracy2 + js_or (Some (environmental_accuracy out)) 1 * (1 / 10)
      in min 1 accuracy3)"

definition updatePerformanceMetrics :: "prediction \<Rightarrow> outcome \<Rightarrow> real \<Rightarrow> metrics \<Rightarrow> metrics" where
  "updatePerformanceMetrics p out acc m =
     (let total = totalPredictions m + 1;
          correct = (if acc \<ge> 7 / 10 then correctPredictions m + 1 else correctPredictions m);
          fp = (if risk_level p = ''HIGH'' \<and> \<not> incident_occurred out
                then falsePositives m + 1 else falsePositives m);
          fn = (if risk_level p \<noteq> ''HIGH'' \<and> incident_occurred out
                then falseNegatives m + 1 else falseNegatives m)
      in \<lparr> totalPredictions = total, correctPredictions = correct, falsePositives = fp,
           falseNegatives = fn, accuracy = real correct / real total \<rparr>)"

text \<open>
  \<open>length % adaptationThreshold === 0\<close>: with a threshold of zero the remainder is \<open>NaN\<close>
  and the test is false.
\<close>

definition shouldTriggerAdaptation :: "engine \<Rightarrow> bool" where
  "shouldTriggerAdaptation e =
     (length (outcomeHistory e) \<ge> adaptationThreshold e \<and>
      adaptationThreshold e \<noteq> 0 \<and>
      length (outcomeHistory e) mod adaptationThreshold e = 0)"

subsection \<open>Adaptation\<close>

text \<open>
  \<open>analyzeFactorPerformance\<close> weighs each outcome by \<open>confidenceDecay\<close> to the power of its
  age in days at the clock reading \<open>now\<close>; the clock is read once per call of the model.
\<close>

definition recencyWeight :: "engine \<Rightarrow> int \<Rightarrow> outcome \<Rightarrow> real" where
  "recencyWeight e now out =
     confidenceDecay e powr (real_of_int (now - timestamp out) / (1000 * 60 * 60 * 24))"

definition factorCorrect :: "factor \<Rightarrow> outcome \<Rightarrow> bool" where
  "factorCorrect f out =
     (let factorScore = js_or (Some (base_scores (out_prediction out) f)) 0
      in (factorScore \<ge> 2 \<and> actual_risk_level out \<noteq> ''LOW'') \<or>
         (factorScore < 2 \<and> actual_risk_level out = ''LOW''))"

definition analyzeFactorPerformance :: "engine \<Rightarrow> int \<Rightarrow> factor \<Rightarrow> outcome list \<Rightarrow> real" where
  "analyzeFactorPerformance e now f outcomes =
     (let (correctPredictions', totalWeight) =
            foldl (\<lambda>(correct, total) out.
                     let w = recencyWeight e now out
                     in (if factorCorrect f out then correct + w else correct, total + w))
                  (0, 0) outcomes
      in if totalWeight > 0 then correctPredictions' / totalWeight else 1 / 2)"

definition calculateWeightAdjustment :: "engine \<Rightarrow> real \<Rightarrow> real" where
  "calculateWeightAdjustment e performance =
     (let targetPerformance = 7 / 10;
          performanceDiff = performance - targetPerformance
      in max (- maxWeightChange e) (min (maxWeightChange e) (performanceDiff * learningRate e)))"

text \<open>
  \<open>applyWeightAdjustments\<close>: each weight is clamped to [0.05, 0.5] after its adjustment, then
  every weight is divided by the total of the clamped weights.
\<close>

definition clampedWeights :: "(factor \<Rightarrow> real) \<Rightarrow> (factor \<Rightarrow> real) \<Rightarrow> factor \<Rightarrow> real" where
  "clampedWeights adjustments w f = max (5 / 100) (min (1 / 2) (w f + adjustments f))"

definition applyWeightAdjustments :: "(factor \<Rightarrow> real) \<Rightarrow> engine \<Rightarrow> engine" where
  "applyWeightAdjustments adjustments e =
     (let w1 = clampedWeights adjustments (weights e);
          totalWeight = foldl (\<lambda>s f. s + w1 f) 0 factors
      in e\<lparr>weights := (\<lambda>f. w1 f / totalWeight)\<rparr>)"

definition calculateThresholdAdjustments :: "outcome list \<Rightarrow> (string \<times> real) list" where
  "calculateThresholdAdjustments outcomes =
     (let falsePositives' =
            length (filter (\<lambda>o'. risk_level (out_prediction o') = ''HIGH'' \<and>
                                  actual_risk_level o' \<noteq> ''HIGH'') outcomes);
          highPredictions =
            length (filter (\<lambda>o'. risk_level (out_prediction o') = ''HIGH'') outcomes);
          falsePositiveRate =
            (if highPredictions > 0 then real falsePositives' / real highPredictions else 0)
      in if falsePositiveRate > 3 / 10 then
           [(''medium_to_high'', 2 / 10), (''low_to_medium'', 1 / 10)]
         else if falsePositiveRate < 1 / 10 then
           [(''medium_to_high'', - (1 / 10)), (''low_to_medium'', - (5 / 100))]
         else [])"

definition applyThresholdAdjustment :: "thresholds_t \<Rightarrow> string \<times> real \<Rightarrow> thresholds_t" where
  "applyThresholdAdjustment t ka =
     (case ka of (k, adjustment) \<Rightarrow>
        if k = ''medium_to_high'' then
          t\<lparr>medium_to_high := max 1 (min 6 (medium_to_high t + adjustment))\<rparr>
        else if k = ''low_to_medium'' then
          t\<lparr>low_to_medium := max 1 (min 6 (low_to_medium t + adjustment))\<rparr>
        else t)"

definition applyThresholdAdjustments :: "(string \<times> real) list \<Rightarrow> engine \<Rightarrow> engine" where
  "applyThresholdAdjustments adjustments e =
     e\<lparr>thresholds := foldl applyThresholdAdjustment (thresholds e) adjustments\<rparr>"

definition performAdaptation :: "int \<Rightarrow> engine \<Rightarrow> engine \<times> adaptation" where
  "performAdaptation now e =
     (let recentOutcomes = slice_last (adaptationThreshold e * 2) (outcomeHistory e);
          weightAdjustments =
            (\<lambda>f. calculateWeightAdjustment e (analyzeFactorPerformance e now f recentOutcomes));
          oldWeights = weights e;
          e1 = applyWeightAdjustments weightAdjustments e;
          thresholdAdjustments = calculateThresholdAdjustments recentOutcomes;
          e2 = applyThresholdAdjustments thresholdAdjustments e1;
          a = \<lparr> ad_timestamp = now,
                old_weights = oldWeights,
                new_weights = weights e2,
                weight_adjustments = weightAdjustments,
                threshold_adjustments = thresholdAdjustments,
                outcomes_analyzed = length recentOutcomes,
                trigger_reason = ''scheduled_adaptation'' \<rparr>
      in (e2\<lparr>adaptationHistory := adaptationHistory e2 @ [a]\<rparr>, a))"

record outcome_result =
  outcome_recorded :: bool
  res_accuracy :: real
  performance_metrics :: metrics
  adaptation_triggered :: bool
  adaptation_result :: "adaptation option"

text \<open>
  The outcome object \<open>recordOutcome\<close> builds from its argument (\<open>x || default\<close> for the
  optional fields). The entry pushed to \<open>outcomeHistory\<close> is this object with the prediction
  and the accuracy added; \<open>out_accuracy\<close> is 0 until then.
\<close>

definition outcomeRecord :: "int \<Rightarrow> string \<Rightarrow> actual_outcome \<Rightarrow> prediction \<Rightarrow> outcome" where
  "outcomeRecord now predictionId actualOutcome p =
     \<lparr> prediction_id = predictionId,
       timestamp = now,
       actual_risk_level =
         (case in_actual_risk_level actualOutcome of Some l \<Rightarrow> l | None \<Rightarrow> []),
       incident_occurred =
         (case in_incident_occurred actualOutcome of Some b \<Rightarrow> b | None \<Rightarrow> False),
       incident_severity = js_or (in_incident_severity actualOutcome) 0,
       user_feedback =
         (case in_user_feedback actualOutcome of
            Some s \<Rightarrow> if s = [] then None else Some s
          | None \<Rightarrow> None),
       environmental_accuracy = js_or (in_environmental_accuracy actualOutcome) 1,
       out_prediction = p,
       out_accuracy = 0 \<rparr>"

definition historyEntry :: "int \<Rightarrow> string \<Rightarrow> actual_outcome \<Rightarrow> prediction \<Rightarrow> outcome" where
  "historyEntry now predictionId actualOutcome p =
     (let out0 = outcomeRecord now predictionId actualOutcome p
      in out0\<lparr>out_accuracy := calculatePredictionAccuracy p out0\<rparr>)"

text \<open>The engine after the push to \<open>outcomeHistory\<close> and \<open>updatePerformanceMetrics\<close>.\<close>

definition pushOutcome :: "int \<Rightarrow> string \<Rightarrow> actual_outcome \<Rightarrow> prediction \<Rightarrow> engine \<Rightarrow> engine" where
  "pushOutcome now predictionId actualOutcome p e =
     (let out0 = outcomeRecord now predictionId actualOutcome p;
          acc = calculatePredictionAccuracy p out0;
          e1 = e\<lparr>outcomeHistory := outcomeHistory e @ [historyEntry now predictionId actualOutcome p]\<rparr>
      in e1\<lparr>performanceMetrics := updatePerformanceMetrics p out0 acc (performanceMetrics e1)\<rparr>)"

definition outcomeResult :: "engine \<Rightarrow> real \<Rightarrow> adaptation option \<Rightarrow> outcome_result" where
  "outcomeResult e acc adaptationResult =
     \<lparr> outcome_recorded = True,
       res_accuracy = acc,
       performance_metrics = performanceMetrics e,
       adaptation_triggered = (adaptationResult \<noteq> None),
       adaptation_result = adaptationResult \<rparr>"

text \<open>
  \<open>recordOutcome(predictionId, actualOutcome)\<close> at the clock reading \<open>now\<close>. A \<open>throw\<close>
  inside the \<open>try\<close> is caught and returned as \<open>{success: false, error: message, timestamp}\<close>:
  the \<open>Inl\<close> result, with the engine as it was when the exception was thrown.
\<close>

definition recordOutcome ::
  "int \<Rightarrow> string \<Rightarrow> actual_outcome \<Rightarrow> engine \<Rightarrow> engine \<times> (js_error + outcome_result)" where
  "recordOutcome now predictionId actualOutcome e =
     (case findPrediction e predictionId of
        None \<Rightarrow> (e, Inl (Error (''Prediction '' @ predictionId @ '' not found'')))
      | Some p \<Rightarrow>
          (case validateOutcome actualOutcome of
             Inl err \<Rightarrow> (e, Inl err)
           | Inr _ \<Rightarrow>
               let acc = calculatePredictionAccuracy p
                           (outcomeRecord now predictionId actualOutcome p);
                   e2 = pushOutcome now predictionId actualOutcome p e
               in if shouldTriggerAdaptation e2 then
                    let pa = performAdaptation now e2
                    in (fst pa, Inr (outcomeResult (fst pa) acc (Some (snd pa))))
                  else (e2, Inr (outcomeResult e2 acc None))))"

text \<open>A sequence of \<open>recordOutcome\<close> calls: the engine and the result after each call.\<close>

fun recordOutcomes ::
  "(int \<times> string \<times> actual_outcome) list \<Rightarrow> engine
     \<Rightarrow> (engine \<times> (js_error + outcome_result)) list" where
  "recordOutcomes [] e = []"
| "recordOutcomes (c # cs) e =
     (case c of (now, predictionId, actualOutcome) \<Rightarrow>
        let r = recordOutcome now predictionId actualOutcome e
        in r # recordOutcomes cs (fst r))"

text \<open>The engine that call number \<open>i\<close> (from 0) of such a sequence runs on.\<close>

definition engineBefore ::
  "(int \<times> string \<times> actual_outcome) list \<Rightarrow> engine \<Rightarrow> nat \<Rightarrow> engine" where
  "engineBefore calls e i = (if i = 0 then e else fst (recordOutcomes calls e ! (i - 1)))"

subsection \<open>Scenarios\<close>

text \<open>End-to-end scenario 2 of the specification; no location is given.\<close>

definition scenario2 :: conditions where
  "scenario2 =
     \<lparr> weather = Some ''thunderstorm'', time = Some ''late_night'',
       crowd_density = Some ''overcrowded'', location = None,
       visibility = Some (VisNumber (2 / 10)) \<rparr>"

text \<open>
  A run of the learner: one assessment stored under the identifier \<open>p1\<close>, then one outcome a
  minute, each reporting that the actual level was LOW.
\<close>

definition drift_conditions :: conditions where
  "drift_conditions =
     \<lparr> weather = Some ''cloudy'', time = Some ''morning'',
       crowd_density = Some ''moderate'', location = None,
       visibility = Some (VisNumber (1 / 10)) \<rparr>"

definition drift_outcome :: actual_outcome where
  "drift_outcome =
     \<lparr> in_actual_risk_level = Some ''LOW'', in_incident_occurred = None,
       in_incident_severity = None, in_user_feedback = None,
       in_environmental_accuracy = None \<rparr>"

definition drift_start :: engine where
  "drift_start = fst (assessRiskAdaptive 0 ''pred_0'' (Some drift_conditions) (Some ''p1'') new_engine)"

definition drift_calls :: "nat \<Rightarrow> (int \<times> string \<times> actual_outcome) list" where
  "drift_calls n = map (\<lambda>k. (60000 * int (Suc k), ''p1'', drift_outcome)) [0..<n]"

text \<open>The engine after the first \<open>n\<close> outcomes of the run.\<close>

definition drift_engine :: "nat \<Rightarrow> engine" where
  "drift_engine n =
     (if n = 0 then drift_start else fst (last (recordOutcomes (drift_calls n) drift_start)))"

text \<open>The prediction the assessment of the run stores, and what every call of the run keeps.\<close>

definition drift_prediction :: prediction where
  "drift_prediction =
     \<lparr> pred_id = ''p1'',
       pred_timestamp = 0,
       pred_conditions = drift_conditions,
       base_scores = calculateBaseScores drift_conditions,
       weights_used = initial_weights,
       weighted_score = 8 / 10,
       risk_level = ''LOW'',
       thresholds_used = \<lparr> low_to_medium = 25 / 10, medium_to_high = 4 \<rparr>,
       pred_confidence = 7 / 10,
       awaiting_outcome = True \<rparr>"

definition drift_inv :: "engine \<Rightarrow> bool" where
  "drift_inv e =
     (recentPredictions e = Some [drift_prediction] \<and>
      adaptationThreshold e = 5 \<and> learningRate e = 5 / 100 \<and>
      maxWeightChange e = 1 / 10 \<and> confidenceDecay e = 95 / 100 \<and>
      list_all (\<lambda>out. out_prediction out = drift_prediction \<and> actual_risk_level out = ''LOW'')
        (outcomeHistory e))"

text \<open>
  The weight adjustments of an adaptation step in the run: the visibility score (2.7) was
  wrong about every LOW outcome, the other four scores (below 2) were right.
\<close>

fun drift_adjustments :: "factor \<Rightarrow> real" where
  "drift_adjustments Visibility = - (35 / 1000)"
| "drift_adjustments f = 15 / 1000"

text \<open>An outcome reporting HIGH for the stored prediction, every optional field absent.\<close>

definition missed_outcome :: actual_outcome where
  "missed_outcome =
     \<lparr> in_actual_risk_level = Some ''HIGH'', in_incident_occurred = None,
       in_incident_severity = None, in_user_feedback = None,
       in_environmental_accuracy = None \<rparr>"

text \<open>The weights of the run after its first adaptation step.\<close>

fun drift_weights5 :: "factor \<Rightarrow> real" where
  "drift_weights5 Weather = 63 / 205"
| "drift_weights5 Time = 43 / 205"
| "drift_weights5 Crowd = 53 / 205"
| "drift_weights5 Location = 33 / 205"
| "drift_weights5 Visibility = 13 / 205"

text \<open>
  A second run: one assessment of HIGH stored under the identifier \<open>a1\<close>; then 175 outcomes
  reporting LOW for it (false alarms), and from then on outcomes reporting HIGH (true alarms).
\<close>

definition alarm_conditions :: conditions where
  "alarm_conditions =
     \<lparr> weather = Some ''tornado'', time = Some ''late_night'',
       crowd_density = Some ''dangerous'', location = None,
       visibility = Some (VisNumber (1 / 2)) \<rparr>"

definition alarm_prediction :: prediction where
  "alarm_prediction =
     \<lparr> pred_id = ''a1'',
       pred_timestamp = 0,
       pred_conditions = alarm_conditions,
       base_scores = calculateBaseScores alarm_conditions,
       weights_used = initial_weights,
       weighted_score = 5,
       risk_level = ''HIGH'',
       thresholds_used = \<lparr> low_to_medium = 25 / 10, medium_to_high = 4 \<rparr>,
       pred_confidence = 7 / 10,
       awaiting_outcome = True \<rparr>"

definition alarm_outcome :: "string \<Rightarrow> actual_outcome" where
  "alarm_outcome lvl =
     \<lparr> in_actual_risk_level = Some lvl, in_incident_occurred = None,
       in_incident_severity = None, in_user_feedback = None,
       in_environmental_accuracy = None \<rparr>"

definition alarm_start :: engine where
  "alarm_start = fst (assessRiskAdaptive 0 ''pred_0'' (Some alarm_conditions) (Some ''a1'') new_engine)"

definition alarm_call :: "nat \<Rightarrow> int \<times> string \<times> actual_outcome" where
  "alarm_call k =
     (60000 * int (Suc k), ''a1'', alarm_outcome (if k < 175 then ''LOW'' else ''HIGH''))"

definition alarm_engine :: "nat \<Rightarrow> engine" where
  "alarm_engine n =
     (if n = 0 then alarm_start
      else fst (last (recordOutcomes (map alarm_call [0..<n]) alarm_start)))"

definition alarm_inv :: "engine \<Rightarrow> bool" where
  "alarm_inv e =
     (recentPredictions e = Some [alarm_prediction] \<and> adaptationThreshold e = 5 \<and>
      list_all (\<lambda>out. out_prediction out = alarm_prediction) (outcomeHistory e))"

text \<open>The thresholds after \<open>k\<close> adaptation steps that each raised them.\<close>

definition raised :: "nat \<Rightarrow> thresholds_t" where
  "raised k =
     \<lparr> low_to_medium = min 6 (25 / 10 + real k / 10),
       medium_to_high = min 6 (4 + real k / 5) \<rparr>"

text \<open>The thresholds after \<open>k\<close> adaptation steps that each lowered them, from 6 and 6.\<close>

definition lowered :: "nat \<Rightarrow> thresholds_t" where
  "lowered k =
     \<lparr> low_to_medium = max 1 (6 - real k * 5 / 100),
       medium_to_high = max 1 (6 - real k / 10) \<rparr>"

text \<open>
  Conditions whose five base scores are all 2: light rain, night, a heavy crowd, a
  construction site, visibility one third.
\<close>

definition uniform_conditions :: conditions where
  "uniform_conditions =
     \<lparr> weather = Some ''light_rain'', time = Some ''night'',
       crowd_density = Some ''heavy'', location = Some ''construction site'',
       visibility = Some (VisNumber (1 / 3)) \<rparr>"

subsection \<open>The accuracy score in the specification's words\<close>

text \<open>
  Not taken from the code: the ordinal position of a level, and the score as the
  specification describes it (0.6 less 0.3 per level of distance, floored at 0; 0.3 when
  "predicted HIGH" agrees with "incident occurred"; 0.1 times the supplied multiplier;
  the total clamped to [0, 1]).
\<close>

definition levelOrdinal :: "string \<Rightarrow> int" where
  "levelOrdinal l = (if l = ''LOW'' then 0 else if l = ''MEDIUM'' then 1 else 2)"

definition specAccuracy :: "string \<Rightarrow> string \<Rightarrow> bool \<Rightarrow> real \<Rightarrow> real" where
  "specAccuracy predicted actual incident multiplier =
     clamp 0 1
       (max 0 (6 / 10 - 3 / 10 * real_of_int \<bar>levelOrdinal predicted - levelOrdinal actual\<bar>)
        + (if (predicted = ''HIGH'') = incident then 3 / 10 else 0)
        + 1 / 10 * multiplier)"

section \<open>riskStateMachine.js\<close>

text \<open>
  The ten state objects of the constructor. A state is referred to by its key; \<open>states\<close> is
  the lookup \<open>this.states[name]\<close>, and the tables below are the fields of the state objects.
  Console output is not part of the model.
\<close>

datatype state =
  INITIALIZING | MONITORING | LOW_RISK | MEDIUM_RISK | HIGH_RISK | CRITICAL_RISK
  | EMERGENCY_MODE | RECOVERY | MAINTENANCE | ERROR

fun stateName :: "state \<Rightarrow> string" where
  "stateName INITIALIZING = ''INITIALIZING''"
| "stateName MONITORING = ''MONITORING''"
| "stateName LOW_RISK = ''LOW_RISK''"
| "stateName MEDIUM_RISK = ''MEDIUM_RISK''"
| "stateName HIGH_RISK = ''HIGH_RISK''"
| "stateName CRITICAL_RISK = ''CRITICAL_RISK''"
| "stateName EMERGENCY_MODE = ''EMERGENCY_MODE''"
| "stateName RECOVERY = ''RECOVERY''"
| "stateName MAINTENANCE = ''MAINTENANCE''"
| "stateName ERROR = ''ERROR''"

definition states :: "string \<Rightarrow> state option" where
  "states =
     map_of (map (\<lambda>st. (stateName st, st))
       [INITIALIZING, MONITORING, LOW_RISK, MEDIUM_RISK, HIGH_RISK, CRITICAL_RISK,
        EMERGENCY_MODE, RECOVERY, MAINTENANCE, ERROR])"

fun allowedTransitions :: "state \<Rightarrow> string list" where
  "allowedTransitions INITIALIZING = [''MONITORING'', ''ERROR'']"
| "allowedTransitions MONITORING =
     [''LOW_RISK'', ''MEDIUM_RISK'', ''HIGH_RISK'', ''CRITICAL_RISK'', ''ERROR'', ''MAINTENANCE'']"
| "allowedTransitions LOW_RISK =
     [''MONITORING'', ''MEDIUM_RISK'', ''HIGH_RISK'', ''CRITICAL_RISK'', ''ERROR'']"
| "allowedTransitions MEDIUM_RISK =
     [''LOW_RISK'', ''MONITORING'', ''HIGH_RISK'', ''CRITICAL_RISK'', ''ERROR'']"
| "allowedTransitions HIGH_RISK = [''MEDIUM_RISK'', ''CRITICAL_RISK'', ''EMERGENCY_MODE'', ''ERROR'']"
| "allowedTransitions CRITICAL_RISK = [''EMERGENCY_MODE'', ''HIGH_RISK'', ''ERROR'']"
| "allowedTransitions EMERGENCY_MODE = [''CRITICAL_RISK'', ''HIGH_RISK'', ''RECOVERY'', ''ERROR'']"
| "allowedTransitions RECOVERY =
     [''MONITORING'', ''LOW_RISK'', ''MEDIUM_RISK'', ''HIGH_RISK'', ''ERROR'']"
| "allowedTransitions MAINTENANCE = [''MONITORING'', ''ERROR'']"
| "allowedTransitions ERROR = [''INITIALIZING'', ''MONITORING'', ''MAINTENANCE'']"

record behavior_profile =
  ui_mode :: string
  monitoring_frequency :: nat
  alert_level :: string
  user_actions :: "string list"
  data_collection :: string
  notifications :: "string option"
  auto_actions :: "string list option"

fun behaviors :: "state \<Rightarrow> behavior_profile" where
  "behaviors INITIALIZING =
     \<lparr> ui_mode = ''loading'', monitoring_frequency = 0, alert_level = ''none'',
       user_actions = [''wait''], data_collection = ''basic'',
       notifications = None, auto_actions = None \<rparr>"
| "behaviors MONITORING =
     \<lparr> ui_mode = ''normal'', monitoring_frequency = 30000, alert_level = ''info'',
       user_actions = [''view_status'', ''manual_assessment'', ''settings''],
       data_collection = ''standard'', notifications = None, auto_actions = None \<rparr>"
| "behaviors LOW_RISK =
     \<lparr> ui_mode = ''normal'', monitoring_frequency = 60000, alert_level = ''success'',
       user_actions = [''continue_activity'', ''view_details'', ''manual_check''],
       data_collection = ''standard'', notifications = Some ''minimal'', auto_actions = None \<rparr>"
| "behaviors MEDIUM_RISK =
     \<lparr> ui_mode = ''caution'', monitoring_frequency = 15000, alert_level = ''warning'',
       user_actions = [''review_conditions'', ''get_recommendations'', ''contact_others'',
                       ''prepare_exit''],
       data_collection = ''enhanced'', notifications = Some ''standard'', auto_actions = None \<rparr>"
| "behaviors HIGH_RISK =
     \<lparr> ui_mode = ''alert'', monitoring_frequency = 5000, alert_level = ''danger'',
       user_actions = [''take_shelter'', ''evacuate_area'', ''call_emergency'', ''follow_plan''],
       data_collection = ''intensive'', notifications = Some ''urgent'',
       auto_actions = Some [''send_location'', ''log_incident''] \<rparr>"
| "behaviors CRITICAL_RISK =
     \<lparr> ui_mode = ''emergency'', monitoring_frequency = 2000, alert_level = ''critical'',
       user_actions = [''emergency_evacuation'', ''call_911'', ''follow_emergency_plan''],
       data_collection = ''maximum'', notifications = Some ''emergency'',
       auto_actions = Some [''emergency_contacts'', ''location_broadcast'', ''incident_logging''] \<rparr>"
| "behaviors EMERGENCY_MODE =
     \<lparr> ui_mode = ''emergency_full'', monitoring_frequency = 1000, alert_level = ''emergency'',
       user_actions = [''follow_emergency_instructions'', ''confirm_safety''],
       data_collection = ''emergency'', notifications = Some ''continuous'',
       auto_actions =
         Some [''continuous_location'', ''emergency_services'', ''family_notification''] \<rparr>"
| "behaviors RECOVERY =
     \<lparr> ui_mode = ''recovery'', monitoring_frequency = 10000, alert_level = ''info'',
       user_actions = [''assess_damage'', ''report_status'', ''seek_help'', ''return_to_safety''],
       data_collection = ''assessment'', notifications = Some ''recovery'', auto_actions = None \<rparr>"
| "behaviors MAINTENANCE =
     \<lparr> ui_mode = ''maintenance'', monitoring_frequency = 0, alert_level = ''info'',
       user_actions = [''wait'', ''contact_support''], data_collection = ''none'',
       notifications = None, auto_actions = None \<rparr>"
| "behaviors ERROR =
     \<lparr> ui_mode = ''error'', monitoring_frequency = 0, alert_level = ''error'',
       user_actions = [''restart'', ''contact_support'', ''manual_mode''],
       data_collection = ''error_logging'', notifications = None, auto_actions = None \<rparr>"

text \<open>
  A registered behaviour handler or transition listener is a callback of the embedding
  application. The model keeps of it whether it returns or throws; a callback that calls
  back into the machine is outside the model.
\<close>

datatype handler = Returns | Throws string

type_synonym transition_context = "(string \<times> string) list"

record transition_entry =
  tr_from :: string
  tr_to :: string
  tr_timestamp :: int
  tr_context :: transition_context

record machine =
  maxStateHistory :: nat
  currentState :: state
  previousState :: "state option"
  stateHistory :: "transition_entry list"
  transitionListeners :: "handler list"
  behaviorHandlers :: "string \<Rightarrow> handler option"
  monitoringTimer :: "nat option"
  transitionTimer :: "nat option"
  entryTime :: int
  transitionCount :: nat
  monitoringFrequency :: "nat option"

text \<open>\<open>this.behaviorHandlers[name](...)\<close> when the handler is registered: the exception, if any.\<close>

definition callHandler :: "machine \<Rightarrow> string \<Rightarrow> js_error option" where
  "callHandler m n =
     (case behaviorHandlers m n of Some (Throws msg) \<Rightarrow> Some (Error msg) | _ \<Rightarrow> None)"

text \<open>The first exception of a sequence of calls, none of which changes the machine.\<close>

fun firstError :: "js_error option list \<Rightarrow> js_error option" where
  "firstError [] = None"
| "firstError (Some err # rest) = Some err"
| "firstError (None # rest) = firstError rest"

definition isTransitionAllowed :: "machine \<Rightarrow> string \<Rightarrow> bool" where
  "isTransitionAllowed m targetStateName =
     (targetStateName \<in> set (allowedTransitions (currentState m)))"

definition stopMonitoring :: "machine \<Rightarrow> machine" where
  "stopMonitoring m = (if monitoringTimer m \<noteq> None then m\<lparr>monitoringTimer := None\<rparr> else m)"

definition startMonitoring :: "machine \<Rightarrow> machine" where
  "startMonitoring m =
     (let m1 = stopMonitoring m
      in case monitoringFrequency m1 of
           Some frequency \<Rightarrow>
             if frequency > 0 then m1\<lparr>monitoringTimer := Some frequency\<rparr> else m1
         | None \<Rightarrow> m1)"

text \<open>
  \<open>applyStateBehaviors\<close>: the handlers are called in the order of the source, and
  \<open>setMonitoringFrequency\<close> stores the frequency after the \<open>ui_mode\<close> handler returned.
\<close>

definition applyStateBehaviors :: "state \<Rightarrow> machine \<Rightarrow> machine \<times> js_error option" where
  "applyStateBehaviors st m =
     (case callHandler m ''ui_mode'' of
        Some err \<Rightarrow> (m, Some err)
      | None \<Rightarrow>
          let b = behaviors st;
              m1 = m\<lparr>monitoringFrequency := Some (monitoring_frequency b)\<rparr>
          in (m1,
              firstError
                ([callHandler m1 ''alert_level'', callHandler m1 ''user_actions'',
                  callHandler m1 ''data_collection'']
                 @ (case notifications b of
                      Some n \<Rightarrow> if n = [] then [] else [callHandler m1 ''notifications'']
                    | None \<Rightarrow> [])
                 @ (case auto_actions b of
                      Some actions \<Rightarrow> map (\<lambda>a. callHandler m1 (''auto_'' @ a)) actions
                    | None \<Rightarrow> [])
                 @ [callHandler m1 (''state_'' @ toLowerCase (stateName st))])))"

definition enterState :: "int \<Rightarrow> state \<Rightarrow> machine \<Rightarrow> machine \<times> js_error option" where
  "enterState now st m =
     (let m1 = m\<lparr>previousState := Some (currentState m), currentState := st,
                 entryTime := now, transitionCount := transitionCount m + 1\<rparr>
      in case applyStateBehaviors st m1 of
           (m2, Some err) \<Rightarrow> (m2, Some err)
         | (m2, None) \<Rightarrow> (startMonitoring m2, None))"

definition exitState :: "machine \<Rightarrow> machine \<times> js_error option" where
  "exitState m =
     (let m1 = (if transitionTimer m \<noteq> None then m\<lparr>transitionTimer := None\<rparr> else m)
      in case callHandler m1 (stateName (currentState m1) @ ''_cleanup'') of
           Some err \<Rightarrow> (m1, Some err)
         | None \<Rightarrow> (stopMonitoring m1, None))"

definition recordTransition :: "int \<Rightarrow> state \<Rightarrow> transition_context \<Rightarrow> machine \<Rightarrow> machine" where
  "recordTransition now newState ctx m =
     (let h = stateHistory m @
                [\<lparr> tr_from = stateName (currentState m), tr_to = stateName newState,
                   tr_timestamp = now, tr_context = ctx \<rparr>]
      in m\<lparr>stateHistory :=
             (if length h > maxStateHistory m then slice_last (maxStateHistory m) h else h)\<rparr>)"

text \<open>
  \<open>executeTransition\<close>: an exception of a handler is caught and returned as
  \<open>{success: false, error}\<close>, with the machine as the exception left it. An exception of a
  listener is caught inside \<open>notifyTransitionListeners\<close>, which changes nothing.
\<close>

definition executeTransition ::
  "int \<Rightarrow> state \<Rightarrow> transition_context \<Rightarrow> machine \<Rightarrow> machine \<times> (js_error + unit)" where
  "executeTransition now newState ctx m =
     (case exitState m of
        (m1, Some err) \<Rightarrow> (m1, Inl err)
      | (m1, None) \<Rightarrow>
          (case enterState now newState (recordTransition now newState ctx m1) of
             (m3, Some err) \<Rightarrow> (m3, Inl err)
           | (m3, None) \<Rightarrow> (m3, Inr ())))"

text \<open>The body of \<open>transition\<close> once \<open>this.states[newStateName]\<close> has given a state.\<close>

definition transitionTo ::
  "int \<Rightarrow> string \<Rightarrow> state \<Rightarrow> transition_context \<Rightarrow> machine \<Rightarrow> machine \<times> bool" where
  "transitionTo now newStateName newState ctx m =
     (if \<not> isTransitionAllowed m newStateName then (m, False)
      else case executeTransition now newState ctx m of
             (m', Inr _) \<Rightarrow> (m', True)
           | (m', Inl _) \<Rightarrow> (m', False))"

text \<open>
  \<open>handleError\<close> calls \<open>transition('ERROR', ...)\<close> unless the machine is in ERROR; the name
  ERROR is a key of \<open>this.states\<close>, so that call runs the body above.
\<close>

definition handleError :: "int \<Rightarrow> js_error \<Rightarrow> machine \<Rightarrow> machine" where
  "handleError now err m =
     (if stateName (currentState m) \<noteq> ''ERROR''
      then fst (transitionTo now ''ERROR'' ERROR
                  [(''reason'', ''error''),
                   (''error'', (case err of Error msg \<Rightarrow> msg | TypeError \<Rightarrow> ''TypeError''))] m)
      else m)"

text \<open>
  \<open>transition(newStateName, context)\<close>: the machine after the call and the boolean returned.
  A name that is no key of \<open>this.states\<close> throws inside the \<open>try\<close>; the \<open>catch\<close> calls
  \<open>handleError\<close> and returns false.
\<close>

definition transition ::
  "int \<Rightarrow> string \<Rightarrow> transition_context \<Rightarrow> machine \<Rightarrow> machine \<times> bool" where
  "transition now newStateName ctx m =
     (case states newStateName of
        None \<Rightarrow> (handleError now (Error (''Invalid state: '' @ newStateName)) m, False)
      | Some newState \<Rightarrow> transitionTo now newStateName newState ctx m)"

text \<open>
  The constructor with no options, before the timer of \<open>initialize\<close> fires:
  \<open>enterState(INITIALIZING)\<close> has run with no handler registered.
\<close>

definition new_machine :: "int \<Rightarrow> machine" where
  "new_machine now =
     fst (enterState now INITIALIZING
       \<lparr> maxStateHistory = 50, currentState = INITIALIZING, previousState = None,
         stateHistory = [], transitionListeners = [], behaviorHandlers = (\<lambda>n. None),
         monitoringTimer = None, transitionTimer = None, entryTime = now,
         transitionCount = 0, monitoringFrequency = None \<rparr>)"

section \<open>riskSimulation.js\<close>

text \<open>
  What the simulation takes from its surroundings is an argument of the model: the clock
  reading at the start (milliseconds, in local time), the draw \<open>Math.random()\<close> returns
  at each step, whether a global function \<open>assessRisk\<close> is defined, and the locale's
  formatting of a time of day.
\<close>

record sim_env =
  startTime :: int
  random :: "nat \<Rightarrow> real"
  assessRiskDefined :: bool
  toLocaleTimeString :: "int \<Rightarrow> string"

record weather_trend =
  wt_direction :: string
  wt_rate :: real
  wt_volatility :: real

record crowd_trend =
  ct_direction :: string
  ct_peak_times :: "int list"
  ct_base_growth_rate :: real

record visibility_trend =
  vt_weather_dependent :: bool
  vt_time_dependent :: bool
  vt_base_visibility :: real

record temperature_trend =
  tt_direction :: string
  tt_daily_variation :: real
  tt_rate :: real

record trends =
  weather_trend :: weather_trend
  crowd_trend :: crowd_trend
  visibility_trend :: visibility_trend
  temperature_trend :: temperature_trend

text \<open>
  The \<open>trends\<close> argument: each of the four keys may be absent. A trend object that is given
  replaces the default one whole (\<open>{...defaultTrends, ...trends}\<close>) and carries all its fields.
\<close>

record trend_overrides =
  weather_trend_given :: "weather_trend option"
  crowd_trend_given :: "crowd_trend option"
  visibility_trend_given :: "visibility_trend option"
  temperature_trend_given :: "temperature_trend option"

definition no_overrides :: trend_overrides where
  "no_overrides =
     \<lparr> weather_trend_given = None, crowd_trend_given = None,
       visibility_trend_given = None, temperature_trend_given = None \<rparr>"

definition generateDefaultTrends :: trends where
  "generateDefaultTrends =
     \<lparr> weather_trend = \<lparr> wt_direction = ''stable'', wt_rate = 1 / 10, wt_volatility = 2 / 10 \<rparr>,
       crowd_trend =
         \<lparr> ct_direction = ''cyclical'', ct_peak_times = [9, 13, 18],
           ct_base_growth_rate = 5 / 100 \<rparr>,
       visibility_trend =
         \<lparr> vt_weather_dependent = True, vt_time_dependent = True, vt_base_visibility = 8 / 10 \<rparr>,
       temperature_trend =
         \<lparr> tt_direction = ''stable'', tt_daily_variation = 10, tt_rate = 1 / 2 \<rparr> \<rparr>"

definition mergeTrends :: "trends \<Rightarrow> trend_overrides \<Rightarrow> trends" where
  "mergeTrends d t =
     \<lparr> weather_trend = (case weather_trend_given t of Some x \<Rightarrow> x | None \<Rightarrow> weather_trend d),
       crowd_trend = (case crowd_trend_given t of Some x \<Rightarrow> x | None \<Rightarrow> crowd_trend d),
       visibility_trend =
         (case visibility_trend_given t of Some x \<Rightarrow> x | None \<Rightarrow> visibility_trend d),
       temperature_trend =
         (case temperature_trend_given t of Some x \<Rightarrow> x | None \<Rightarrow> temperature_trend d) \<rparr>"

text \<open>The conditions of one simulated step; an array read out of range is \<open>undefined\<close>.\<close>

record sim_conditions =
  sc_weather :: "string option"
  sc_crowd_density :: "string option"
  sc_time :: string
  sc_visibility :: real
  sc_temperature_factor :: real
  sc_location :: "string option"

record sim_assessment =
  sa_risk_level :: string
  sa_risk_score :: real
  sa_factors :: "string list"

record prediction_point =
  pp_time :: int
  hours_from_start :: real
  pp_conditions :: sim_conditions
  pp_risk_assessment :: sim_assessment
  confidence :: real

definition validateSimulationInputs :: "conditions option \<Rightarrow> real \<Rightarrow> real \<Rightarrow> js_error + unit" where
  "validateSimulationInputs conds hoursAhead intervalMinutes =
     (if conds = None then Inl (Error ''Initial conditions must be a valid object'')
      else if hoursAhead \<le> 0 \<or> hoursAhead > 48 then
        Inl (Error ''Hours ahead must be between 1 and 48'')
      else if intervalMinutes \<le> 0 \<or> intervalMinutes > 240 then
        Inl (Error ''Interval minutes must be between 1 and 240'')
      else Inr ())"

text \<open>\<open>xs.indexOf(x)\<close>: the first position of \<open>x\<close>, or -1.\<close>

fun indexOf :: "'a list \<Rightarrow> 'a \<Rightarrow> int" where
  "indexOf [] x = - 1"
| "indexOf (y # ys) x = (if y = x then 0 else let i = indexOf ys x in if i < 0 then - 1 else i + 1)"

text \<open>\<open>xs[i]\<close> for an integer \<open>i\<close>: \<open>undefined\<close> outside the array.\<close>

definition at_index :: "'a list \<Rightarrow> int \<Rightarrow> 'a option" where
  "at_index xs i = (if 0 \<le> i \<and> i < int (length xs) then Some (xs ! nat i) else None)"

text \<open>\<open>date.getHours()\<close> of a clock reading in local time.\<close>

definition getHours :: "int \<Rightarrow> int" where
  "getHours t = (t div 3600000) mod 24"

definition weatherStates :: "string list" where
  "weatherStates = [''clear'', ''cloudy'', ''rainy'', ''stormy'', ''foggy'']"

definition crowdLevels :: "string list" where
  "crowdLevels = [''isolated'', ''light'', ''moderate'', ''heavy'', ''overcrowded'']"

text \<open>
  \<open>simulateWeatherChange\<close> with the draw \<open>r\<close> of \<open>Math.random()\<close>. \<open>indexOf(...) || 0\<close> keeps
  -1 for a weather that is not in the list. An undefined initial weather throws at
  \<open>toLowerCase\<close>.
\<close>

definition simulateWeatherChange ::
  "string option \<Rightarrow> weather_trend \<Rightarrow> real \<Rightarrow> real \<Rightarrow> js_error + string option" where
  "simulateWeatherChange initialWeather weatherTrend hoursElapsed r =
     (case initialWeather of
        None \<Rightarrow> Inl TypeError
      | Some w \<Rightarrow>
          let currentIndex = indexOf weatherStates (toLowerCase w);
              changeRate = wt_rate weatherTrend * hoursElapsed;
              randomFactor = (r - 1 / 2) * wt_volatility weatherTrend;
              newIndex =
                (if wt_direction weatherTrend = ''deteriorating'' then
                   min (int (length weatherStates) - 1)
                       (currentIndex + \<lfloor>changeRate + randomFactor\<rfloor>)
                 else if wt_direction weatherTrend = ''improving'' then
                   max 0 (currentIndex - \<lfloor>changeRate + randomFactor\<rfloor>)
                 else
                   max 0 (min (int (length weatherStates) - 1)
                              (currentIndex + \<lfloor>randomFactor * 2\<rfloor>)))
          in Inr (at_index weatherStates newIndex))"

text \<open>\<open>simulateCrowdChange\<close>: \<open>indexOf(...) || 1\<close> turns the index 0 of 'isolated' into 1.\<close>

definition simulateCrowdChange ::
  "string option \<Rightarrow> crowd_trend \<Rightarrow> int \<Rightarrow> real \<Rightarrow> js_error + string option" where
  "simulateCrowdChange initialCrowd crowdTrend currentTime hoursElapsed =
     (case initialCrowd of
        None \<Rightarrow> Inl TypeError
      | Some c \<Rightarrow>
          let i0 = indexOf crowdLevels (toLowerCase c);
              currentIndex = (if i0 = 0 then 1 else i0);
              currentHour = getHours currentTime;
              modifier =
                (if ct_direction crowdTrend = ''cyclical'' then
                   (if list_ex (\<lambda>peakHour. \<bar>currentHour - peakHour\<bar> \<le> 1)
                         (ct_peak_times crowdTrend)
                    then 1 else - (1 / 2))
                 else if ct_direction crowdTrend = ''increasing'' then
                   ct_base_growth_rate crowdTrend * hoursElapsed
                 else if ct_direction crowdTrend = ''decreasing'' then
                   - ct_base_growth_rate crowdTrend * hoursElapsed
                 else 0);
              newIndex =
                max 0 (min (int (length crowdLevels) - 1)
                           \<lfloor>js_round (real_of_int currentIndex + modifier)\<rfloor>)
          in Inr (at_index crowdLevels newIndex))"

definition getTimeContext :: "int \<Rightarrow> string" where
  "getTimeContext date =
     (let hour = getHours date
      in if hour \<ge> 5 \<and> hour < 8 then ''dawn''
         else if hour \<ge> 8 \<and> hour < 12 then ''morning''
         else if hour \<ge> 12 \<and> hour < 17 then ''afternoon''
         else if hour \<ge> 17 \<and> hour < 20 then ''evening''
         else if hour \<ge> 20 \<and> hour < 24 then ''night''
         else ''late_night'')"

definition weatherImpact :: "(string \<times> real) list" where
  "weatherImpact =
     [(''clear'', 1), (''cloudy'', 8 / 10), (''rainy'', 5 / 10), (''stormy'', 3 / 10),
      (''foggy'', 2 / 10)]"

text \<open>The \<open>visibility_factor\<close> column of \<open>this.timeFactors\<close>.\<close>

definition timeVisibilityFactor :: "(string \<times> real) list" where
  "timeVisibilityFactor =
     [(''dawn'', 6 / 10), (''morning'', 1), (''afternoon'', 1), (''evening'', 8 / 10),
      (''night'', 4 / 10), (''late_night'', 3 / 10)]"

definition calculateVisibility :: "string option \<Rightarrow> string \<Rightarrow> visibility_trend \<Rightarrow> real" where
  "calculateVisibility w timeContext visibilityTrend =
     (let v0 = vt_base_visibility visibilityTrend;
          v1 = v0 * js_or (case w of None \<Rightarrow> None | Some x \<Rightarrow> map_of weatherImpact x) (8 / 10);
          v2 = (if vt_time_dependent visibilityTrend
                then v1 * js_or (map_of timeVisibilityFactor timeContext) (8 / 10)
                else v1)
      in max (1 / 10) (min 1 v2))"

definition simulateTemperatureChange :: "temperature_trend \<Rightarrow> int \<Rightarrow> real \<Rightarrow> real" where
  "simulateTemperatureChange tempTrend currentTime hoursElapsed =
     (let hour = getHours currentTime;
          dailyCycle = sin (real_of_int (hour - 6) * pi / 12);
          baseTemp = 20 + dailyCycle * tt_daily_variation tempTrend / 2;
          trendAdjustment =
            (if tt_direction tempTrend = ''increasing'' then tt_rate tempTrend * hoursElapsed
             else if tt_direction tempTrend = ''decreasing'' then - tt_rate tempTrend * hoursElapsed
             else 0)
      in baseTemp + trendAdjustment)"

definition calculateConditionsAtTime ::
  "conditions \<Rightarrow> trends \<Rightarrow> real \<Rightarrow> int \<Rightarrow> real \<Rightarrow> js_error + sim_conditions" where
  "calculateConditionsAtTime initialConditions tr hoursElapsed currentTime r =
     (case simulateWeatherChange (weather initialConditions) (weather_trend tr) hoursElapsed r of
        Inl err \<Rightarrow> Inl err
      | Inr w \<Rightarrow>
          (case simulateCrowdChange (crowd_density initialConditions) (crowd_trend tr)
                  currentTime hoursElapsed of
             Inl err \<Rightarrow> Inl err
           | Inr c \<Rightarrow>
               Inr \<lparr> sc_weather = w,
                     sc_crowd_density = c,
                     sc_time = getTimeContext currentTime,
                     sc_visibility =
                       calculateVisibility w (getTimeContext currentTime) (visibility_trend tr),
                     sc_temperature_factor =
                       simulateTemperatureChange (temperature_trend tr) currentTime hoursElapsed,
                     sc_location = location initialConditions \<rparr>))"

text \<open>
  The global \<open>assessRisk(location, time, weather, crowdDensity)\<close>, when one is defined: the
  function of the risk assessment script. Of its result the simulation reads the level and
  the score; the list of preventive steps is left out of the model. Each of the four
  \<open>if\<close> chains adds its points to the score and its factor to the list. An undefined
  weather or crowd density throws at \<open>toLowerCase\<close>.
\<close>

definition weatherPart :: "string \<Rightarrow> real \<times> string list" where
  "weatherPart weatherLower =
     (if js_includes weatherLower ''storm'' \<or> js_includes weatherLower ''tornado''
         \<or> js_includes weatherLower ''hurricane''
      then (3, [''severe weather''])
      else if js_includes weatherLower ''rain'' \<or> js_includes weatherLower ''snow''
         \<or> js_includes weatherLower ''fog''
      then (2, [''adverse weather''])
      else if js_includes weatherLower ''cloudy'' \<or> js_includes weatherLower ''overcast''
      then (1, [''reduced visibility''])
      else (0, []))"

definition timePart :: "string \<Rightarrow> real \<times> string list" where
  "timePart timeLower =
     (if js_includes timeLower ''night'' \<or> js_includes timeLower ''midnight''
         \<or> js_includes timeLower ''late''
      then (2, [''nighttime conditions''])
      else if js_includes timeLower ''evening'' \<or> js_includes timeLower ''dawn''
         \<or> js_includes timeLower ''dusk''
      then (1, [''low light conditions''])
      else (0, []))"

definition crowdPart :: "string \<Rightarrow> real \<times> string list" where
  "crowdPart crowdLower =
     (if js_includes crowdLower ''overcrowded'' \<or> js_includes crowdLower ''packed''
         \<or> js_includes crowdLower ''dangerous''
      then (3, [''overcrowding hazard''])
      else if js_includes crowdLower ''heavy'' \<or> js_includes crowdLower ''dense''
      then (2, [''high crowd density''])
      else if js_includes crowdLower ''isolated'' \<or> js_includes crowdLower ''alone''
         \<or> js_includes crowdLower ''remote''
      then (1, [''isolation risk''])
      else (0, []))"

definition locationPart :: "string \<Rightarrow> real \<times> string list" where
  "locationPart locationLower =
     (if js_includes locationLower ''construction'' \<or> js_includes locationLower ''industrial''
         \<or> js_includes locationLower ''hazardous''
      then (2, [''hazardous area''])
      else if js_includes locationLower ''remote'' \<or> js_includes locationLower ''wilderness''
         \<or> js_includes locationLower ''isolated''
      then (1, [''remote location''])
      else if js_includes locationLower ''water'' \<or> js_includes locationLower ''beach''
         \<or> js_includes locationLower ''river''
      then (1, [''water proximity''])
      else (0, []))"

definition assessRisk ::
  "string \<Rightarrow> string \<Rightarrow> string option \<Rightarrow> string option \<Rightarrow> js_error + sim_assessment" where
  "assessRisk loc tm w crowdDensity =
     (case w of
        None \<Rightarrow> Inl TypeError
      | Some w' \<Rightarrow>
          (case crowdDensity of
             None \<Rightarrow> Inl TypeError
           | Some c' \<Rightarrow>
               let parts = [weatherPart (toLowerCase w'), timePart (toLowerCase tm),
                            crowdPart (toLowerCase c'), locationPart (toLowerCase loc)];
                   riskScore = foldl (+) 0 (map fst parts);
                   riskFactors = concat (map snd parts)
               in Inr \<lparr> sa_risk_level =
                           (if riskScore \<ge> 5 then ''HIGH''
                            else if riskScore \<ge> 3 then ''MEDIUM'' else ''LOW''),
                         sa_risk_score = riskScore,
                         sa_factors = riskFactors \<rparr>))"

definition simpleRiskAssessment :: "sim_conditions \<Rightarrow> sim_assessment" where
  "simpleRiskAssessment c =
     (let weatherScores' =
            [(''clear'', 0), (''cloudy'', 1), (''rainy'', 2), (''stormy'', 3), (''foggy'', 2)];
          crowdScores' =
            [(''isolated'', 1), (''light'', 0), (''moderate'', 1), (''heavy'', 2),
             (''overcrowded'', 3)];
          timeScores' =
            [(''dawn'', 1), (''morning'', 0), (''afternoon'', 0), (''evening'', 1),
             (''night'', 2), (''late_night'', 3)];
          score =
            js_or (case sc_weather c of None \<Rightarrow> None | Some w \<Rightarrow> map_of weatherScores' w) 0
            + js_or (case sc_crowd_density c of None \<Rightarrow> None | Some d \<Rightarrow> map_of crowdScores' d) 0
            + js_or (map_of timeScores' (sc_time c)) 0
      in \<lparr> sa_risk_level =
             (if score \<ge> 5 then ''HIGH'' else if score \<ge> 3 then ''MEDIUM'' else ''LOW''),
           sa_risk_score = score,
           sa_factors = [] \<rparr>)"

definition assessRiskAtTime :: "sim_env \<Rightarrow> sim_conditions \<Rightarrow> js_error + sim_assessment" where
  "assessRiskAtTime env c =
     (if assessRiskDefined env then
        assessRisk (case sc_location c of
                      None \<Rightarrow> ''unknown location''
                    | Some l \<Rightarrow> if l = [] then ''unknown location'' else l)
                   (sc_time c) (sc_weather c) (sc_crowd_density c)
      else Inr (simpleRiskAssessment c))"

definition calculateConfidence :: "real \<Rightarrow> real" where
  "calculateConfidence hoursElapsed =
     (let baseConfidence = 95 / 100; decayRate = 5 / 100
      in max (3 / 10) (baseConfidence - decayRate * hoursElapsed))"

text \<open>
  One pass of the loop body for the counter \<open>i\<close>. The \<open>Date\<close> built from a fractional number
  of milliseconds drops the fraction.
\<close>

definition predictionAt ::
  "sim_env \<Rightarrow> conditions \<Rightarrow> trends \<Rightarrow> real \<Rightarrow> nat \<Rightarrow> js_error + prediction_point" where
  "predictionAt env initialConditions tr intervalMinutes i =
     (let currentTime = startTime env + \<lfloor>real i * intervalMinutes * 60000\<rfloor>;
          timeElapsed = real i * intervalMinutes / 60
      in case calculateConditionsAtTime initialConditions tr timeElapsed currentTime
                (random env i) of
           Inl err \<Rightarrow> Inl err
         | Inr c \<Rightarrow>
             (case assessRiskAtTime env c of
                Inl err \<Rightarrow> Inl err
              | Inr a \<Rightarrow>
                  Inr \<lparr> pp_time = currentTime,
                        hours_from_start = timeElapsed,
                        pp_conditions = c,
                        pp_risk_assessment = a,
                        confidence = calculateConfidence timeElapsed \<rparr>))"

text \<open>The loop: the passes in order, stopping at the first exception.\<close>

fun collect :: "(nat \<Rightarrow> js_error + 'a) \<Rightarrow> nat list \<Rightarrow> js_error + 'a list" where
  "collect f [] = Inr []"
| "collect f (i # rest) =
     (case f i of
        Inl err \<Rightarrow> Inl err
      | Inr x \<Rightarrow> (case collect f rest of Inl err \<Rightarrow> Inl err | Inr xs \<Rightarrow> Inr (x # xs)))"

record risk_change =
  rc_time :: int
  rc_from :: string
  rc_to :: string

record peak_risk =
  pk_time :: int
  pk_level :: string
  pk_score :: real

record trend_analysis =
  trend_direction :: string
  peak :: peak_risk
  risk_changes :: "risk_change list"
  average_score :: real
  volatility :: real

definition calculateVolatility :: "real list \<Rightarrow> real" where
  "calculateVolatility scores =
     (let mean = foldl (+) 0 scores / real (length scores);
          variance = foldl (\<lambda>s score. s + (score - mean) ^ 2) 0 scores / real (length scores)
      in sqrt variance)"

fun riskChanges :: "prediction_point list \<Rightarrow> risk_change list" where
  "riskChanges (p # q # rest) =
     (if sa_risk_level (pp_risk_assessment q) \<noteq> sa_risk_level (pp_risk_assessment p)
      then [\<lparr> rc_time = pp_time q, rc_from = sa_risk_level (pp_risk_assessment p),
               rc_to = sa_risk_level (pp_risk_assessment q) \<rparr>]
      else [])
     @ riskChanges (q # rest)"
| "riskChanges ps = []"

text \<open>
  \<open>analyzeTrends\<close>: with no prediction, \<open>predictions[peakIndex]\<close> is \<open>undefined\<close> and the read
  of its \<open>time\<close> throws.
\<close>

definition analyzeTrends :: "prediction_point list \<Rightarrow> js_error + trend_analysis" where
  "analyzeTrends ps =
     (if ps = [] then Inl TypeError
      else
        let riskScores = map (\<lambda>p. sa_risk_score (pp_risk_assessment p)) ps;
            firstScore = hd riskScores;
            lastScore = last riskScores;
            maxScore = Max (set riskScores);
            peakTime = ps ! nat (indexOf riskScores maxScore)
        in Inr \<lparr> trend_direction =
                    (if lastScore > firstScore then ''increasing''
                     else if lastScore < firstScore then ''decreasing'' else ''stable''),
                  peak =
                    \<lparr> pk_time = pp_time peakTime,
                      pk_level = sa_risk_level (pp_risk_assessment peakTime),
                      pk_score = sa_risk_score (pp_risk_assessment peakTime) \<rparr>,
                  risk_changes = riskChanges ps,
                  average_score = foldl (+) 0 riskScores / real (length riskScores),
                  volatility = calculateVolatility riskScores \<rparr>)"

definition generateTimeBasedRecommendations :: "sim_env \<Rightarrow> trend_analysis \<Rightarrow> string list" where
  "generateTimeBasedRecommendations env analysis =
     (if trend_direction analysis = ''increasing'' then
        [''Risk levels are expected to increase - prepare for escalating conditions'',
         ''Consider completing activities earlier than planned'']
      else if trend_direction analysis = ''decreasing'' then
        [''Conditions are expected to improve over time'',
         ''Consider delaying non-essential activities if currently high risk'']
      else [])
     @ (if pk_level (peak analysis) = ''HIGH'' then
          [''Peak risk expected at '' @ toLocaleTimeString env (pk_time (peak analysis)),
           ''Plan activities to avoid peak risk periods'']
        else [])
     @ (if volatility analysis > 15 / 10 then
          [''Conditions are highly variable - monitor frequently'',
           ''Be prepared for rapid changes in risk levels'']
        else [])
     @ (if length (risk_changes analysis) > 3 then
          [''Multiple risk level changes expected - stay flexible with plans'']
        else [])"

text \<open>
  The two objects \<open>simulateRiskProgression\<close> returns. The failure object of the \<open>catch\<close> is
  \<open>{success: false, error: error.message, timestamp}\<close>; \<open>failure_keys\<close> lists its keys.
\<close>

record failure_object =
  fo_error :: js_error
  fo_timestamp :: int

definition failure_keys :: "failure_object \<Rightarrow> string list" where
  "failure_keys f = [''success'', ''error'', ''timestamp'']"

record simulation_result =
  sr_start_time :: int
  sr_hours_ahead :: real
  sr_interval_minutes :: real
  sr_total_predictions :: nat
  sr_initial_conditions :: conditions
  sr_trends_used :: trends
  predictions :: "prediction_point list"
  sr_trend_analysis :: trend_analysis
  sr_recommendations :: "string list"

text \<open>
  \<open>simulateRiskProgression(initialConditions, trends, hoursAhead, intervalMinutes)\<close>; \<open>None\<close>
  for the conditions is an argument that is no object. The loop runs for the counters
  \<open>0, ..., intervals\<close>. Every exception is caught and returned as the failure object.
\<close>

definition simulateRiskProgression ::
  "sim_env \<Rightarrow> conditions option \<Rightarrow> trend_overrides \<Rightarrow> real \<Rightarrow> real
     \<Rightarrow> failure_object + simulation_result" where
  "simulateRiskProgression env initialConditions trs hoursAhead intervalMinutes =
     (let failed = (\<lambda>err. Inl \<lparr> fo_error = err, fo_timestamp = startTime env \<rparr>)
      in case validateSimulationInputs initialConditions hoursAhead intervalMinutes of
           Inl err \<Rightarrow> failed err
         | Inr _ \<Rightarrow>
             (case initialConditions of
                None \<Rightarrow> failed TypeError
              | Some c \<Rightarrow>
                  let intervals = \<lceil>hoursAhead * 60 / intervalMinutes\<rceil>;
                      simulationTrends = mergeTrends generateDefaultTrends trs
                  in case collect (predictionAt env c simulationTrends intervalMinutes)
                            [0..<nat (intervals + 1)] of
                       Inl err \<Rightarrow> failed err
                     | Inr ps \<Rightarrow>
                         (case analyzeTrends ps of
                            Inl err \<Rightarrow> failed err
                          | Inr analysis \<Rightarrow>
                              Inr \<lparr> sr_start_time = startTime env,
                                    sr_hours_ahead = hoursAhead,
                                    sr_interval_minutes = intervalMinutes,
                                    sr_total_predictions = length ps,
                                    sr_initial_conditions = c,
                                    sr_trends_used = simulationTrends,
                                    predictions = ps,
                                    sr_trend_analysis = analysis,
                                    sr_recommendations =
                                      generateTimeBasedRecommendations env analysis \<rparr>)))"

text \<open>Surroundings for a concrete run: midnight, every draw 0.5, no global \<open>assessRisk\<close>.\<close>

definition quiet_env :: sim_env where
  "quiet_env =
     \<lparr> startTime = 0, random = (\<lambda>i. 1 / 2), assessRiskDefined = False,
       toLocaleTimeString = (\<lambda>t. ''00:00:00'') \<rparr>"

text \<open>
  A second run: fog that is expected to improve. The global \<open>assessRisk\<close> of the risk
  assessment script is loaded, and every draw of \<open>Math.random()\<close> is 0.25.
\<close>

definition foggy_conditions :: conditions where
  "foggy_conditions =
     \<lparr> weather = Some ''foggy'', time = Some ''morning'',
       crowd_density = Some ''light'', location = Some ''city park'',
       visibility = Some (VisNumber (2 / 10)) \<rparr>"

definition improving_weather :: trend_overrides where
  "improving_weather =
     no_overrides\<lparr>weather_trend_given :=
       Some \<lparr> wt_direction = ''improving'', wt_rate = 1 / 10, wt_volatility = 2 / 10 \<rparr>\<rparr>"

definition loaded_env :: sim_env where
  "loaded_env =
     \<lparr> startTime = 0, random = (\<lambda>i. 1 / 4), assessRiskDefined = True,
       toLocaleTimeString = (\<lambda>t. ''00:00:00'') \<rparr>"

section \<open>riskBreakdownAnalyzer.js\<close>

text \<open>
  The placeholders of the analyzer call \<open>Math.random()\<close> ten times for one analysis, in
  the order weather (stability, forecast trend, seasonal appropriateness), crowd (behaviour,
  flow pattern, demographics), location (accessibility, infrastructure, historical
  incidents), visibility (obstacles); \<open>draws\<close> gives them by position. The time factor and
  the lighting read the clock: the hour, the day of the week and the month of \<open>new Date()\<close>.
\<close>

record analyzer_env =
  draws :: "nat \<Rightarrow> real"
  clock_hour :: nat
  clock_day :: nat
  clock_month :: nat

record factor_score =
  total_score :: real
  sub_scores :: "(string \<times> real) list"
  fs_confidence :: real

definition defaultWeights :: "(string \<times> real) list" where
  "defaultWeights =
     [(''weather'', 30 / 100), (''time'', 20 / 100), (''crowd'', 25 / 100),
      (''location'', 15 / 100), (''visibility'', 10 / 100)]"

definition getWeatherIntensity :: "string option \<Rightarrow> real" where
  "getWeatherIntensity w = js_or (lookup_lower weatherScores w) 1"

text \<open>\<open>Math.random() * 2 + 1\<close>, the placeholder most sub-factors share.\<close>

definition placeholder :: "analyzer_env \<Rightarrow> nat \<Rightarrow> real" where
  "placeholder env k = draws env k * 2 + 1"

definition truthy :: "string option \<Rightarrow> bool" where
  "truthy s = (case s of None \<Rightarrow> False | Some x \<Rightarrow> x \<noteq> [])"

definition calculateWeatherScore :: "analyzer_env \<Rightarrow> conditions \<Rightarrow> factor_score" where
  "calculateWeatherScore env c =
     (let weatherIntensity = getWeatherIntensity (weather c);
          weatherStability = placeholder env 0;
          forecastTrend = placeholder env 1;
          seasonalAppropriate = placeholder env 2
      in \<lparr> total_score = weatherIntensity * (4 / 10) + weatherStability * (3 / 10)
                          + forecastTrend * (2 / 10) + seasonalAppropriate * (1 / 10),
           sub_scores = [(''intensity'', weatherIntensity), (''stability'', weatherStability),
                         (''forecast_trend'', forecastTrend),
                         (''seasonal_appropriateness'', seasonalAppropriate)],
           fs_confidence = (if truthy (weather c) then 9 / 10 else 5 / 10) \<rparr>)"

definition getHourOfDayRisk :: "analyzer_env \<Rightarrow> real" where
  "getHourOfDayRisk env =
     (let hour = clock_hour env
      in if hour \<ge> 22 \<or> hour \<le> 5 then 3 else if hour \<ge> 18 \<or> hour \<le> 7 then 2 else 1)"

definition getDayOfWeekRisk :: "analyzer_env \<Rightarrow> real" where
  "getDayOfWeekRisk env = (if clock_day env = 0 \<or> clock_day env = 6 then 15 / 10 else 1)"

definition getSeasonalRisk :: "analyzer_env \<Rightarrow> real" where
  "getSeasonalRisk env = (if clock_month env \<ge> 11 \<or> clock_month env \<le> 2 then 2 else 1)"

definition calculateTimeScore :: "analyzer_env \<Rightarrow> conditions \<Rightarrow> factor_score" where
  "calculateTimeScore env c =
     (let hourRisk = getHourOfDayRisk env;
          dayRisk = getDayOfWeekRisk env;
          seasonalRisk = getSeasonalRisk env;
          durationRisk = 1
      in \<lparr> total_score = hourRisk * (5 / 10) + dayRisk * (2 / 10) + seasonalRisk * (2 / 10)
                          + durationRisk * (1 / 10),
           sub_scores = [(''hour_of_day'', hourRisk), (''day_of_week'', dayRisk),
                         (''seasonal_factor'', seasonalRisk), (''duration_factor'', durationRisk)],
           fs_confidence = 95 / 100 \<rparr>)"

definition densityMap :: "(string \<times> real) list" where
  "densityMap =
     [(''isolated'', 0), (''light'', 1), (''moderate'', 2), (''heavy'', 3),
      (''overcrowded'', 4), (''dangerous'', 5)]"

definition calculateCrowdScore :: "analyzer_env \<Rightarrow> conditions \<Rightarrow> factor_score" where
  "calculateCrowdScore env c =
     (let density = js_or (lookup_lower densityMap (crowd_density c)) 2;
          behavior = draws env 3 * 3 + 1;
          flowPattern = placeholder env 4;
          demographics = placeholder env 5
      in \<lparr> total_score = density * (4 / 10) + behavior * (3 / 10) + flowPattern * (2 / 10)
                          + demographics * (1 / 10),
           sub_scores = [(''density'', density), (''behavior'', behavior),
                         (''flow_pattern'', flowPattern), (''demographics'', demographics)],
           fs_confidence = (if truthy (crowd_density c) then 8 / 10 else 4 / 10) \<rparr>)"

definition getLocationInherentRisk :: "string option \<Rightarrow> real" where
  "getLocationInherentRisk loc =
     (if \<not> truthy loc then 1
      else
        let s = toLowerCase (the loc);
            risk1 = (if js_includes s ''construction'' then 1 + 2 else 1);
            risk2 = (if js_includes s ''water'' then risk1 + 1 else risk1);
            risk3 = (if js_includes s ''mountain'' then risk2 + 15 / 10 else risk2);
            risk4 = (if js_includes s ''industrial'' then risk3 + 2 else risk3)
        in min risk4 5)"

definition analyzerLocationScore :: "analyzer_env \<Rightarrow> conditions \<Rightarrow> factor_score" where
  "analyzerLocationScore env c =
     (let inherentRisk = getLocationInherentRisk (location c);
          accessibility = placeholder env 6;
          infrastructure = placeholder env 7;
          historicalRisk = placeholder env 8
      in \<lparr> total_score = inherentRisk * (4 / 10) + accessibility * (2 / 10)
                          + infrastructure * (2 / 10) + historicalRisk * (2 / 10),
           sub_scores = [(''inherent_risk'', inherentRisk), (''accessibility'', accessibility),
                         (''infrastructure'', infrastructure),
                         (''historical_incidents'', historicalRisk)],
           fs_confidence = (if truthy (location c) then 85 / 100 else 3 / 10) \<rparr>)"

definition visibilityMap :: "(string \<times> real) list" where
  "visibilityMap =
     [(''excellent'', 0), (''good'', 1), (''fair'', 2), (''poor'', 3), (''very_poor'', 4),
      (''zero'', 5)]"

definition getCurrentVisibilityConditions :: "visibility_value option \<Rightarrow> real" where
  "getCurrentVisibilityConditions v =
     (case v of
        Some (VisNumber x) \<Rightarrow> (1 - x) * 4
      | Some (VisString s) \<Rightarrow> js_or (lookup_lower visibilityMap (Some s)) 2
      | None \<Rightarrow> 2)"

definition getLightingConditions :: "analyzer_env \<Rightarrow> real" where
  "getLightingConditions env =
     (let hour = clock_hour env
      in if hour \<ge> 20 \<or> hour \<le> 6 then 3 else if hour \<ge> 18 \<or> hour \<le> 8 then 2 else 1)"

definition analyzerVisibilityScore :: "analyzer_env \<Rightarrow> conditions \<Rightarrow> factor_score" where
  "analyzerVisibilityScore env c =
     (let currentConditions = getCurrentVisibilityConditions (visibility c);
          lighting = getLightingConditions env;
          obstacles = placeholder env 9
      in \<lparr> total_score = currentConditions * (5 / 10) + lighting * (3 / 10)
                          + obstacles * (2 / 10),
           sub_scores = [(''current_conditions'', currentConditions), (''lighting'', lighting),
                         (''obstacles'', obstacles)],
           fs_confidence = (if visibility c \<noteq> None then 8 / 10 else 5 / 10) \<rparr>)"

definition calculateFactorScores ::
  "analyzer_env \<Rightarrow> conditions \<Rightarrow> (string \<times> factor_score) list" where
  "calculateFactorScores env c =
     [(''weather'', calculateWeatherScore env c),
      (''time'', calculateTimeScore env c),
      (''crowd'', calculateCrowdScore env c),
      (''location'', analyzerLocationScore env c),
      (''visibility'', analyzerVisibilityScore env c)]"

record contribution =
  raw_score :: real
  weight :: real
  weighted_score :: real
  normalized_contribution :: real

definition calculateWeightedContributions ::
  "(string \<times> factor_score) list \<Rightarrow> (string \<times> real) list \<Rightarrow> (string \<times> contribution) list" where
  "calculateWeightedContributions factorScores ws =
     map (\<lambda>(f, w).
            let score = js_or (map_option total_score (map_of factorScores f)) 0
            in (f, \<lparr> raw_score = score, weight = w, weighted_score = score * w,
                     normalized_contribution = 0 \<rparr>))
         ws"

definition classifyImpactLevel :: "real \<Rightarrow> string" where
  "classifyImpactLevel p =
     (if p \<ge> 40 then ''CRITICAL'' else if p \<ge> 25 then ''HIGH''
      else if p \<ge> 15 then ''MEDIUM'' else if p \<ge> 5 then ''LOW'' else ''MINIMAL'')"

record breakdown_entry =
  percentage :: real
  be_raw_score :: real
  be_weighted_score :: real
  be_weight :: real
  impact_level :: string
  rank :: nat

text \<open>
  \<open>calculatePercentageBreakdown\<close>: the percentages, rounded to one decimal, then the ranks
  from a stable sort by descending rounded percentage. The keys of a JavaScript object are
  distinct.
\<close>

definition calculatePercentageBreakdown ::
  "(string \<times> contribution) list \<Rightarrow> (string \<times> breakdown_entry) list" where
  "calculatePercentageBreakdown weightedContributions =
     (let totalWeightedScore =
            foldl (\<lambda>s (f, contrib). s + weighted_score contrib) 0 weightedContributions;
          entries =
            map (\<lambda>(f, contrib).
                   let p = (if totalWeightedScore > 0
                            then weighted_score contrib / totalWeightedScore * 100 else 0)
                   in (f, \<lparr> percentage = js_round (p * 10) / 10,
                            be_raw_score = raw_score contrib,
                            be_weighted_score = weighted_score contrib,
                            be_weight = weight contrib,
                            impact_level = classifyImpactLevel p,
                            rank = 0 \<rparr>))
                weightedContributions;
          sortedKeys = map fst (sort_key (\<lambda>(f, d). - percentage d) entries)
      in map (\<lambda>(f, d). (f, d\<lparr>rank := nat (indexOf sortedKeys f) + 1\<rparr>)) entries)"

record interaction =
  ia_factors :: "string list"
  ia_strength :: string
  ia_description :: string
  impact_multiplier :: real

definition analyzeFactorInteractions :: "(string \<times> factor_score) list \<Rightarrow> interaction list" where
  "analyzeFactorInteractions factorScores =
     (let score = (\<lambda>f. js_or (map_option total_score (map_of factorScores f)) 0);
          weatherScore = score ''weather'';
          visibilityScore = score ''visibility'';
          timeScore = score ''time'';
          crowdScore = score ''crowd'';
          locationScore = score ''location''
      in (if weatherScore > 3 \<and> visibilityScore > 2 then
            [\<lparr> ia_factors = [''weather'', ''visibility''], ia_strength = ''high'',
               ia_description = ''Poor weather conditions are significantly reducing visibility'',
               impact_multiplier = 13 / 10 \<rparr>]
          else [])
         @ (if timeScore > 2 \<and> crowdScore > 3 then
              [\<lparr> ia_factors = [''time'', ''crowd''], ia_strength = ''medium'',
                 ia_description = ''High crowd density during risky time periods'',
                 impact_multiplier = 12 / 10 \<rparr>]
            else [])
         @ (if locationScore > 2 \<and> weatherScore > 3 then
              [\<lparr> ia_factors = [''location'', ''weather''], ia_strength = ''high'',
                 ia_description = ''Hazardous location combined with severe weather'',
                 impact_multiplier = 14 / 10 \<rparr>]
            else [])
         @ (if crowdScore > 3 \<and> visibilityScore > 2 then
              [\<lparr> ia_factors = [''crowd'', ''visibility''], ia_strength = ''medium'',
                 ia_description =
                   ''Poor visibility in crowded conditions increases collision risk'',
                 impact_multiplier = 125 / 100 \<rparr>]
            else []))"

record overall_risk =
  or_risk_level :: string
  or_risk_score :: real

definition calculateOverallRisk :: "(string \<times> contribution) list \<Rightarrow> overall_risk" where
  "calculateOverallRisk weightedContributions =
     (let totalScore = foldl (\<lambda>s (f, contrib). s + weighted_score contrib) 0 weightedContributions
      in \<lparr> or_risk_level =
             (if totalScore \<ge> 4 then ''HIGH'' else if totalScore \<ge> 25 / 10 then ''MEDIUM''
              else ''LOW''),
           or_risk_score = totalScore \<rparr>)"

record breakdown =
  bd_overall_risk :: overall_risk
  factor_scores :: "(string \<times> factor_score) list"
  weighted_contributions :: "(string \<times> contribution) list"
  percentage_breakdown :: "(string \<times> breakdown_entry) list"
  factor_interactions :: "interaction list"
  weights_used_by_analysis :: "(string \<times> real) list"

text \<open>
  \<open>analyzeRiskBreakdown(conditions, weights, riskAssessment)\<close>. \<open>None\<close> for the conditions is
  \<open>null\<close> or \<open>undefined\<close>, \<open>None\<close> for the weights or the assessment is an argument left
  out. Of the result the model keeps the scores, the contributions, the percentage breakdown,
  the interactions and the overall risk; the sub-factor analysis, the decision tree, the
  explanations and the chart data are computed from these and feed nothing back. They do
  decide between success and failure: with fewer than two weights the explanations read a
  property of \<open>undefined\<close>, and the \<open>catch\<close> returns the failure object.
\<close>

definition analyzeRiskBreakdown ::
  "analyzer_env \<Rightarrow> conditions option \<Rightarrow> (string \<times> real) list option \<Rightarrow> overall_risk option
     \<Rightarrow> js_error + breakdown" where
  "analyzeRiskBreakdown env conds ws riskAssessment =
     (case conds of
        None \<Rightarrow> Inl TypeError
      | Some c \<Rightarrow>
          let activeWeights = (case ws of None \<Rightarrow> defaultWeights | Some w \<Rightarrow> w);
              factorScores = calculateFactorScores env c;
              weightedContributions = calculateWeightedContributions factorScores activeWeights;
              percentageBreakdown = calculatePercentageBreakdown weightedContributions;
              interactions = analyzeFactorInteractions factorScores
          in if length activeWeights < 2 then Inl TypeError
             else Inr \<lparr> bd_overall_risk =
                           (case riskAssessment of
                              Some a \<Rightarrow> a
                            | None \<Rightarrow> calculateOverallRisk weightedContributions),
                         factor_scores = factorScores,
                         weighted_contributions = weightedContributions,
                         percentage_breakdown = percentageBreakdown,
                         factor_interactions = interactions,
                         weights_used_by_analysis = activeWeights \<rparr>)"

text \<open>The percentage and the rank of each factor, the part of a result claim C6 is about.\<close>

definition percentagesAndRanks :: "js_error + breakdown \<Rightarrow> js_error + (string \<times> real \<times> nat) list" where
  "percentagesAndRanks res =
     map_sum id (\<lambda>b. map (\<lambda>(f, d). (f, percentage d, rank d)) (percentage_breakdown b)) res"

text \<open>Two clocks and sequences of draws: noon on a Wednesday in June, every draw 0 or 1/2.\<close>

definition low_draws :: analyzer_env where
  "low_draws = \<lparr> draws = (\<lambda>k. 0), clock_hour = 12, clock_day = 3, clock_month = 5 \<rparr>"

definition mid_draws :: analyzer_env where
  "mid_draws = \<lparr> draws = (\<lambda>k. 1 / 2), clock_hour = 12, clock_day = 3, clock_month = 5 \<rparr>"

section \<open>Properties of the adaptive risk engine\<close>

lemma applyThresholdAdjustments_fields [simp]:
  "weights (applyThresholdAdjustments a e) = weights e"
  "outcomeHistory (applyThresholdAdjustments a e) = outcomeHistory e"
  "adaptationThreshold (applyThresholdAdjustments a e) = adaptationThreshold e"
  "recentPredictions (applyThresholdAdjustments a e) = recentPredictions e"
  "learningRate (applyThresholdAdjustments a e) = learningRate e"
  "maxWeightChange (applyThresholdAdjustments a e) = maxWeightChange e"
  "confidenceDecay (applyThresholdAdjustments a e) = confidenceDecay e"
  "performanceMetrics (applyThresholdAdjustments a e) = performanceMetrics e"
  "adaptationHistory (applyThresholdAdjustments a e) = adaptationHistory e"
  by (simp_all add: applyThresholdAdjustments_def)

lemma applyWeightAdjustments_fields [simp]:
  "thresholds (applyWeightAdjustments a e) = thresholds e"
  "outcomeHistory (applyWeightAdjustments a e) = outcomeHistory e"
  "adaptationThreshold (applyWeightAdjustments a e) = adaptationThreshold e"
  "recentPredictions (applyWeightAdjustments a e) = recentPredictions e"
  "learningRate (applyWeightAdjustments a e) = learningRate e"
  "maxWeightChange (applyWeightAdjustments a e) = maxWeightChange e"
  "confidenceDecay (applyWeightAdjustments a e) = confidenceDecay e"
  "performanceMetrics (applyWeightAdjustments a e) = performanceMetrics e"
  "adaptationHistory (applyWeightAdjustments a e) = adaptationHistory e"
  by (simp_all add: applyWeightAdjustments_def Let_def)

lemma performAdaptation_fields [simp]:
  "outcomeHistory (fst (performAdaptation now e)) = outcomeHistory e"
  "adaptationThreshold (fst (performAdaptation now e)) = adaptationThreshold e"
  "recentPredictions (fst (performAdaptation now e)) = recentPredictions e"
  "learningRate (fst (performAdaptation now e)) = learningRate e"
  "maxWeightChange (fst (performAdaptation now e)) = maxWeightChange e"
  "confidenceDecay (fst (performAdaptation now e)) = confidenceDecay e"
  "performanceMetrics (fst (performAdaptation now e)) = performanceMetrics e"
  by (simp_all add: performAdaptation_def Let_def)

lemma performAdaptation_weights:
  "weights (fst (performAdaptation now e)) =
     weights (applyWeightAdjustments
       (\<lambda>f. calculateWeightAdjustment e
          (analyzeFactorPerformance e now f
             (slice_last (adaptationThreshold e * 2) (outcomeHistory e)))) e)"
  by (simp add: performAdaptation_def Let_def)

lemma performAdaptation_thresholds:
  "thresholds (fst (performAdaptation now e)) =
     foldl applyThresholdAdjustment (thresholds e)
       (calculateThresholdAdjustments (slice_last (adaptationThreshold e * 2) (outcomeHistory e)))"
  by (simp add: performAdaptation_def Let_def applyThresholdAdjustments_def)

lemma pushOutcome_fields [simp]:
  "weights (pushOutcome now pid ao p e) = weights e"
  "thresholds (pushOutcome now pid ao p e) = thresholds e"
  "outcomeHistory (pushOutcome now pid ao p e) = outcomeHistory e @ [historyEntry now pid ao p]"
  "adaptationThreshold (pushOutcome now pid ao p e) = adaptationThreshold e"
  "recentPredictions (pushOutcome now pid ao p e) = recentPredictions e"
  "learningRate (pushOutcome now pid ao p e) = learningRate e"
  "maxWeightChange (pushOutcome now pid ao p e) = maxWeightChange e"
  "confidenceDecay (pushOutcome now pid ao p e) = confidenceDecay e"
  "adaptationHistory (pushOutcome now pid ao p e) = adaptationHistory e"
  by (simp_all add: pushOutcome_def Let_def)

lemma recordOutcome_found:
  assumes "findPrediction e pid = Some p" "validateOutcome ao = Inr ()"
  shows "recordOutcome now pid ao e =
     (let acc = calculatePredictionAccuracy p (outcomeRecord now pid ao p);
          e2 = pushOutcome now pid ao p e
      in if shouldTriggerAdaptation e2 then
           (fst (performAdaptation now e2),
            Inr (outcomeResult (fst (performAdaptation now e2)) acc (Some (snd (performAdaptation now e2)))))
         else (e2, Inr (outcomeResult e2 acc None)))"
  using assms by (simp add: recordOutcome_def Let_def)

lemma recordOutcome_Inr_iff:
  "(\<exists>r. snd (recordOutcome now pid ao e) = Inr r) \<longleftrightarrow>
     (findPrediction e pid \<noteq> None \<and> validateOutcome ao = Inr ())"
  by (auto simp: recordOutcome_def Let_def split: option.splits sum.splits)

lemma recordOutcome_history:
  assumes "findPrediction e pid = Some p" "validateOutcome ao = Inr ()"
  shows "outcomeHistory (fst (recordOutcome now pid ao e)) = outcomeHistory e @ [historyEntry now pid ao p]"
  using assms by (simp add: recordOutcome_found Let_def)

lemma recordOutcome_threshold [simp]:
  "adaptationThreshold (fst (recordOutcome now pid ao e)) = adaptationThreshold e"
  by (simp add: recordOutcome_def Let_def split: option.splits sum.splits)

lemma recordOutcome_predictions [simp]:
  "recentPredictions (fst (recordOutcome now pid ao e)) = recentPredictions e"
  by (simp add: recordOutcome_def Let_def split: option.splits sum.splits)

lemma positive_multiple_iff:
  "(\<exists>k>0. Suc n = k * t) \<longleftrightarrow> (Suc n \<ge> t \<and> t \<noteq> 0 \<and> Suc n mod t = 0)"
proof
  assume "\<exists>k>0. Suc n = k * t"
  then obtain k where k: "k > 0" "Suc n = k * t" by blast
  then have "t \<noteq> 0" by (cases t) auto
  moreover have "Suc n mod t = 0" using k by simp
  moreover have "t \<le> Suc n" using k by (cases k) auto
  ultimately show "Suc n \<ge> t \<and> t \<noteq> 0 \<and> Suc n mod t = 0" by simp
next
  assume a: "Suc n \<ge> t \<and> t \<noteq> 0 \<and> Suc n mod t = 0"
  then have "t dvd Suc n" by auto
  then obtain k where k: "Suc n = t * k" by (auto simp: dvd_def)
  then have "k > 0" by (cases k) auto
  with k show "\<exists>k>0. Suc n = k * t" by (auto simp: mult.commute)
qed

lemma recordOutcome_trigger:
  assumes "recordOutcome now pid ao e = (e', Inr r)"
  shows "length (outcomeHistory e') = Suc (length (outcomeHistory e)) \<and>
         (adaptation_triggered r \<longleftrightarrow>
            (\<exists>k>0. length (outcomeHistory e') = k * adaptationThreshold e))"
proof -
  from assms obtain p where p: "findPrediction e pid = Some p" and v: "validateOutcome ao = Inr ()"
    by (auto simp: recordOutcome_def Let_def split: option.splits sum.splits)
  have len: "length (outcomeHistory e') = Suc (length (outcomeHistory e))"
    using recordOutcome_history[OF p v, of now] assms by simp
  have "adaptation_triggered r = shouldTriggerAdaptation (pushOutcome now pid ao p e)"
    using assms p v by (auto simp: recordOutcome_found Let_def outcomeResult_def split: if_splits)
  also have "\<dots> = (\<exists>k>0. Suc (length (outcomeHistory e)) = k * adaptationThreshold e)"
    by (simp add: shouldTriggerAdaptation_def positive_multiple_iff)
  finally show ?thesis using len by simp
qed


lemma recordOutcome_failure_keeps_engine:
  "snd (recordOutcome now pid ao e) = Inl err \<Longrightarrow> fst (recordOutcome now pid ao e) = e"
  by (auto simp: recordOutcome_def Let_def split: option.splits sum.splits if_splits)

lemma findPrediction_None_iff:
  "findPrediction e pid = None \<longleftrightarrow>
     (\<forall>ps. recentPredictions e = Some ps \<longrightarrow> pid \<notin> pred_id ` set ps)"
  by (auto simp: findPrediction_def find_None_iff split: option.splits)

text \<open>
  Claim C10. When no stored prediction carries the identifier (or no prediction was ever
  stored), \<open>recordOutcome\<close> returns the failure object with the message
  "Prediction <id> not found" and the engine is exactly the engine it was called on: the
  outcome history, the performance metrics, the weights and the thresholds are untouched.
\<close>

theorem recordOutcome_unknown_prediction:
  assumes "\<forall>ps. recentPredictions e = Some ps \<longrightarrow> predictionId \<notin> pred_id ` set ps"
  shows "recordOutcome now predictionId actualOutcome e =
           (e, Inl (Error (''Prediction '' @ predictionId @ '' not found'')))"
  using assms by (simp add: recordOutcome_def findPrediction_None_iff[symmetric])

theorem recordOutcome_unknown_prediction_witness:
  "recordOutcome 0 ''p1'' drift_outcome new_engine =
     (new_engine, Inl (Error ''Prediction p1 not found''))"
  using recordOutcome_unknown_prediction[of new_engine "''p1''" 0 drift_outcome]
  by (simp add: new_engine_def)

lemma recordOutcomes_length [simp]: "length (recordOutcomes calls e) = length calls"
  by (induction calls arbitrary: e) (auto simp: Let_def split: prod.splits)

lemma recordOutcomes_cycle:
  assumes "i < length calls"
    and "\<forall>j\<le>i. \<exists>ej rj. recordOutcomes calls e ! j = (ej, Inr rj)"
    and "recordOutcomes calls e ! i = (e', Inr r)"
  shows "length (outcomeHistory e') = length (outcomeHistory e) + i + 1 \<and>
         (adaptation_triggered r \<longleftrightarrow>
            (\<exists>k>0. length (outcomeHistory e') = k * adaptationThreshold e))"
  using assms
proof (induction calls arbitrary: e i)
  case Nil
  then show ?case by simp
next
  case (Cons c cs)
  obtain now pid ao where c: "c = (now, pid, ao)" by (cases c) auto
  show ?case
  proof (cases i)
    case 0
    with Cons.prems c have "recordOutcome now pid ao e = (e', Inr r)"
      by (simp add: Let_def)
    from recordOutcome_trigger[OF this] 0 show ?thesis by simp
  next
    case (Suc j)
    let ?e1 = "fst (recordOutcome now pid ao e)"
    from Cons.prems(2) obtain e0 r0 where "recordOutcomes (c # cs) e ! 0 = (e0, Inr r0)"
      by (metis le0)
    then have first: "recordOutcome now pid ao e = (e0, Inr r0)"
      using c by (simp add: Let_def)
    then have e0: "?e1 = e0" by simp
    have len0: "length (outcomeHistory e0) = Suc (length (outcomeHistory e))"
      using recordOutcome_trigger[OF first] by simp
    have thr: "adaptationThreshold e0 = adaptationThreshold e"
      using recordOutcome_threshold[of now pid ao e] e0 by simp
    have p1: "j < length cs" using Cons.prems(1) Suc by simp
    have p2: "\<forall>k\<le>j. \<exists>ej rj. recordOutcomes cs e0 ! k = (ej, Inr rj)"
    proof (intro allI impI)
      fix k assume "k \<le> j"
      then have "Suc k \<le> i" using Suc by simp
      with Cons.prems(2) obtain ej rj where "recordOutcomes (c # cs) e ! Suc k = (ej, Inr rj)"
        by blast
      then show "\<exists>ej rj. recordOutcomes cs e0 ! k = (ej, Inr rj)"
        using c e0 by (auto simp: Let_def)
    qed
    have p3: "recordOutcomes cs e0 ! j = (e', Inr r)"
      using Cons.prems(3) Suc c e0 by (auto simp: Let_def)
    from Cons.IH[OF p1 p2 p3] len0 thr Suc show ?thesis by simp
  qed
qed

text \<open>
  Claim C2, as the code decides it: a score at or above \<open>medium_to_high\<close> is HIGH; a score
  in [\<open>low_to_medium\<close>, \<open>medium_to_high\<close>) is MEDIUM; a score below both thresholds is LOW.
  Where \<open>low_to_medium \<le> medium_to_high\<close>, every score below \<open>low_to_medium\<close> is LOW.
\<close>

theorem determineAdaptiveRiskLevel_cases:
  "(s \<ge> medium_to_high (thresholds e) \<longrightarrow> level (determineAdaptiveRiskLevel e s) = ''HIGH'') \<and>
   (low_to_medium (thresholds e) \<le> s \<and> s < medium_to_high (thresholds e)
      \<longrightarrow> level (determineAdaptiveRiskLevel e s) = ''MEDIUM'') \<and>
   (s < low_to_medium (thresholds e) \<and> s < medium_to_high (thresholds e)
      \<longrightarrow> level (determineAdaptiveRiskLevel e s) = ''LOW'') \<and>
   (low_to_medium (thresholds e) \<le> medium_to_high (thresholds e) \<and> s < low_to_medium (thresholds e)
      \<longrightarrow> level (determineAdaptiveRiskLevel e s) = ''LOW'')"
  by (simp add: determineAdaptiveRiskLevel_def)

theorem determineAdaptiveRiskLevel_cases_witness:
  "level (determineAdaptiveRiskLevel new_engine (33 / 10)) = ''MEDIUM'' \<and>
   level (determineAdaptiveRiskLevel new_engine 4) = ''HIGH'' \<and>
   level (determineAdaptiveRiskLevel new_engine (24 / 10)) = ''LOW''"
  using determineAdaptiveRiskLevel_cases[where s = "33 / 10" and e = new_engine]
    determineAdaptiveRiskLevel_cases[where s = 4 and e = new_engine]
    determineAdaptiveRiskLevel_cases[where s = "24 / 10" and e = new_engine]
  by (simp add: new_engine_def)

subsection \<open>Weights after an adaptation step\<close>

lemma clampedWeights_bounds:
  "5 / 100 \<le> clampedWeights a w f" "clampedWeights a w f \<le> 1 / 2"
  unfolding clampedWeights_def by (auto simp: max_def min_def)

lemma applyWeightAdjustments_weights:
  "weights (applyWeightAdjustments a e) f =
     clampedWeights a (weights e) f /
       (clampedWeights a (weights e) Weather + clampedWeights a (weights e) Time +
        clampedWeights a (weights e) Crowd + clampedWeights a (weights e) Location +
        clampedWeights a (weights e) Visibility)"
  by (simp add: applyWeightAdjustments_def Let_def factors_def)

lemma normalized_five:
  fixes a b c d v :: real
  assumes "5 / 100 \<le> a" "5 / 100 \<le> b" "5 / 100 \<le> c" "5 / 100 \<le> d" "5 / 100 \<le> v"
  shows "a / (a + b + c + d + v) + b / (a + b + c + d + v) + c / (a + b + c + d + v)
           + d / (a + b + c + d + v) + v / (a + b + c + d + v) = 1"
proof -
  have "a + b + c + d + v > 0" using assms by linarith
  then show ?thesis by (simp add: add_divide_distrib[symmetric])
qed

lemma share_bounds:
  fixes x r :: real
  assumes "5 / 100 \<le> x" "x \<le> 1 / 2" "2 / 10 \<le> r" "r \<le> 2"
  shows "1 / 41 \<le> x / (x + r)" "x / (x + r) \<le> 5 / 7"
proof -
  have pos: "x + r > 0" using assms by linarith
  show "1 / 41 \<le> x / (x + r)" using pos assms by (simp add: field_simps)
  show "x / (x + r) \<le> 5 / 7" using pos assms by (simp add: field_simps)
qed

lemma applyWeightAdjustments_sum:
  "sum_list (map (weights (applyWeightAdjustments a e)) factors) = 1"
  using normalized_five[OF clampedWeights_bounds(1)[of a "weights e" Weather]
      clampedWeights_bounds(1)[of a "weights e" Time]
      clampedWeights_bounds(1)[of a "weights e" Crowd]
      clampedWeights_bounds(1)[of a "weights e" Location]
      clampedWeights_bounds(1)[of a "weights e" Visibility]]
  by (simp add: factors_def applyWeightAdjustments_weights)

lemma applyWeightAdjustments_range:
  "1 / 41 \<le> weights (applyWeightAdjustments a e) f \<and>
   weights (applyWeightAdjustments a e) f \<le> 5 / 7"
proof -
  let ?c = "clampedWeights a (weights e)"
  let ?t = "?c Weather + ?c Time + ?c Crowd + ?c Location + ?c Visibility"
  note b = clampedWeights_bounds[of a "weights e"]
  have "\<exists>r. ?t = ?c f + r \<and> 2 / 10 \<le> r \<and> r \<le> 2"
  proof (cases f)
    case Weather
    have "?t = ?c Weather + (?c Time + ?c Crowd + ?c Location + ?c Visibility)" by simp
    moreover have "2 / 10 \<le> ?c Time + ?c Crowd + ?c Location + ?c Visibility"
      using b(1)[of Time] b(1)[of Crowd] b(1)[of Location] b(1)[of Visibility] by linarith
    moreover have "?c Time + ?c Crowd + ?c Location + ?c Visibility \<le> 2"
      using b(2)[of Time] b(2)[of Crowd] b(2)[of Location] b(2)[of Visibility] by linarith
    ultimately show ?thesis using Weather by blast
  next
    case Time
    have "?t = ?c Time + (?c Weather + ?c Crowd + ?c Location + ?c Visibility)" by simp
    moreover have "2 / 10 \<le> ?c Weather + ?c Crowd + ?c Location + ?c Visibility"
      using b(1)[of Weather] b(1)[of Crowd] b(1)[of Location] b(1)[of Visibility] by linarith
    moreover have "?c Weather + ?c Crowd + ?c Location + ?c Visibility \<le> 2"
      using b(2)[of Weather] b(2)[of Crowd] b(2)[of Location] b(2)[of Visibility] by linarith
    ultimately show ?thesis using Time by blast
  next
    case Crowd
    have "?t = ?c Crowd + (?c Weather + ?c Time + ?c Location + ?c Visibility)" by simp
    moreover have "2 / 10 \<le> ?c Weather + ?c Time + ?c Location + ?c Visibility"
      using b(1)[of Weather] b(1)[of Time] b(1)[of Location] b(1)[of Visibility] by linarith
    moreover have "?c Weather + ?c Time + ?c Location + ?c Visibility \<le> 2"
      using b(2)[of Weather] b(2)[of Time] b(2)[of Location] b(2)[of Visibility] by linarith
    ultimately show ?thesis using Crowd by blast
  next
    case Location
    have "?t = ?c Location + (?c Weather + ?c Time + ?c Crowd + ?c Visibility)" by simp
    moreover have "2 / 10 \<le> ?c Weather + ?c Time + ?c Crowd + ?c Visibility"
      using b(1)[of Weather] b(1)[of Time] b(1)[of Crowd] b(1)[of Visibility] by linarith
    moreover have "?c Weather + ?c Time + ?c Crowd + ?c Visibility \<le> 2"
      using b(2)[of Weather] b(2)[of Time] b(2)[of Crowd] b(2)[of Visibility] by linarith
    ultimately show ?thesis using Location by blast
  next
    case Visibility
    have "?t = ?c Visibility + (?c Weather + ?c Time + ?c Crowd + ?c Location)" by simp
    moreover have "2 / 10 \<le> ?c Weather + ?c Time + ?c Crowd + ?c Location"
      using b(1)[of Weather] b(1)[of Time] b(1)[of Crowd] b(1)[of Location] by linarith
    moreover have "?c Weather + ?c Time + ?c Crowd + ?c Location \<le> 2"
      using b(2)[of Weather] b(2)[of Time] b(2)[of Crowd] b(2)[of Location] by linarith
    ultimately show ?thesis using Visibility by blast
  qed
  then obtain r where r: "?t = ?c f + r" "2 / 10 \<le> r" "r \<le> 2" by blast
  have "weights (applyWeightAdjustments a e) f = ?c f / (?c f + r)"
    using r(1) by (simp only: applyWeightAdjustments_weights)
  then show ?thesis
    using share_bounds[OF b(1)[of f] b(2)[of f] r(2) r(3)] by simp
qed

text \<open>
  Claim C1, as the code has it. After \<open>performAdaptation\<close> (and after
  \<open>applyWeightAdjustments\<close> with any adjustments, from any engine) the five weights sum to 1.
  Each weight is clamped to [0.05, 0.5] before the division by the total, so after it each
  weight lies in [1/41, 5/7].
\<close>

theorem adaptation_weights_normalized:
  "sum_list (map (weights (fst (performAdaptation now e))) factors) = 1 \<and>
   (\<forall>f. 1 / 41 \<le> weights (fst (performAdaptation now e)) f \<and>
        weights (fst (performAdaptation now e)) f \<le> 5 / 7) \<and>
   sum_list (map (weights (applyWeightAdjustments adjustments e)) factors) = 1 \<and>
   (\<forall>f. 1 / 41 \<le> weights (applyWeightAdjustments adjustments e) f \<and>
        weights (applyWeightAdjustments adjustments e) f \<le> 5 / 7)"
  by (simp only: performAdaptation_weights applyWeightAdjustments_sum
        applyWeightAdjustments_range simp_thms)


subsection \<open>Scenario 2\<close>

lemma scenario2_scores:
  "calculateBaseScores scenario2 Weather = 5"
  "calculateBaseScores scenario2 Time = 3"
  "calculateBaseScores scenario2 Crowd = 4"
  "calculateBaseScores scenario2 Location = 0"
  "calculateBaseScores scenario2 Visibility = 24 / 10"
  by (simp_all add: scenario2_def js_or_def lookup_lower_def weatherScores_def timeScores_def
        crowdScores_def calculateLocationScore_def calculateVisibilityScore_def
        toLowerCase_def lower_char_def)

lemma scenario2_weighted:
  assumes "weights e = initial_weights"
  shows "applyAdaptiveWeights e (calculateBaseScores scenario2) = 33 / 10"
  by (simp add: applyAdaptiveWeights_def factors_def assms scenario2_scores js_or_def js_round_def
        del: calculateBaseScores.simps)

lemma scenario2_sorted:
  "take 2 (sortedFactors (calculateBaseScores scenario2)) = [(Weather, 5), (Crowd, 4)]"
  by (simp add: sortedFactors_def factors_def scenario2_scores del: calculateBaseScores.simps)

text \<open>
  Claim C5, as the code computes it. With the constructor's weights and thresholds, the
  conditions of scenario 2 are assessed as MEDIUM with risk score 3.3, and the
  recommendations hold the weather-shelter and the crowd/exit-route advice.
\<close>

theorem scenario2_assessment:
  assumes "weights e = initial_weights"
    and "thresholds e = \<lparr> low_to_medium = 25 / 10, medium_to_high = 4 \<rparr>"
    and "assessRiskAdaptive now freshId (Some scenario2) outcomeId e = (e', res)"
  shows "\<exists>r. res = Inr r \<and>
           ra_risk_level (ar_risk_assessment r) = ''MEDIUM'' \<and>
           ra_risk_score (ar_risk_assessment r) = 33 / 10 \<and>
           ''Severe weather - seek immediate shelter'' \<in> set (ar_recommendations r) \<and>
           ''Avoid crowded areas or identify exit routes'' \<in> set (ar_recommendations r)"
proof -
  have lvl: "level (determineAdaptiveRiskLevel e (33 / 10)) = ''MEDIUM''"
    by (simp add: determineAdaptiveRiskLevel_def assms(2))
  have recs: "set [''Severe weather - seek immediate shelter'',
                   ''Avoid crowded areas or identify exit routes'']
              \<subseteq> set (generateAdaptiveRecommendations e (calculateBaseScores scenario2)
                       (determineAdaptiveRiskLevel e (33 / 10)))"
    by (simp add: generateAdaptiveRecommendations_def Let_def scenario2_sorted
          getFactorRecommendations_def del: calculateBaseScores.simps)
  show ?thesis
    using assms(3) lvl recs
    by (auto simp: assessRiskAdaptive_def Let_def scenario2_weighted[OF assms(1)]
          simp del: calculateBaseScores.simps)
qed

theorem scenario2_assessment_witness:
  "\<exists>r. snd (assessRiskAdaptive 0 ''pred_0'' (Some scenario2) None new_engine) = Inr r \<and>
       ra_risk_level (ar_risk_assessment r) = ''MEDIUM'' \<and>
       ra_risk_score (ar_risk_assessment r) = 33 / 10 \<and>
       ''Severe weather - seek immediate shelter'' \<in> set (ar_recommendations r) \<and>
       ''Avoid crowded areas or identify exit routes'' \<in> set (ar_recommendations r)"
  using scenario2_assessment[of new_engine 0 "''pred_0''" None
      "fst (assessRiskAdaptive 0 ''pred_0'' (Some scenario2) None new_engine)"
      "snd (assessRiskAdaptive 0 ''pred_0'' (Some scenario2) None new_engine)"]
  by (simp add: new_engine_def)

text \<open>
  Claim C5 as stated asks for HIGH or CRITICAL and a score of at least 5.0; on a new engine
  the assessment is MEDIUM at 3.3.
\<close>

theorem scenario2_not_high:
  "map_sum id (\<lambda>r. (ra_risk_level (ar_risk_assessment r), ra_risk_score (ar_risk_assessment r)))
     (snd (assessRiskAdaptive 0 ''pred_0'' (Some scenario2) None new_engine))
   = Inr (''MEDIUM'', 33 / 10)"
proof -
  have w: "weights new_engine = initial_weights" by (simp add: new_engine_def)
  have "level (determineAdaptiveRiskLevel new_engine (33 / 10)) = ''MEDIUM''"
    by (simp add: determineAdaptiveRiskLevel_def new_engine_def)
  then show ?thesis
    by (simp add: assessRiskAdaptive_def Let_def scenario2_weighted[OF w]
          del: calculateBaseScores.simps)
qed

subsection \<open>Accuracy of a prediction\<close>

lemma levelMap_lookup:
  "js_or (map_of levelMap ''LOW'') 1 = 1"
  "js_or (map_of levelMap ''MEDIUM'') 1 = 1"
  "js_or (map_of levelMap ''HIGH'') 1 = 2"
  by (simp_all add: levelMap_def js_or_def)

text \<open>
  Claim C7 at a prediction of LOW whose actual level was HIGH, with no incident and a
  multiplier of 1: the specification's score is 0 + 0.3 + 0.1 = 0.4; the code returns 0.7,
  because \<open>levelMap['LOW'] || 1\<close> reads the ordinal 0 of LOW as 1.
\<close>

theorem accuracy_low_versus_high:
  assumes "risk_level p = ''LOW''" and "actual_risk_level out = ''HIGH''"
    and "\<not> incident_occurred out" and "environmental_accuracy out = 1"
  shows "calculatePredictionAccuracy p out = 7 / 10 \<and>
         specAccuracy (risk_level p) (actual_risk_level out) (incident_occurred out)
           (environmental_accuracy out) = 4 / 10"
  using assms
  by (simp add: calculatePredictionAccuracy_def Let_def levelMap_def js_or_def
        specAccuracy_def levelOrdinal_def clamp_def)


subsection \<open>The run of LOW outcomes\<close>

lemma drift_scores:
  "calculateBaseScores drift_conditions Weather = 1"
  "calculateBaseScores drift_conditions Time = 0"
  "calculateBaseScores drift_conditions Crowd = 1"
  "calculateBaseScores drift_conditions Location = 0"
  "calculateBaseScores drift_conditions Visibility = 27 / 10"
  by (simp_all add: drift_conditions_def js_or_def lookup_lower_def weatherScores_def
        timeScores_def crowdScores_def calculateLocationScore_def calculateVisibilityScore_def
        toLowerCase_def lower_char_def)

lemma drift_weighted:
  "applyAdaptiveWeights new_engine (calculateBaseScores drift_conditions) = 8 / 10"
  by (simp add: applyAdaptiveWeights_def factors_def drift_scores js_or_def js_round_def
        new_engine_def del: calculateBaseScores.simps)

lemma drift_start_eq:
  "drift_start = new_engine\<lparr>recentPredictions := Some [drift_prediction]\<rparr>"
proof -
  have "level (determineAdaptiveRiskLevel new_engine (8 / 10)) = ''LOW''"
    by (simp add: determineAdaptiveRiskLevel_def new_engine_def)
  moreover have "calculatePredictionConfidence new_engine = 7 / 10"
    by (simp add: calculatePredictionConfidence_def new_engine_def)
  moreover have "weights new_engine = initial_weights"
    "thresholds new_engine = \<lparr> low_to_medium = 25 / 10, medium_to_high = 4 \<rparr>"
    "recentPredictions new_engine = None"
    by (simp_all add: new_engine_def)
  ultimately show ?thesis
    by (simp add: drift_start_def assessRiskAdaptive_def Let_def drift_weighted
          storePrediction_def drift_prediction_def del: calculateBaseScores.simps)
qed

lemma drift_start_inv: "drift_inv drift_start"
  by (simp add: drift_inv_def drift_start_eq new_engine_def)

lemma drift_start_fields:
  "weights drift_start = initial_weights" "outcomeHistory drift_start = []"
  "adaptationThreshold drift_start = 5"
  by (simp_all add: drift_start_eq new_engine_def)

lemma drift_find: "drift_inv e \<Longrightarrow> findPrediction e ''p1'' = Some drift_prediction"
  by (simp add: drift_inv_def findPrediction_def drift_prediction_def)

lemma drift_valid: "validateOutcome drift_outcome = Inr ()"
  by (simp add: validateOutcome_def drift_outcome_def)

lemma drift_entry:
  "out_prediction (historyEntry now ''p1'' drift_outcome drift_prediction) = drift_prediction"
  "actual_risk_level (historyEntry now ''p1'' drift_outcome drift_prediction) = ''LOW''"
  by (simp_all add: historyEntry_def outcomeRecord_def Let_def drift_outcome_def)

lemma analyze_foldl:
  "foldl (\<lambda>(correct, total) out.
            let w = recencyWeight e now out
            in (if factorCorrect f out then correct + w else correct, total + w))
         (c, t) outs =
     (c + sum_list (map (\<lambda>out. if factorCorrect f out then recencyWeight e now out else 0) outs),
      t + sum_list (map (recencyWeight e now) outs))"
  by (induction outs arbitrary: c t) (simp_all add: Let_def)

lemma recency_sum_pos:
  assumes "confidenceDecay e > 0" "outs \<noteq> []"
  shows "sum_list (map (recencyWeight e now) outs) > 0"
proof -
  have pos: "\<And>out. recencyWeight e now out > 0"
    using assms(1) by (simp add: recencyWeight_def)
  from assms(2) show ?thesis
  proof (induction outs)
    case Nil then show ?case by simp
  next
    case (Cons a outs)
    show ?case
    proof (cases "outs = []")
      case True then show ?thesis using pos[of a] by simp
    next
      case False
      with Cons.IH have "sum_list (map (recencyWeight e now) outs) > 0" by simp
      then show ?thesis using pos[of a] by simp
    qed
  qed
qed

lemma analyze_all_correct:
  assumes "confidenceDecay e > 0" "outs \<noteq> []" "list_all (factorCorrect f) outs"
  shows "analyzeFactorPerformance e now f outs = 1"
proof -
  have "sum_list (map (\<lambda>out. if factorCorrect f out then recencyWeight e now out else 0) outs)
        = sum_list (map (recencyWeight e now) outs)"
    using assms(3) by (induction outs) simp_all
  then show ?thesis
    using recency_sum_pos[OF assms(1,2), of now]
    by (simp add: analyzeFactorPerformance_def analyze_foldl)
qed

lemma analyze_none_correct:
  assumes "confidenceDecay e > 0" "outs \<noteq> []" "list_all (\<lambda>out. \<not> factorCorrect f out) outs"
  shows "analyzeFactorPerformance e now f outs = 0"
proof -
  have "sum_list (map (\<lambda>out. if factorCorrect f out then recencyWeight e now out else 0) outs) = 0"
    using assms(3) by (induction outs) simp_all
  then show ?thesis
    using recency_sum_pos[OF assms(1,2), of now]
    by (simp add: analyzeFactorPerformance_def analyze_foldl)
qed

lemma drift_factorCorrect:
  assumes "out_prediction out = drift_prediction" "actual_risk_level out = ''LOW''"
  shows "factorCorrect f out \<longleftrightarrow> f \<noteq> Visibility"
  using assms
  by (cases f)
     (simp_all add: factorCorrect_def Let_def drift_prediction_def drift_scores js_or_def
        del: calculateBaseScores.simps)

lemma slice_last_nonempty: "xs \<noteq> [] \<Longrightarrow> slice_last n xs \<noteq> []"
  by (cases xs; cases n) (simp_all add: slice_last_def)

lemma slice_last_list_all: "list_all P xs \<Longrightarrow> list_all P (slice_last n xs)"
  by (auto simp: slice_last_def list_all_iff dest: in_set_dropD)

lemma drift_performance:
  assumes "confidenceDecay e = 95 / 100" "outs \<noteq> []"
    and "list_all (\<lambda>out. out_prediction out = drift_prediction \<and> actual_risk_level out = ''LOW'') outs"
  shows "analyzeFactorPerformance e now f outs = (if f = Visibility then 0 else 1)"
proof (cases "f = Visibility")
  case True
  have "list_all (\<lambda>out. \<not> factorCorrect f out) outs"
    using assms(3) True by (auto simp: list_all_iff drift_factorCorrect)
  then show ?thesis using analyze_none_correct[of e outs f now] assms(1,2) True by simp
next
  case False
  have "list_all (factorCorrect f) outs"
    using assms(3) False by (auto simp: list_all_iff drift_factorCorrect)
  then show ?thesis using analyze_all_correct[of e outs f now] assms(1,2) False by simp
qed

lemma drift_adaptation_weights:
  assumes "drift_inv e" "outcomeHistory e \<noteq> []"
  shows "weights (fst (performAdaptation now e)) = weights (applyWeightAdjustments drift_adjustments e)"
proof -
  let ?outs = "slice_last (adaptationThreshold e * 2) (outcomeHistory e)"
  have perf: "\<And>f. analyzeFactorPerformance e now f ?outs = (if f = Visibility then 0 else 1)"
    using assms
    by (intro drift_performance slice_last_nonempty slice_last_list_all) (simp_all add: drift_inv_def)
  have lr: "learningRate e = 5 / 100" and mw: "maxWeightChange e = 1 / 10"
    using assms(1) by (simp_all add: drift_inv_def)
  have adj: "\<And>f. calculateWeightAdjustment e (if f = Visibility then 0 else 1) = drift_adjustments f"
    subgoal for f by (cases f) (simp_all add: calculateWeightAdjustment_def Let_def lr mw)
    done
  have "(\<lambda>f. calculateWeightAdjustment e (analyzeFactorPerformance e now f ?outs)) = drift_adjustments"
    by (simp only: perf adj)
  then show ?thesis by (simp add: performAdaptation_weights)
qed

lemma drift_step:
  assumes "drift_inv e"
  shows "\<exists>res. recordOutcome now ''p1'' drift_outcome e = (fst (recordOutcome now ''p1'' drift_outcome e), Inr res) \<and>
           adaptation_triggered res = (5 dvd Suc (length (outcomeHistory e)))"
    and "drift_inv (fst (recordOutcome now ''p1'' drift_outcome e))"
    and "length (outcomeHistory (fst (recordOutcome now ''p1'' drift_outcome e))) = Suc (length (outcomeHistory e))"
    and "weights (fst (recordOutcome now ''p1'' drift_outcome e)) =
           (if 5 dvd Suc (length (outcomeHistory e))
            then weights (applyWeightAdjustments drift_adjustments e) else weights e)"
proof -
  let ?e2 = "pushOutcome now ''p1'' drift_outcome drift_prediction e"
  note found = recordOutcome_found[OF drift_find[OF assms] drift_valid, of now]
  have inv2: "drift_inv ?e2"
    using assms by (simp add: drift_inv_def drift_entry)
  have trig: "shouldTriggerAdaptation ?e2 = (5 dvd Suc (length (outcomeHistory e)))"
    using assms by (auto simp: shouldTriggerAdaptation_def drift_inv_def dvd_eq_mod_eq_0 dest: dvd_imp_le)
  show "\<exists>res. recordOutcome now ''p1'' drift_outcome e = (fst (recordOutcome now ''p1'' drift_outcome e), Inr res) \<and>
           adaptation_triggered res = (5 dvd Suc (length (outcomeHistory e)))"
    by (simp add: found Let_def trig outcomeResult_def)
  show "drift_inv (fst (recordOutcome now ''p1'' drift_outcome e))"
    using inv2 by (simp add: found Let_def drift_inv_def)
  show "length (outcomeHistory (fst (recordOutcome now ''p1'' drift_outcome e))) = Suc (length (outcomeHistory e))"
    by (simp add: found Let_def)
  have "weights (fst (performAdaptation now ?e2)) = weights (applyWeightAdjustments drift_adjustments e)"
    using drift_adaptation_weights[OF inv2, of now]
    by (simp add: applyWeightAdjustments_weights fun_eq_iff)
  then show "weights (fst (recordOutcome now ''p1'' drift_outcome e)) =
           (if 5 dvd Suc (length (outcomeHistory e))
            then weights (applyWeightAdjustments drift_adjustments e) else weights e)"
    by (simp add: found Let_def trig)
qed


lemma recordOutcomes_snoc:
  "recordOutcomes (cs @ [(now, pid, ao)]) e =
     recordOutcomes cs e @
       [recordOutcome now pid ao (if cs = [] then e else fst (last (recordOutcomes cs e)))]"
proof (induction cs arbitrary: e)
  case Nil
  then show ?case by (simp add: Let_def)
next
  case (Cons c cs)
  obtain t p a where c: "c = (t, p, a)" by (cases c) auto
  show ?case
    using Cons.IH[of "fst (recordOutcome t p a e)"]
    by (cases cs) (auto simp: c Let_def split: prod.splits)
qed

lemma drift_calls_Suc:
  "drift_calls (Suc n) = drift_calls n @ [(60000 * int (Suc n), ''p1'', drift_outcome)]"
  by (simp add: drift_calls_def)

lemma drift_calls_empty [simp]: "drift_calls n = [] \<longleftrightarrow> n = 0"
  by (simp add: drift_calls_def)

lemma drift_engine_0: "drift_engine 0 = drift_start"
  by (simp add: drift_engine_def)

lemma drift_engine_Suc:
  "drift_engine (Suc n) =
     fst (recordOutcome (60000 * int (Suc n)) ''p1'' drift_outcome (drift_engine n))"
  by (simp add: drift_engine_def drift_calls_Suc recordOutcomes_snoc del: recordOutcomes.simps)

lemma drift_engine_inv:
  "drift_inv (drift_engine n) \<and> length (outcomeHistory (drift_engine n)) = n"
proof (induction n)
  case 0
  then show ?case by (simp add: drift_engine_0 drift_start_inv drift_start_fields)
next
  case (Suc n)
  then show ?case
    using drift_step(2,3)[of "drift_engine n" "60000 * int (Suc n)"]
    by (simp add: drift_engine_Suc)
qed

lemma drift_engine_weights:
  "weights (drift_engine (Suc n)) =
     (if 5 dvd Suc n then weights (applyWeightAdjustments drift_adjustments (drift_engine n))
      else weights (drift_engine n))"
  using drift_step(4)[of "drift_engine n" "60000 * int (Suc n)"] drift_engine_inv[of n]
  by (simp add: drift_engine_Suc)

lemma drift_weights_before: "n < 5 \<Longrightarrow> weights (drift_engine n) = initial_weights"
proof (induction n)
  case 0
  then show ?case by (simp add: drift_engine_0 drift_start_fields)
next
  case (Suc n)
  then have "\<not> 5 dvd Suc n" by presburger
  with Suc show ?case by (simp add: drift_engine_weights)
qed

lemma drift_weights_5: "weights (drift_engine 5) = drift_weights5"
proof
  fix f
  have "drift_engine 5 = drift_engine (Suc 4)" by simp
  then have "weights (drift_engine 5) = weights (applyWeightAdjustments drift_adjustments (drift_engine 4))"
    by (simp only: drift_engine_weights) simp
  then show "weights (drift_engine 5) f = drift_weights5 f"
    by (cases f) (simp_all add: applyWeightAdjustments_weights clampedWeights_def drift_weights_before)
qed

lemma drift_weights_between:
  "5 \<le> n \<Longrightarrow> n < 10 \<Longrightarrow> weights (drift_engine n) = drift_weights5"
proof (induction n)
  case 0
  then show ?case by simp
next
  case (Suc n)
  show ?case
  proof (cases "Suc n = 5")
    case True
    then show ?thesis using drift_weights_5 by simp
  next
    case False
    with Suc.prems have "\<not> 5 dvd Suc n" "5 \<le> n" "n < 10" by presburger+
    with Suc.IH show ?thesis by (simp add: drift_engine_weights)
  qed
qed

text \<open>
  Claim C1 as stated also bounds every weight by [0.05, 0.5] after each adaptation step.
  In the run above the second adaptation (after the tenth outcome) leaves the visibility
  weight at 205/4291, below 0.05: it was clamped to 0.05 and then divided by a total of
  more than 1.
\<close>

theorem drift_visibility_weight:
  "length (outcomeHistory (drift_engine 10)) = 2 * adaptationThreshold new_engine \<and>
   weights (drift_engine 10) Visibility = 205 / 4291 \<and>
   weights (drift_engine 10) Visibility < 5 / 100"
proof -
  have "drift_engine 10 = drift_engine (Suc 9)" by simp
  then have "weights (drift_engine 10) = weights (applyWeightAdjustments drift_adjustments (drift_engine 9))"
    by (simp only: drift_engine_weights) simp
  then have "weights (drift_engine 10) Visibility = 205 / 4291"
    by (simp add: applyWeightAdjustments_weights clampedWeights_def drift_weights_between)
  then show ?thesis
    using drift_engine_inv[of 10] by (simp add: new_engine_def)
qed

lemma drift_calls_succeed:
  assumes "drift_inv e" "\<forall>c\<in>set calls. snd c = (''p1'', drift_outcome)" "j < length calls"
  shows "\<exists>ej rj. recordOutcomes calls e ! j = (ej, Inr rj)"
  using assms
proof (induction calls arbitrary: e j)
  case Nil
  then show ?case by simp
next
  case (Cons c cs)
  obtain t where c: "c = (t, ''p1'', drift_outcome)"
    using Cons.prems(2) by (cases c) auto
  show ?case
  proof (cases j)
    case 0
    then show ?thesis
      using drift_step(1)[OF Cons.prems(1), of t] by (auto simp: c Let_def)
  next
    case (Suc k)
    then show ?thesis
      using Cons.IH[OF drift_step(2)[OF Cons.prems(1), of t], of k] Cons.prems(2,3)
      by (simp add: c Let_def)
  qed
qed

lemma performAdaptation_history:
  "adaptationHistory (fst (performAdaptation now e)) =
     adaptationHistory e @ [snd (performAdaptation now e)]"
  by (simp add: performAdaptation_def Let_def)

lemma recordOutcome_adapts:
  assumes "recordOutcome now pid ao e = (e', Inr r)"
  shows "\<exists>p. findPrediction e pid = Some p \<and>
           (if \<exists>k>0. Suc (length (outcomeHistory e)) = k * adaptationThreshold e
            then e' = fst (performAdaptation now (pushOutcome now pid ao p e)) \<and>
                 adaptation_result r = Some (snd (performAdaptation now (pushOutcome now pid ao p e)))
            else e' = pushOutcome now pid ao p e \<and> adaptation_result r = None)"
proof -
  from assms obtain p where p: "findPrediction e pid = Some p" and v: "validateOutcome ao = Inr ()"
    by (auto simp: recordOutcome_def Let_def split: option.splits sum.splits)
  let ?e2 = "pushOutcome now pid ao p e"
  have trig: "shouldTriggerAdaptation ?e2 =
                (\<exists>k>0. Suc (length (outcomeHistory e)) = k * adaptationThreshold e)"
    by (simp add: shouldTriggerAdaptation_def positive_multiple_iff)
  show ?thesis
  proof (cases "shouldTriggerAdaptation ?e2")
    case True
    then have "e' = fst (performAdaptation now ?e2) \<and>
               adaptation_result r = Some (snd (performAdaptation now ?e2))"
      using assms p v by (auto simp: recordOutcome_found Let_def outcomeResult_def)
    then show ?thesis using p True trig by auto
  next
    case False
    then have "e' = ?e2 \<and> adaptation_result r = None"
      using assms p v by (auto simp: recordOutcome_found Let_def outcomeResult_def)
    then show ?thesis using p False trig by auto
  qed
qed

lemma recordOutcomes_nth:
  assumes "i < length calls" "calls ! i = (now, pid, ao)"
  shows "recordOutcomes calls e ! i = recordOutcome now pid ao (engineBefore calls e i)"
  using assms
proof (induction calls arbitrary: e i)
  case Nil
  then show ?case by simp
next
  case (Cons c cs)
  obtain now0 pid0 ao0 where c: "c = (now0, pid0, ao0)" by (cases c) auto
  show ?case
  proof (cases i)
    case 0
    with Cons.prems c show ?thesis by (simp add: engineBefore_def Let_def)
  next
    case (Suc j)
    let ?e1 = "fst (recordOutcome now0 pid0 ao0 e)"
    have j: "j < length cs" "cs ! j = (now, pid, ao)" using Cons.prems Suc by simp_all
    have eb: "engineBefore (c # cs) e (Suc j) = engineBefore cs ?e1 j"
      using c by (cases j) (simp_all add: engineBefore_def Let_def)
    have "recordOutcomes (c # cs) e ! Suc j = recordOutcomes cs ?e1 ! j"
      using c by (simp add: Let_def)
    then show ?thesis using Cons.IH[OF j, of ?e1] eb Suc by simp
  qed
qed

lemma recordOutcomes_threshold:
  "i < length calls \<Longrightarrow>
     adaptationThreshold (fst (recordOutcomes calls e ! i)) = adaptationThreshold e"
proof (induction calls arbitrary: e i)
  case Nil
  then show ?case by simp
next
  case (Cons c cs)
  obtain now0 pid0 ao0 where c: "c = (now0, pid0, ao0)" by (cases c) auto
  show ?case
  proof (cases i)
    case 0
    then show ?thesis using c by (simp add: Let_def)
  next
    case (Suc j)
    then have "j < length cs" using Cons.prems by simp
    from Cons.IH[OF this, of "fst (recordOutcome now0 pid0 ao0 e)"]
    show ?thesis using c Suc by (simp add: Let_def)
  qed
qed

lemma engineBefore_threshold:
  "i \<le> length calls \<Longrightarrow> adaptationThreshold (engineBefore calls e i) = adaptationThreshold e"
  by (cases i) (simp_all add: engineBefore_def recordOutcomes_threshold)

text \<open>
  Claim C3. In a sequence of \<open>recordOutcome\<close> calls that all succeed, call number \<open>i\<close>
  (from 0) leaves a history of \<open>i + 1\<close> more entries than the sequence started with. Where
  that length is a positive multiple of \<open>adaptationThreshold\<close>, the call reports an
  adaptation, the engine it leaves is the engine \<open>performAdaptation\<close> makes of the engine
  with the outcome pushed, and the adaptation history has grown by that one adaptation.
  On every other call no adaptation is reported and the engine is the one with the outcome
  pushed: weights, thresholds and adaptation history are those before the call.
\<close>

theorem adaptation_trigger_cycle:
  assumes "i < length calls"
    and "\<forall>j\<le>i. \<exists>ej rj. recordOutcomes calls e ! j = (ej, Inr rj)"
    and "recordOutcomes calls e ! i = (e', Inr r)"
    and "calls ! i = (now, predictionId, actualOutcome)"
  shows "length (outcomeHistory e') = length (outcomeHistory e) + i + 1 \<and>
         (adaptation_triggered r \<longleftrightarrow>
            (\<exists>k>0. length (outcomeHistory e') = k * adaptationThreshold e)) \<and>
         (\<exists>p. findPrediction (engineBefore calls e i) predictionId = Some p \<and>
            (let before = engineBefore calls e i;
                 pushed = pushOutcome now predictionId actualOutcome p before
             in if \<exists>k>0. length (outcomeHistory e') = k * adaptationThreshold e
                then e' = fst (performAdaptation now pushed) \<and>
                     adaptation_result r = Some (snd (performAdaptation now pushed)) \<and>
                     adaptationHistory e' =
                       adaptationHistory before @ [snd (performAdaptation now pushed)]
                else e' = pushed \<and> adaptation_result r = None \<and>
                     weights e' = weights before \<and> thresholds e' = thresholds before \<and>
                     adaptationHistory e' = adaptationHistory before))"
proof -
  let ?b = "engineBefore calls e i"
  have cyc: "length (outcomeHistory e') = length (outcomeHistory e) + i + 1 \<and>
         (adaptation_triggered r \<longleftrightarrow>
            (\<exists>k>0. length (outcomeHistory e') = k * adaptationThreshold e))"
    using assms(1-3) by (rule recordOutcomes_cycle)
  have call: "recordOutcome now predictionId actualOutcome ?b = (e', Inr r)"
    using recordOutcomes_nth[OF assms(1,4), of e] assms(3) by simp
  have thr: "adaptationThreshold ?b = adaptationThreshold e"
    using assms(1) by (simp add: engineBefore_threshold)
  have len: "length (outcomeHistory e') = Suc (length (outcomeHistory ?b))"
    using recordOutcome_trigger[OF call] by simp
  from recordOutcome_adapts[OF call] obtain p where
    p: "findPrediction ?b predictionId = Some p"
    and step: "if \<exists>k>0. Suc (length (outcomeHistory ?b)) = k * adaptationThreshold ?b
            then e' = fst (performAdaptation now (pushOutcome now predictionId actualOutcome p ?b)) \<and>
                 adaptation_result r =
                   Some (snd (performAdaptation now (pushOutcome now predictionId actualOutcome p ?b)))
            else e' = pushOutcome now predictionId actualOutcome p ?b \<and> adaptation_result r = None"
    by blast
  let ?pushed = "pushOutcome now predictionId actualOutcome p ?b"
  have "if \<exists>k>0. length (outcomeHistory e') = k * adaptationThreshold e
        then e' = fst (performAdaptation now ?pushed) \<and>
             adaptation_result r = Some (snd (performAdaptation now ?pushed)) \<and>
             adaptationHistory e' = adaptationHistory ?b @ [snd (performAdaptation now ?pushed)]
        else e' = ?pushed \<and> adaptation_result r = None \<and>
             weights e' = weights ?b \<and> thresholds e' = thresholds ?b \<and>
             adaptationHistory e' = adaptationHistory ?b"
  proof (cases "\<exists>k>0. length (outcomeHistory e') = k * adaptationThreshold e")
    case True
    then have "e' = fst (performAdaptation now ?pushed) \<and>
               adaptation_result r = Some (snd (performAdaptation now ?pushed))"
      using step by (simp only: len thr if_True)
    then show ?thesis using True by (simp add: performAdaptation_history)
  next
    case False
    then have "e' = ?pushed \<and> adaptation_result r = None"
      using step by (simp only: len thr if_False)
    then show ?thesis using False by simp
  qed
  then show ?thesis using cyc p by (simp add: Let_def)
qed

theorem adaptation_trigger_cycle_witness:
  "(\<exists>e' r a. recordOutcomes (drift_calls 5) drift_start ! 4 = (e', Inr r) \<and>
        length (outcomeHistory e') = 5 \<and> adaptation_triggered r \<and>
        adaptation_result r = Some a \<and>
        adaptationHistory e' = adaptationHistory (engineBefore (drift_calls 5) drift_start 4) @ [a]) \<and>
   (\<exists>e' r. recordOutcomes (drift_calls 5) drift_start ! 3 = (e', Inr r) \<and>
        length (outcomeHistory e') = 4 \<and> \<not> adaptation_triggered r \<and>
        adaptation_result r = None \<and>
        weights e' = weights (engineBefore (drift_calls 5) drift_start 3) \<and>
        thresholds e' = thresholds (engineBefore (drift_calls 5) drift_start 3) \<and>
        adaptationHistory e' = adaptationHistory (engineBefore (drift_calls 5) drift_start 3))"
proof -
  have all: "\<forall>c\<in>set (drift_calls 5). snd c = (''p1'', drift_outcome)"
    by (auto simp: drift_calls_def)
  have len: "length (drift_calls 5) = 5" by (simp add: drift_calls_def)
  have ok: "\<forall>j\<le>4. \<exists>ej rj. recordOutcomes (drift_calls 5) drift_start ! j = (ej, Inr rj)"
    using drift_calls_succeed[OF drift_start_inv all] len by simp
  then have ok3: "\<forall>j\<le>3. \<exists>ej rj. recordOutcomes (drift_calls 5) drift_start ! j = (ej, Inr rj)"
    by simp
  have c4: "drift_calls 5 ! 4 = (300000, ''p1'', drift_outcome)"
    and c3: "drift_calls 5 ! 3 = (240000, ''p1'', drift_outcome)"
    by (simp_all add: drift_calls_def)
  have on: "\<exists>k>0. (5::nat) = k * 5" by (rule exI[of _ 1]) simp
  have off: "\<And>k::nat. k * 5 \<noteq> 4" by presburger
  from ok obtain e4 r4 where er4: "recordOutcomes (drift_calls 5) drift_start ! 4 = (e4, Inr r4)"
    by blast
  from ok3 obtain e3 r3 where er3: "recordOutcomes (drift_calls 5) drift_start ! 3 = (e3, Inr r3)"
    by blast
  have i4: "4 < length (drift_calls 5)" and i3: "3 < length (drift_calls 5)"
    using len by simp_all
  have l4: "length (outcomeHistory e4) = 5"
    using adaptation_trigger_cycle[OF i4 ok er4 c4] by (simp add: drift_start_fields)
  have l3: "length (outcomeHistory e3) = 4"
    using adaptation_trigger_cycle[OF i3 ok3 er3 c3] by (simp add: drift_start_fields)
  have first: "\<exists>a. adaptation_triggered r4 \<and> adaptation_result r4 = Some a \<and>
        adaptationHistory e4 = adaptationHistory (engineBefore (drift_calls 5) drift_start 4) @ [a]"
    using adaptation_trigger_cycle[OF i4 ok er4 c4] on
    by (auto simp: l4 drift_start_fields Let_def)
  have second: "\<not> adaptation_triggered r3 \<and> adaptation_result r3 = None \<and>
        weights e3 = weights (engineBefore (drift_calls 5) drift_start 3) \<and>
        thresholds e3 = thresholds (engineBefore (drift_calls 5) drift_start 3) \<and>
        adaptationHistory e3 = adaptationHistory (engineBefore (drift_calls 5) drift_start 3)"
    using adaptation_trigger_cycle[OF i3 ok3 er3 c3]
    by (auto simp: l3 drift_start_fields Let_def off)
  show ?thesis
    using er4 l4 first er3 l3 second by blast
qed

theorem accuracy_low_versus_high_witness:
  "calculatePredictionAccuracy drift_prediction
     (outcomeRecord 60000 ''p1'' missed_outcome drift_prediction) = 7 / 10 \<and>
   specAccuracy ''LOW'' ''HIGH'' False 1 = 4 / 10"
  using accuracy_low_versus_high[of drift_prediction
      "outcomeRecord 60000 ''p1'' missed_outcome drift_prediction"]
  by (simp add: drift_prediction_def outcomeRecord_def missed_outcome_def js_or_def)

subsection \<open>The run of false alarms\<close>

text \<open>
  One assessment of \<open>alarm_conditions\<close> is stored as the HIGH prediction \<open>a1\<close>; the
  outcomes recorded against it are 175 times LOW and from then on HIGH, one a minute.
  Every fifth outcome adapts the thresholds from the last ten outcomes.
\<close>

lemma alarm_scores:
  "calculateBaseScores alarm_conditions Weather = 10"
  "calculateBaseScores alarm_conditions Time = 3"
  "calculateBaseScores alarm_conditions Crowd = 5"
  "calculateBaseScores alarm_conditions Location = 0"
  "calculateBaseScores alarm_conditions Visibility = 15 / 10"
  by (simp_all add: alarm_conditions_def js_or_def lookup_lower_def weatherScores_def
        timeScores_def crowdScores_def calculateLocationScore_def calculateVisibilityScore_def
        toLowerCase_def lower_char_def)

lemma alarm_weighted:
  "applyAdaptiveWeights new_engine (calculateBaseScores alarm_conditions) = 5"
  by (simp add: applyAdaptiveWeights_def factors_def alarm_scores js_or_def js_round_def
        new_engine_def del: calculateBaseScores.simps)

lemma alarm_start_eq:
  "alarm_start = new_engine\<lparr>recentPredictions := Some [alarm_prediction]\<rparr>"
proof -
  have "level (determineAdaptiveRiskLevel new_engine 5) = ''HIGH''"
    by (simp add: determineAdaptiveRiskLevel_def new_engine_def)
  moreover have "calculatePredictionConfidence new_engine = 7 / 10"
    by (simp add: calculatePredictionConfidence_def new_engine_def)
  moreover have "weights new_engine = initial_weights"
    "thresholds new_engine = \<lparr> low_to_medium = 25 / 10, medium_to_high = 4 \<rparr>"
    "recentPredictions new_engine = None"
    by (simp_all add: new_engine_def)
  ultimately show ?thesis
    by (simp add: alarm_start_def assessRiskAdaptive_def Let_def alarm_weighted
          storePrediction_def alarm_prediction_def del: calculateBaseScores.simps)
qed

text \<open>What every call of the run keeps.\<close>

lemma raised_0: "thresholds alarm_start = raised 0"
  by (simp add: alarm_start_eq new_engine_def raised_def)

lemma raised_Suc:
  "foldl applyThresholdAdjustment (raised k)
     [(''medium_to_high'', 2 / 10), (''low_to_medium'', 1 / 10)] = raised (Suc k)"
  by (simp add: applyThresholdAdjustment_def raised_def min_def max_def field_simps)

lemma raised_top: "35 \<le> k \<Longrightarrow> raised k = \<lparr> low_to_medium = 6, medium_to_high = 6 \<rparr>"
  by (simp add: raised_def min_def)

lemma lowered_top:
  "foldl applyThresholdAdjustment \<lparr> low_to_medium = 6, medium_to_high = 6 \<rparr>
     [(''medium_to_high'', - (1 / 10)), (''low_to_medium'', - (5 / 100))] =
   \<lparr> low_to_medium = 595 / 100, medium_to_high = 59 / 10 \<rparr>"
  by (simp add: applyThresholdAdjustment_def)

lemma adjustments_of_high_predictions:
  assumes "list_all (\<lambda>out. risk_level (out_prediction out) = ''HIGH'') outs" "outs \<noteq> []"
  shows "calculateThresholdAdjustments outs =
     (let rate = real (length (filter (\<lambda>out. actual_risk_level out \<noteq> ''HIGH'') outs))
                   / real (length outs)
      in if rate > 3 / 10 then [(''medium_to_high'', 2 / 10), (''low_to_medium'', 1 / 10)]
         else if rate < 1 / 10 then
           [(''medium_to_high'', - (1 / 10)), (''low_to_medium'', - (5 / 100))]
         else [])"
proof -
  have h: "filter (\<lambda>o'. risk_level (out_prediction o') = ''HIGH'') outs = outs"
    using assms(1) by (simp add: list_all_iff)
  have f: "filter (\<lambda>o'. risk_level (out_prediction o') = ''HIGH'' \<and> actual_risk_level o' \<noteq> ''HIGH'') outs
           = filter (\<lambda>out. actual_risk_level out \<noteq> ''HIGH'') outs"
    using assms(1) by (auto simp: list_all_iff intro: filter_cong)
  show ?thesis
    using assms(2) by (simp add: calculateThresholdAdjustments_def Let_def h f)
qed


lemma alarm_start_inv: "alarm_inv alarm_start"
  by (simp add: alarm_inv_def alarm_start_eq new_engine_def)

lemma alarm_start_history: "outcomeHistory alarm_start = []"
  by (simp add: alarm_start_eq new_engine_def)

lemma alarm_find: "alarm_inv e \<Longrightarrow> findPrediction e ''a1'' = Some alarm_prediction"
  by (simp add: alarm_inv_def findPrediction_def alarm_prediction_def)

lemma alarm_valid:
  "lvl = ''LOW'' \<or> lvl = ''HIGH'' \<Longrightarrow> validateOutcome (alarm_outcome lvl) = Inr ()"
  by (auto simp: validateOutcome_def alarm_outcome_def)

lemma alarm_entry:
  "out_prediction (historyEntry now ''a1'' (alarm_outcome lvl) alarm_prediction) = alarm_prediction"
  "actual_risk_level (historyEntry now ''a1'' (alarm_outcome lvl) alarm_prediction) = lvl"
  by (simp_all add: historyEntry_def outcomeRecord_def Let_def alarm_outcome_def)

lemma alarm_step:
  assumes "alarm_inv e" "lvl = ''LOW'' \<or> lvl = ''HIGH''"
  shows "alarm_inv (fst (recordOutcome now ''a1'' (alarm_outcome lvl) e))"
    and "outcomeHistory (fst (recordOutcome now ''a1'' (alarm_outcome lvl) e)) =
           outcomeHistory e @ [historyEntry now ''a1'' (alarm_outcome lvl) alarm_prediction]"
    and "thresholds (fst (recordOutcome now ''a1'' (alarm_outcome lvl) e)) =
           (if 5 dvd Suc (length (outcomeHistory e))
            then foldl applyThresholdAdjustment (thresholds e)
                   (calculateThresholdAdjustments
                      (slice_last 10
                         (outcomeHistory e @
                            [historyEntry now ''a1'' (alarm_outcome lvl) alarm_prediction])))
            else thresholds e)"
proof -
  let ?e2 = "pushOutcome now ''a1'' (alarm_outcome lvl) alarm_prediction e"
  note found = recordOutcome_found[OF alarm_find[OF assms(1)] alarm_valid[OF assms(2)], of now]
  have thr: "adaptationThreshold e = 5" using assms(1) by (simp add: alarm_inv_def)
  have inv2: "alarm_inv ?e2"
    using assms(1) by (simp add: alarm_inv_def alarm_entry)
  have trig: "shouldTriggerAdaptation ?e2 = (5 dvd Suc (length (outcomeHistory e)))"
    using thr by (auto simp: shouldTriggerAdaptation_def dvd_eq_mod_eq_0 dest: dvd_imp_le)
  show "alarm_inv (fst (recordOutcome now ''a1'' (alarm_outcome lvl) e))"
    using inv2 by (simp add: found Let_def alarm_inv_def)
  show "outcomeHistory (fst (recordOutcome now ''a1'' (alarm_outcome lvl) e)) =
           outcomeHistory e @ [historyEntry now ''a1'' (alarm_outcome lvl) alarm_prediction]"
    by (simp add: found Let_def)
  show "thresholds (fst (recordOutcome now ''a1'' (alarm_outcome lvl) e)) =
           (if 5 dvd Suc (length (outcomeHistory e))
            then foldl applyThresholdAdjustment (thresholds e)
                   (calculateThresholdAdjustments
                      (slice_last 10
                         (outcomeHistory e @
                            [historyEntry now ''a1'' (alarm_outcome lvl) alarm_prediction])))
            else thresholds e)"
    by (simp add: found Let_def trig performAdaptation_thresholds thr)
qed

lemma alarm_engine_0: "alarm_engine 0 = alarm_start"
  by (simp add: alarm_engine_def)

lemma alarm_engine_Suc:
  "alarm_engine (Suc n) =
     fst (recordOutcome (60000 * int (Suc n)) ''a1''
            (alarm_outcome (if n < 175 then ''LOW'' else ''HIGH'')) (alarm_engine n))"
proof -
  have "map alarm_call [0..<Suc n] =
          map alarm_call [0..<n] @
            [(60000 * int (Suc n), ''a1'', alarm_outcome (if n < 175 then ''LOW'' else ''HIGH''))]"
    by (simp add: alarm_call_def)
  then show ?thesis
    by (simp add: alarm_engine_def recordOutcomes_snoc del: recordOutcomes.simps upt_Suc)
qed

lemma alarm_engine_inv: "alarm_inv (alarm_engine n) \<and> length (outcomeHistory (alarm_engine n)) = n"
proof (induction n)
  case 0
  then show ?case by (simp add: alarm_engine_0 alarm_start_inv alarm_start_history)
next
  case (Suc n)
  then show ?case
    using alarm_step(1,2)[of "alarm_engine n" "if n < 175 then ''LOW'' else ''HIGH''"
        "60000 * int (Suc n)"]
    by (simp add: alarm_engine_Suc)
qed

lemma alarm_high_predictions:
  "alarm_inv e \<Longrightarrow> list_all (\<lambda>out. risk_level (out_prediction out) = ''HIGH'') (outcomeHistory e)"
  by (auto simp: alarm_inv_def list_all_iff alarm_prediction_def)

lemma filter_all_low:
  "list_all (\<lambda>out. actual_risk_level out = ''LOW'') xs \<Longrightarrow>
     filter (\<lambda>out. actual_risk_level out \<noteq> ''HIGH'') xs = xs"
  by (induction xs) auto

lemma filter_all_high:
  "list_all (\<lambda>out. actual_risk_level out = ''HIGH'') xs \<Longrightarrow>
     filter (\<lambda>out. actual_risk_level out \<noteq> ''HIGH'') xs = []"
  by (induction xs) auto

lemma adjustments_all_false_alarms:
  assumes "outs \<noteq> []" "list_all (\<lambda>out. actual_risk_level out = ''LOW'') outs"
    "list_all (\<lambda>out. risk_level (out_prediction out) = ''HIGH'') outs"
  shows "calculateThresholdAdjustments outs =
           [(''medium_to_high'', 2 / 10), (''low_to_medium'', 1 / 10)]"
  using assms(1)
  by (simp add: adjustments_of_high_predictions[OF assms(3,1)] filter_all_low[OF assms(2)] Let_def)

text \<open>The false alarms: after \<open>n \<le> 175\<close> outcomes the thresholds were raised \<open>n div 5\<close> times.\<close>

lemma alarm_phase1:
  "n \<le> 175 \<Longrightarrow>
     list_all (\<lambda>out. actual_risk_level out = ''LOW'') (outcomeHistory (alarm_engine n)) \<and>
     thresholds (alarm_engine n) = raised (n div 5)"
proof (induction n)
  case 0
  then show ?case by (simp add: alarm_engine_0 alarm_start_history raised_0)
next
  case (Suc n)
  let ?e = "alarm_engine n"
  define now where "now = 60000 * int (Suc n)"
  let ?entry = "historyEntry now ''a1'' (alarm_outcome ''LOW'') alarm_prediction"
  let ?h' = "outcomeHistory ?e @ [?entry]"
  from Suc have n: "n < 175" and low: "list_all (\<lambda>out. actual_risk_level out = ''LOW'') (outcomeHistory ?e)"
    and thr: "thresholds ?e = raised (n div 5)" by simp_all
  note inv = alarm_engine_inv[of n]
  have e': "alarm_engine (Suc n) = fst (recordOutcome now ''a1'' (alarm_outcome ''LOW'') ?e)"
    using n by (simp add: alarm_engine_Suc now_def)
  have hist: "outcomeHistory (alarm_engine (Suc n)) = ?h'"
    using alarm_step(2)[of ?e "''LOW''" now] inv by (simp add: e')
  have low': "list_all (\<lambda>out. actual_risk_level out = ''LOW'') ?h'"
    using low by (simp add: alarm_entry)
  have high': "list_all (\<lambda>out. risk_level (out_prediction out) = ''HIGH'') ?h'"
    using alarm_high_predictions[of "alarm_engine (Suc n)"] alarm_engine_inv[of "Suc n"] hist by simp
  let ?outs = "slice_last 10 ?h'"
  have outs: "?outs \<noteq> []" "list_all (\<lambda>out. actual_risk_level out = ''LOW'') ?outs"
    "list_all (\<lambda>out. risk_level (out_prediction out) = ''HIGH'') ?outs"
    using low' high' by (simp_all add: slice_last_nonempty slice_last_list_all)
  have adj: "calculateThresholdAdjustments ?outs =
               [(''medium_to_high'', 2 / 10), (''low_to_medium'', 1 / 10)]"
    by (rule adjustments_all_false_alarms[OF outs])
  have "thresholds (alarm_engine (Suc n)) = raised (Suc n div 5)"
  proof (cases "5 dvd Suc n")
    case True
    then have "Suc n div 5 = Suc (n div 5)" by presburger
    then show ?thesis
      using alarm_step(3)[of ?e "''LOW''" now] inv True raised_Suc[of "n div 5"]
      by (simp add: e' adj thr)
  next
    case False
    then have "Suc n div 5 = n div 5" by presburger
    then show ?thesis
      using alarm_step(3)[of ?e "''LOW''" now] inv False
      by (simp add: e' thr)
  qed
  then show ?case using low' hist by simp
qed


lemma adjustments_by_counts:
  assumes "list_all (\<lambda>out. risk_level (out_prediction out) = ''HIGH'') outs" "outs \<noteq> []"
    and "length (filter (\<lambda>out. actual_risk_level out \<noteq> ''HIGH'') outs) = fp"
    and "length outs = n"
  shows "calculateThresholdAdjustments outs =
     (if real fp / real n > 3 / 10 then [(''medium_to_high'', 2 / 10), (''low_to_medium'', 1 / 10)]
      else if real fp / real n < 1 / 10 then
        [(''medium_to_high'', - (1 / 10)), (''low_to_medium'', - (5 / 100))]
      else [])"
  by (simp only: adjustments_of_high_predictions[OF assms(1,2)] assms(3,4) Let_def)

lemma alarm_175:
  "length (outcomeHistory (alarm_engine 175)) = 175"
  "list_all (\<lambda>out. actual_risk_level out = ''LOW'') (outcomeHistory (alarm_engine 175))"
  "thresholds (alarm_engine 175) = \<lparr> low_to_medium = 6, medium_to_high = 6 \<rparr>"
  using alarm_engine_inv[of 175] alarm_phase1[of 175] raised_top[of 35] by simp_all

text \<open>The first ten true alarms.\<close>

lemma alarm_phase2:
  "m \<le> 10 \<Longrightarrow>
     \<exists>hs. outcomeHistory (alarm_engine (175 + m)) = outcomeHistory (alarm_engine 175) @ hs \<and>
          length hs = m \<and> list_all (\<lambda>out. actual_risk_level out = ''HIGH'') hs \<and>
          thresholds (alarm_engine (175 + m)) =
            (if m < 10 then \<lparr> low_to_medium = 6, medium_to_high = 6 \<rparr>
             else \<lparr> low_to_medium = 595 / 100, medium_to_high = 59 / 10 \<rparr>)"
proof (induction m)
  case 0
  then show ?case by (simp add: alarm_175)
next
  case (Suc m)
  let ?H = "outcomeHistory (alarm_engine 175)"
  let ?e = "alarm_engine (175 + m)"
  define now where "now = 60000 * int (Suc (175 + m))"
  let ?entry = "historyEntry now ''a1'' (alarm_outcome ''HIGH'') alarm_prediction"
  from Suc obtain hs where hs: "outcomeHistory ?e = ?H @ hs" "length hs = m"
    "list_all (\<lambda>out. actual_risk_level out = ''HIGH'') hs"
    and thr: "thresholds ?e = \<lparr> low_to_medium = 6, medium_to_high = 6 \<rparr>"
    by auto
  note inv = alarm_engine_inv[of "175 + m"]
  have e': "alarm_engine (175 + Suc m) = fst (recordOutcome now ''a1'' (alarm_outcome ''HIGH'') ?e)"
    using alarm_engine_Suc[of "175 + m"] by (simp add: now_def)
  let ?hs' = "hs @ [?entry]"
  have hist: "outcomeHistory (alarm_engine (175 + Suc m)) = ?H @ ?hs'"
    unfolding e' using alarm_step(2)[of ?e "''HIGH''" now] inv by (simp add: hs(1))
  have hs': "length ?hs' = Suc m" "list_all (\<lambda>out. actual_risk_level out = ''HIGH'') ?hs'"
    using hs by (simp_all add: alarm_entry)
  have high': "list_all (\<lambda>out. risk_level (out_prediction out) = ''HIGH'') (?H @ ?hs')"
    using alarm_high_predictions[of "alarm_engine (175 + Suc m)"] alarm_engine_inv[of "175 + Suc m"]
    by (simp only: hist)
  have step: "thresholds (alarm_engine (175 + Suc m)) =
           (if 5 dvd Suc (175 + m)
            then foldl applyThresholdAdjustment \<lparr> low_to_medium = 6, medium_to_high = 6 \<rparr>
                   (calculateThresholdAdjustments (slice_last 10 (?H @ ?hs')))
            else \<lparr> low_to_medium = 6, medium_to_high = 6 \<rparr>)"
    unfolding e' using alarm_step(3)[of ?e "''HIGH''" now] inv by (simp add: hs(1) thr)
  have "thresholds (alarm_engine (175 + Suc m)) =
          (if Suc m < 10 then \<lparr> low_to_medium = 6, medium_to_high = 6 \<rparr>
           else \<lparr> low_to_medium = 595 / 100, medium_to_high = 59 / 10 \<rparr>)"
  proof -
    have "Suc m = 5 \<or> Suc m = 10 \<or> (\<not> 5 dvd Suc (175 + m) \<and> Suc m < 10)"
      using Suc.prems by presburger
    then consider "Suc m = 5" | "Suc m = 10" | "\<not> 5 dvd Suc (175 + m)" "Suc m < 10"
      by blast
    then show ?thesis
    proof cases
      case 1
      let ?outs = "drop 170 ?H @ ?hs'"
      have sl: "slice_last 10 (?H @ ?hs') = ?outs"
        using 1 hs' alarm_175(1) by (simp add: slice_last_def)
      have ne: "?outs \<noteq> []" by simp
      have hp: "list_all (\<lambda>out. risk_level (out_prediction out) = ''HIGH'') ?outs"
        using high' by (auto simp: list_all_iff dest: in_set_dropD)
      have lowpart: "list_all (\<lambda>out. actual_risk_level out = ''LOW'') (drop 170 ?H)"
        using alarm_175(2) by (auto simp: list_all_iff dest: in_set_dropD)
      have fp: "filter (\<lambda>out. actual_risk_level out \<noteq> ''HIGH'') ?outs = drop 170 ?H"
        using filter_all_low[OF lowpart] filter_all_high[OF hs'(2)] by simp
      have len: "length ?outs = 10" "length (drop 170 ?H) = 5"
        using 1 hs'(1) alarm_175(1) by simp_all
      have c: "length (filter (\<lambda>out. actual_risk_level out \<noteq> ''HIGH'') ?outs) = 5"
        by (simp only: fp len(2))
      have adj: "calculateThresholdAdjustments ?outs =
                   [(''medium_to_high'', 2 / 10), (''low_to_medium'', 1 / 10)]"
        by (simp add: adjustments_by_counts[OF hp ne c len(1)])
      have "5 dvd Suc (175 + m)" using 1 by presburger
      then show ?thesis
        using step 1 raised_Suc[of 35] raised_top[of 35] raised_top[of 36]
        by (simp add: sl adj)
    next
      case 2
      have sl: "slice_last 10 (?H @ ?hs') = ?hs'"
        using 2 hs' alarm_175(1) by (simp add: slice_last_def)
      have ne: "?hs' \<noteq> []" by simp
      have hp: "list_all (\<lambda>out. risk_level (out_prediction out) = ''HIGH'') ?hs'"
        using high' by (simp del: list_all_append add: list_all_append)
      have len: "length ?hs' = 10" using 2 hs'(1) by simp
      have c: "length (filter (\<lambda>out. actual_risk_level out \<noteq> ''HIGH'') ?hs') = 0"
        by (simp only: filter_all_high[OF hs'(2)] list.size)
      have adj: "calculateThresholdAdjustments ?hs' =
                   [(''medium_to_high'', - (1 / 10)), (''low_to_medium'', - (5 / 100))]"
        by (simp add: adjustments_by_counts[OF hp ne c len])
      have "5 dvd Suc (175 + m)" using 2 by presburger
      then show ?thesis
        using step 2 lowered_top by (simp add: sl adj)
    next
      case 3
      then show ?thesis using step by simp
    qed
  qed
  with hist hs' show ?case by blast
qed

text \<open>The thresholds after adaptation steps that lowered them.\<close>

lemma lowered_1: "lowered 1 = \<lparr> low_to_medium = 595 / 100, medium_to_high = 59 / 10 \<rparr>"
  by (simp add: lowered_def)

lemma lowered_Suc:
  "foldl applyThresholdAdjustment (lowered k)
     [(''medium_to_high'', - (1 / 10)), (''low_to_medium'', - (5 / 100))] = lowered (Suc k)"
  by (simp add: applyThresholdAdjustment_def lowered_def min_def max_def field_simps)

lemma lowered_41: "lowered 41 = \<lparr> low_to_medium = 395 / 100, medium_to_high = 19 / 10 \<rparr>"
  by (simp add: lowered_def)

lemma adjustments_all_true_alarms:
  assumes "outs \<noteq> []" "list_all (\<lambda>out. actual_risk_level out = ''HIGH'') outs"
    "list_all (\<lambda>out. risk_level (out_prediction out) = ''HIGH'') outs"
  shows "calculateThresholdAdjustments outs =
           [(''medium_to_high'', - (1 / 10)), (''low_to_medium'', - (5 / 100))]"
  using assms(1)
  by (simp add: adjustments_of_high_predictions[OF assms(3,1)] filter_all_high[OF assms(2)] Let_def)

lemma alarm_true_alarms:
  "\<exists>hs. outcomeHistory (alarm_engine (175 + m)) = outcomeHistory (alarm_engine 175) @ hs \<and>
        length hs = m \<and> list_all (\<lambda>out. actual_risk_level out = ''HIGH'') hs"
proof (induction m)
  case 0
  then show ?case by simp
next
  case (Suc m)
  let ?H = "outcomeHistory (alarm_engine 175)"
  let ?e = "alarm_engine (175 + m)"
  define now where "now = 60000 * int (Suc (175 + m))"
  let ?entry = "historyEntry now ''a1'' (alarm_outcome ''HIGH'') alarm_prediction"
  from Suc obtain hs where hs: "outcomeHistory ?e = ?H @ hs" "length hs = m"
    "list_all (\<lambda>out. actual_risk_level out = ''HIGH'') hs"
    by auto
  note inv = alarm_engine_inv[of "175 + m"]
  have e': "alarm_engine (175 + Suc m) = fst (recordOutcome now ''a1'' (alarm_outcome ''HIGH'') ?e)"
    using alarm_engine_Suc[of "175 + m"] by (simp add: now_def)
  have hist: "outcomeHistory (alarm_engine (175 + Suc m)) = ?H @ (hs @ [?entry])"
    unfolding e' using alarm_step(2)[of ?e "''HIGH''" now] inv by (simp add: hs(1))
  have "length (hs @ [?entry]) = Suc m"
    "list_all (\<lambda>out. actual_risk_level out = ''HIGH'') (hs @ [?entry])"
    using hs by (simp_all add: alarm_entry)
  with hist show ?case by blast
qed


text \<open>
  From the tenth true alarm on, the last ten outcomes are all true alarms, and every
  adaptation step lowers the thresholds.
\<close>

lemma drop_append_add: "drop (length xs + n) (xs @ ys) = drop n ys"
  by simp

lemma alarm_185: "thresholds (alarm_engine 185) = lowered 1"
proof -
  have "thresholds (alarm_engine 185) = \<lparr> low_to_medium = 595 / 100, medium_to_high = 59 / 10 \<rparr>"
    using alarm_phase2[of 10] by auto
  then show ?thesis by (simp only: lowered_1)
qed

lemma alarm_lowering_step:
  assumes "10 \<le> m"
  shows "thresholds (alarm_engine (Suc (175 + m))) =
           (if 5 dvd Suc m
            then foldl applyThresholdAdjustment (thresholds (alarm_engine (175 + m)))
                   [(''medium_to_high'', - (1 / 10)), (''low_to_medium'', - (5 / 100))]
            else thresholds (alarm_engine (175 + m)))"
proof -
  let ?H = "outcomeHistory (alarm_engine 175)"
  define k where "k = 175 + m"
  define now where "now = 60000 * int (Suc k)"
  let ?e = "alarm_engine k"
  let ?entry = "historyEntry now ''a1'' (alarm_outcome ''HIGH'') alarm_prediction"
  have inv: "alarm_inv ?e" using alarm_engine_inv[of k] by blast
  have e': "alarm_engine (Suc k) = fst (recordOutcome now ''a1'' (alarm_outcome ''HIGH'') ?e)"
    using alarm_engine_Suc[of k] by (simp add: now_def k_def)
  have sk: "Suc k = 175 + Suc m" by (simp add: k_def)
  obtain hs where hs: "outcomeHistory (alarm_engine (Suc k)) = ?H @ hs" "length hs = Suc m"
    "list_all (\<lambda>out. actual_risk_level out = ''HIGH'') hs"
    using alarm_true_alarms[of "Suc m"] unfolding sk by blast
  have h1: "outcomeHistory (alarm_engine (Suc k)) = outcomeHistory ?e @ [?entry]"
    unfolding e' using alarm_step(2)[OF inv, of "''HIGH''" now] by blast
  have hist: "outcomeHistory ?e @ [?entry] = ?H @ hs"
    using h1[symmetric] hs(1) by (rule trans)
  have high: "list_all (\<lambda>out. risk_level (out_prediction out) = ''HIGH'') (?H @ hs)"
    using alarm_high_predictions[of "alarm_engine (Suc k)"] alarm_engine_inv[of "Suc k"]
    by (simp only: hs(1))
  let ?outs = "drop (Suc m - 10) hs"
  have lenH: "length ?H = 175" by (rule alarm_175(1))
  have "length (?H @ hs) - 10 = length ?H + (Suc m - 10)"
    using assms by (simp add: lenH hs(2))
  moreover have "drop (length ?H + (Suc m - 10)) (?H @ hs) = ?outs"
    by (rule drop_append_add)
  ultimately have "drop (length (?H @ hs) - 10) (?H @ hs) = ?outs"
    by (simp only:)
  then have sl: "slice_last 10 (?H @ hs) = ?outs"
    by (simp add: slice_last_def)
  have "length ?outs = 10" using assms by (simp add: hs(2))
  then have ne: "?outs \<noteq> []" by auto
  have act: "list_all (\<lambda>out. actual_risk_level out = ''HIGH'') ?outs"
    using hs(3) by (auto simp: list_all_iff dest: in_set_dropD)
  have prd: "list_all (\<lambda>out. risk_level (out_prediction out) = ''HIGH'') ?outs"
    using high by (auto simp: list_all_iff dest: in_set_dropD)
  have adj: "calculateThresholdAdjustments (slice_last 10 (outcomeHistory ?e @ [?entry])) =
               [(''medium_to_high'', - (1 / 10)), (''low_to_medium'', - (5 / 100))]"
    unfolding hist sl by (rule adjustments_all_true_alarms[OF ne act prd])
  have len: "length (outcomeHistory ?e) = k" using alarm_engine_inv[of k] by blast
  have "(5 dvd Suc k) = (5 dvd Suc m)" unfolding k_def by presburger
  then have dv: "(5 dvd Suc (length (outcomeHistory ?e))) = (5 dvd Suc m)"
    by (simp only: len)
  have "thresholds (alarm_engine (Suc k)) =
           (if 5 dvd Suc m
            then foldl applyThresholdAdjustment (thresholds ?e)
                   [(''medium_to_high'', - (1 / 10)), (''low_to_medium'', - (5 / 100))]
            else thresholds ?e)"
    unfolding e' using alarm_step(3)[OF inv, of "''HIGH''" now]
    by (simp only: adj dv) blast
  then show ?thesis by (simp only: k_def)
qed

lemma alarm_phase3:
  "thresholds (alarm_engine (185 + j)) = lowered (Suc (j div 5))"
proof (induction j)
  case 0
  have "185 + 0 = (185::nat)" "Suc (0 div 5) = 1" by simp_all
  then show ?case using alarm_185 by (simp only:)
next
  case (Suc j)
  have m: "10 \<le> 10 + j" by simp
  have s: "185 + Suc j = Suc (175 + (10 + j))" "185 + j = 175 + (10 + j)" by simp_all
  have dv: "(5 dvd Suc (10 + j)) = (5 dvd Suc j)" by presburger
  have thr: "thresholds (alarm_engine (175 + (10 + j))) = lowered (Suc (j div 5))"
    using Suc.IH by (simp only: s)
  show ?case
  proof (cases "5 dvd Suc j")
    case True
    then have d: "Suc j div 5 = Suc (j div 5)" by presburger
    show ?thesis
      unfolding s alarm_lowering_step[OF m] thr d dv
      using True lowered_Suc[of "Suc (j div 5)"] by (simp only: if_True)
  next
    case False
    then have d: "Suc j div 5 = j div 5" by presburger
    show ?thesis
      unfolding s alarm_lowering_step[OF m] thr d dv
      using False by (simp only: if_False)
  qed
qed

lemma alarm_385:
  "thresholds (alarm_engine 385) = \<lparr> low_to_medium = 395 / 100, medium_to_high = 19 / 10 \<rparr>"
proof -
  have "185 + 200 = (385::nat)" "Suc (200 div 5) = (41::nat)" by simp_all
  then show ?thesis using alarm_phase3[of 200] lowered_41 by (simp only:)
qed

text \<open>The weights after an outcome that triggered an adaptation step sum to 1.\<close>

lemma alarm_adapted_weights:
  assumes "5 dvd Suc n"
  shows "sum_list (map (weights (alarm_engine (Suc n))) factors) = 1"
proof -
  let ?e = "alarm_engine n"
  define now where "now = 60000 * int (Suc n)"
  define lvl where "lvl = (if n < 175 then ''LOW'' else ''HIGH'')"
  let ?e2 = "pushOutcome now ''a1'' (alarm_outcome lvl) alarm_prediction ?e"
  note inv = alarm_engine_inv[of n]
  have lv: "lvl = ''LOW'' \<or> lvl = ''HIGH''" by (simp add: lvl_def)
  note found = recordOutcome_found[OF alarm_find alarm_valid[OF lv], of ?e now]
  have "shouldTriggerAdaptation ?e2"
    using inv assms by (auto simp: shouldTriggerAdaptation_def alarm_inv_def dvd_eq_mod_eq_0 dest: dvd_imp_le)
  then have "fst (recordOutcome now ''a1'' (alarm_outcome lvl) ?e) = fst (performAdaptation now ?e2)"
    using inv by (simp add: found Let_def)
  moreover have "alarm_engine (Suc n) = fst (recordOutcome now ''a1'' (alarm_outcome lvl) ?e)"
    using alarm_engine_Suc[of n] by (simp add: now_def lvl_def)
  ultimately have "weights (alarm_engine (Suc n)) = weights (fst (performAdaptation now ?e2))"
    by simp
  then show ?thesis
    by (simp only: performAdaptation_weights applyWeightAdjustments_sum)
qed

lemma uniform_scores: "calculateBaseScores uniform_conditions f = 2"
  by (cases f)
     (simp_all add: uniform_conditions_def js_or_def lookup_lower_def weatherScores_def
        timeScores_def crowdScores_def calculateLocationScore_def calculateVisibilityScore_def
        toLowerCase_def lower_char_def Let_def)

lemma uniform_weighted:
  assumes "sum_list (map (weights e) factors) = 1"
  shows "applyAdaptiveWeights e (calculateBaseScores uniform_conditions) = 2"
proof -
  have w: "\<And>f. js_or (Some (weights e f)) 0 = weights e f" by (simp add: js_or_def)
  have "foldl (\<lambda>acc f. acc + calculateBaseScores uniform_conditions f * js_or (Some (weights e f)) 0)
          0 factors = 2 * sum_list (map (weights e) factors)"
    by (simp add: factors_def uniform_scores w del: calculateBaseScores.simps)
  then show ?thesis
    using assms
    by (simp add: applyAdaptiveWeights_def Let_def js_round_def del: calculateBaseScores.simps)
qed

lemma uniform_assessment:
  assumes "sum_list (map (weights e) factors) = 1"
  shows "\<exists>a. snd (assessRiskAdaptive now freshId (Some uniform_conditions) outcomeId e) = Inr a \<and>
            ra_risk_score (ar_risk_assessment a) = 2 \<and>
            ra_risk_level (ar_risk_assessment a) = level (determineAdaptiveRiskLevel e 2)"
  using uniform_weighted[OF assms]
  by (simp add: assessRiskAdaptive_def Let_def del: calculateBaseScores.simps)

text \<open>
  Claim C2, against its wording: the claim maps every score below \<open>low_to_medium\<close> to LOW.
  After the 175 false alarms and 210 true alarms of the run above the thresholds of the
  engine are \<open>low_to_medium = 3.95\<close> and \<open>medium_to_high = 1.9\<close>. The five base scores of
  \<open>uniform_conditions\<close> are all 2 and the weights sum to 1, so the scorer gives these
  conditions the score 2.0, whatever the weights. The score is below \<open>low_to_medium\<close>, and
  the level of the assessment is HIGH.
\<close>

theorem inverted_thresholds:
  "thresholds (alarm_engine 385) = \<lparr> low_to_medium = 395 / 100, medium_to_high = 19 / 10 \<rparr> \<and>
   applyAdaptiveWeights (alarm_engine 385) (calculateBaseScores uniform_conditions) = 2 \<and>
   2 < low_to_medium (thresholds (alarm_engine 385)) \<and>
   level (determineAdaptiveRiskLevel (alarm_engine 385) 2) = ''HIGH'' \<and>
   (case snd (assessRiskAdaptive 23160000 ''pred_1'' (Some uniform_conditions) None
                (alarm_engine 385)) of
      Inl err \<Rightarrow> False
    | Inr a \<Rightarrow> ra_risk_score (ar_risk_assessment a) = 2 \<and>
               ra_risk_level (ar_risk_assessment a) = ''HIGH'')"
proof -
  have "(5::nat) dvd Suc 384" by presburger
  from alarm_adapted_weights[OF this]
  have w: "sum_list (map (weights (alarm_engine 385)) factors) = 1" by simp
  have lvl: "level (determineAdaptiveRiskLevel (alarm_engine 385) 2) = ''HIGH''"
    by (simp add: alarm_385 determineAdaptiveRiskLevel_def)
  obtain a where a:
    "snd (assessRiskAdaptive 23160000 ''pred_1'' (Some uniform_conditions) None (alarm_engine 385)) = Inr a"
    "ra_risk_score (ar_risk_assessment a) = 2"
    "ra_risk_level (ar_risk_assessment a) = level (determineAdaptiveRiskLevel (alarm_engine 385) 2)"
    using uniform_assessment[OF w] by blast
  have low: "2 < low_to_medium (thresholds (alarm_engine 385))"
    by (simp add: alarm_385)
  show ?thesis
    using alarm_385 uniform_weighted[OF w] low lvl a by simp
qed


section \<open>Properties of the state machine\<close>

lemma states_stateName: "states (stateName st) = Some st"
  by (cases st) (simp_all add: states_def)

lemma states_Some: "states t = Some st \<Longrightarrow> t = stateName st"
  by (auto simp: states_def split: if_splits)

lemma new_machine_state:
  "currentState (new_machine now) = INITIALIZING"
  by (simp add: new_machine_def enterState_def applyStateBehaviors_def callHandler_def Let_def
        startMonitoring_def stopMonitoring_def)

text \<open>
  Claim C4. From any machine, whatever handlers and listeners are registered, a call of
  \<open>transition\<close> with the name of one of the ten states that is not in the allowed
  transitions of the current state returns false and leaves the machine as it was: the
  current state, the previous state, the history, the timers and the monitoring frequency
  of the behaviour profile are all unchanged.
\<close>

theorem transition_rejected:
  assumes "states t = Some st" and "t \<notin> set (allowedTransitions (currentState m))"
  shows "transition now t ctx m = (m, False)"
  using assms by (simp add: transition_def transitionTo_def isTransitionAllowed_def)

theorem transition_rejected_witness:
  "transition 1000 ''HIGH_RISK'' [] (new_machine 0) = (new_machine 0, False)"
  using transition_rejected[of "''HIGH_RISK''" HIGH_RISK "new_machine 0" 1000 "[]"]
  by (simp add: states_def new_machine_state)

section \<open>Properties of the simulation\<close>

lemma at_index_Some:
  "0 \<le> i \<Longrightarrow> i < int (length xs) \<Longrightarrow> \<exists>x. at_index xs i = Some x"
  by (simp add: at_index_def)

lemma simulateWeatherChange_stable:
  assumes "wt_direction t \<noteq> ''deteriorating''" "wt_direction t \<noteq> ''improving''"
  shows "\<exists>x. simulateWeatherChange (Some w) t h r = Inr (Some x)"
proof -
  have "\<And>k::int. \<exists>x. at_index weatherStates (max 0 (min (int (length weatherStates) - 1) k)) = Some x"
    by (rule at_index_Some) (simp_all add: weatherStates_def)
  then show ?thesis
    using assms by (simp add: simulateWeatherChange_def Let_def)
qed

lemma simulateCrowdChange_defined:
  "\<exists>x. simulateCrowdChange (Some d) t tm h = Inr (Some x)"
proof -
  have "\<And>k::int. \<exists>x. at_index crowdLevels (max 0 (min (int (length crowdLevels) - 1) k)) = Some x"
    by (rule at_index_Some) (simp_all add: crowdLevels_def)
  then show ?thesis
    by (simp add: simulateCrowdChange_def Let_def)
qed

lemma assessRisk_defined: "\<exists>a. assessRisk l t (Some w) (Some d) = Inr a"
  by (simp add: assessRisk_def Let_def)

lemma assessRiskAtTime_defined:
  assumes "sc_weather c = Some w" "sc_crowd_density c = Some d"
  shows "\<exists>a. assessRiskAtTime env c = Inr a"
  using assms assessRisk_defined by (simp add: assessRiskAtTime_def)

lemma default_weather_trend:
  "wt_direction (weather_trend (mergeTrends generateDefaultTrends no_overrides)) = ''stable''"
  by (simp add: mergeTrends_def generateDefaultTrends_def no_overrides_def)

lemma predictionAt_stable:
  assumes "weather c = Some w" "crowd_density c = Some d"
    and "wt_direction (weather_trend tr) \<noteq> ''deteriorating''"
    and "wt_direction (weather_trend tr) \<noteq> ''improving''"
  shows "\<exists>p. predictionAt env c tr im i = Inr p \<and>
             hours_from_start p = real i * im / 60 \<and>
             confidence p = calculateConfidence (real i * im / 60)"
proof -
  let ?tr = tr
  let ?t = "startTime env + \<lfloor>real i * im * 60000\<rfloor>"
  let ?h = "real i * im / 60"
  obtain x where x: "simulateWeatherChange (Some w) (weather_trend ?tr) ?h (random env i) = Inr (Some x)"
    using simulateWeatherChange_stable[OF assms(3,4), of w ?h "random env i"] by blast
  obtain y where y: "simulateCrowdChange (Some d) (crowd_trend ?tr) ?t ?h = Inr (Some y)"
    using simulateCrowdChange_defined by blast
  obtain sc where sc: "calculateConditionsAtTime c ?tr ?h ?t (random env i) = Inr sc"
    and scw: "sc_weather sc = Some x" and scd: "sc_crowd_density sc = Some y"
    using x y assms by (simp add: calculateConditionsAtTime_def)
  obtain a where a: "assessRiskAtTime env sc = Inr a"
    using assessRiskAtTime_defined[OF scw scd] by blast
  show ?thesis
    using sc a by (simp add: predictionAt_def Let_def)
qed

lemma collect_all:
  assumes "\<forall>i\<in>set is. \<exists>x. f i = Inr x \<and> P i x"
  shows "\<exists>xs. collect f is = Inr xs \<and> list_all2 P is xs"
  using assms
proof (induction "is")
  case Nil
  then show ?case by simp
next
  case (Cons i rest)
  then obtain x where x: "f i = Inr x" "P i x" by auto
  from Cons obtain xs where xs: "collect f rest = Inr xs" "list_all2 P rest xs" by auto
  show ?case using x xs by simp
qed

lemma analyzeTrends_defined: "ps \<noteq> [] \<Longrightarrow> \<exists>a. analyzeTrends ps = Inr a"
  by (simp add: analyzeTrends_def Let_def)

lemma simulate_stable:
  assumes "weather c = Some w" "crowd_density c = Some d"
    and "0 < h" "h \<le> 48" "0 < im" "im \<le> 240"
    and "wt_direction (weather_trend (mergeTrends generateDefaultTrends trs)) \<noteq> ''deteriorating''"
    and "wt_direction (weather_trend (mergeTrends generateDefaultTrends trs)) \<noteq> ''improving''"
  shows "\<exists>r. simulateRiskProgression env (Some c) trs h im = Inr r \<and>
             list_all2 (\<lambda>i p. hours_from_start p = real i * im / 60 \<and>
                              confidence p = calculateConfidence (real i * im / 60))
               [0..<nat (\<lceil>h * 60 / im\<rceil> + 1)] (predictions r)"
proof -
  let ?tr = "mergeTrends generateDefaultTrends trs"
  let ?is = "[0..<nat (\<lceil>h * 60 / im\<rceil> + 1)]"
  let ?P = "\<lambda>i p. hours_from_start p = real i * im / 60 \<and>
                    confidence p = calculateConfidence (real i * im / 60)"
  have "\<forall>i\<in>set ?is. \<exists>p. predictionAt env c ?tr im i = Inr p \<and> ?P i p"
    using predictionAt_stable[OF assms(1,2,7,8)] by blast
  from collect_all[of ?is "predictionAt env c ?tr im" ?P, OF this]
  obtain ps where ps: "collect (predictionAt env c ?tr im) ?is = Inr ps" "list_all2 ?P ?is ps"
    by blast
  have "0 < h * 60 / im" using assms by simp
  then have "0 < \<lceil>h * 60 / im\<rceil>" by simp
  then have "nat (\<lceil>h * 60 / im\<rceil> + 1) \<noteq> 0" by linarith
  then have "?is \<noteq> []" by simp
  then have "ps \<noteq> []" using ps(2) by (auto simp: list_all2_conv_all_nth)
  then obtain a where a: "analyzeTrends ps = Inr a" using analyzeTrends_defined by blast
  have "validateSimulationInputs (Some c) h im = Inr ()"
    using assms by (simp add: validateSimulationInputs_def)
  then show ?thesis
    using ps a by (simp add: simulateRiskProgression_def Let_def)
qed

text \<open>
  Six hours at intervals of 30 minutes, where the weather trend is neither improving nor
  deteriorating (the default trend is stable) and the initial conditions carry a weather
  and a crowd density: whatever the other trends, the clock, the random draws and the risk
  assessor, the call succeeds; its predictions are 13, at 0, 30, ..., 360 minutes from the
  start, and their confidence values strictly decrease.
\<close>

lemma simulation_six_hours:
  assumes "weather c = Some w" "crowd_density c = Some d"
    and "wt_direction (weather_trend (mergeTrends generateDefaultTrends trs)) \<noteq> ''deteriorating''"
    and "wt_direction (weather_trend (mergeTrends generateDefaultTrends trs)) \<noteq> ''improving''"
  shows "\<exists>r. simulateRiskProgression env (Some c) trs 6 30 = Inr r \<and>
             length (predictions r) = 13 \<and>
             map (\<lambda>p. hours_from_start p * 60) (predictions r) =
               [0, 30, 60, 90, 120, 150, 180, 210, 240, 270, 300, 330, 360] \<and>
             sorted_wrt (>) (map confidence (predictions r))"
proof -
  have u13: "[0..<13] = [0, 1, 2, 3, 4, 5, 6, 7, 8, 9, 10, 11, 12::nat]"
    by (simp add: upt_rec)
  have is13: "[0..<nat (\<lceil>(6::real) * 60 / 30\<rceil> + 1)] = [0..<13]" by simp
  have "(0::real) < 6" "(6::real) \<le> 48" "(0::real) < 30" "(30::real) \<le> 240" by simp_all
  from simulate_stable[OF assms(1,2) this assms(3,4), of env] obtain r where
    r: "simulateRiskProgression env (Some c) trs 6 30 = Inr r"
    and all: "list_all2 (\<lambda>i p. hours_from_start p = real i * 30 / 60 \<and>
                              confidence p = calculateConfidence (real i * 30 / 60))
               [0..<13] (predictions r)"
    unfolding is13 by auto
  have len: "length (predictions r) = 13"
    using all by (auto dest: list_all2_lengthD)
  have nth: "\<And>i. i < 13 \<Longrightarrow> hours_from_start (predictions r ! i) = real i / 2 \<and>
                confidence (predictions r ! i) = 95 / 100 - 25 / 1000 * real i"
  proof -
    fix i :: nat assume i: "i < 13"
    then have "hours_from_start (predictions r ! i) = real i * 30 / 60 \<and>
               confidence (predictions r ! i) = calculateConfidence (real i * 30 / 60)"
      using all len by (auto simp: list_all2_conv_all_nth)
    moreover have "real i \<le> 12" using i by simp
    then have "calculateConfidence (real i * 30 / 60) = 95 / 100 - 25 / 1000 * real i"
      by (simp add: calculateConfidence_def Let_def max_def)
    ultimately show "hours_from_start (predictions r ! i) = real i / 2 \<and>
                confidence (predictions r ! i) = 95 / 100 - 25 / 1000 * real i"
      by simp
  qed
  have hrs: "map (\<lambda>p. hours_from_start p * 60) (predictions r) =
               [0, 30, 60, 90, 120, 150, 180, 210, 240, 270, 300, 330, 360]"
  proof -
    have "map (\<lambda>p. hours_from_start p * 60) (predictions r) = map (\<lambda>i. real i * 30) [0..<13]"
      by (rule nth_equalityI) (simp_all add: len nth)
    then show ?thesis by (simp add: u13)
  qed
  have srt: "sorted_wrt (>) (map confidence (predictions r))"
    unfolding sorted_wrt_iff_nth_less
  proof (intro allI impI)
    fix i j assume "i < j" "j < length (map confidence (predictions r))"
    then have "i < 13" "j < 13" using len by simp_all
    then show "map confidence (predictions r) ! j < map confidence (predictions r) ! i"
      using nth[of i] nth[of j] len \<open>i < j\<close> by simp
  qed
  show ?thesis
    using r len hrs srt by (intro exI[of _ r] conjI)
qed

lemma simulation_six_hours_default:
  "\<exists>r. simulateRiskProgression quiet_env (Some scenario2) no_overrides 6 30 = Inr r \<and>
       length (predictions r) = 13 \<and>
       sorted_wrt (>) (map confidence (predictions r))"
  using simulation_six_hours[of scenario2 "''thunderstorm''" "''overcrowded''" no_overrides quiet_env]
  by (auto simp: scenario2_def default_weather_trend)

text \<open>
  The improving trend walks off the list of weather states: \<open>Math.max(0, ...)\<close> bounds the
  new index from below only, and the random term can be negative. From fog (index 4) the
  first pass reads index 5, which is \<open>undefined\<close>.
\<close>

lemma improving_trend:
  "weather_trend (mergeTrends generateDefaultTrends improving_weather) =
     \<lparr> wt_direction = ''improving'', wt_rate = 1 / 10, wt_volatility = 2 / 10 \<rparr>"
  by (simp add: mergeTrends_def improving_weather_def no_overrides_def)

lemma foggy_index: "indexOf weatherStates (toLowerCase ''foggy'') = 4"
  by (simp add: weatherStates_def toLowerCase_def lower_char_def)

lemma fog_improves_off_the_list:
  "simulateWeatherChange (Some ''foggy'')
     \<lparr> wt_direction = ''improving'', wt_rate = 1 / 10, wt_volatility = 2 / 10 \<rparr> 0 (1 / 4) = Inr None"
proof -
  have "\<lfloor>(1 / 4 - 1 / 2) * (2 / 10) :: real\<rfloor> = - 1" by (simp add: floor_eq_iff)
  moreover have "length weatherStates = 5" by (simp add: weatherStates_def)
  ultimately show ?thesis
    by (simp add: simulateWeatherChange_def Let_def foggy_index at_index_def)
qed

lemma first_pass_throws:
  "predictionAt loaded_env foggy_conditions
     (mergeTrends generateDefaultTrends improving_weather) 30 0 = Inl TypeError"
proof -
  obtain y where y: "simulateCrowdChange (Some ''light'')
      (crowd_trend (mergeTrends generateDefaultTrends improving_weather)) 0 0 = Inr (Some y)"
    using simulateCrowdChange_defined by blast
  have "\<exists>sc. calculateConditionsAtTime foggy_conditions
          (mergeTrends generateDefaultTrends improving_weather) 0 0 (1 / 4) = Inr sc \<and>
          sc_weather sc = None"
    using y fog_improves_off_the_list
    by (simp add: calculateConditionsAtTime_def foggy_conditions_def improving_trend)
  then obtain sc where sc: "calculateConditionsAtTime foggy_conditions
          (mergeTrends generateDefaultTrends improving_weather) 0 0 (1 / 4) = Inr sc"
    "sc_weather sc = None" by blast
  have "assessRiskAtTime loaded_env sc = Inl TypeError"
    using sc(2) by (simp add: assessRiskAtTime_def loaded_env_def assessRisk_def)
  then show ?thesis
    using sc(1) by (simp add: predictionAt_def Let_def loaded_env_def)
qed

text \<open>
  Claim C8 at fog that is expected to improve, with the global \<open>assessRisk\<close> loaded and
  the draws 0.25: the call with \<open>hoursAhead = 6\<close> and \<open>intervalMinutes = 30\<close> returns the
  failure object of the \<open>catch\<close>, not 13 predictions. \<open>assessRisk\<close> throws a TypeError at
  \<open>weather.toLowerCase()\<close> in the first pass of the loop.
\<close>

theorem simulation_improving_fog_fails:
  "simulateRiskProgression loaded_env (Some foggy_conditions) improving_weather 6 30 =
     Inl \<lparr> fo_error = TypeError, fo_timestamp = 0 \<rparr>"
proof -
  have "[0..<nat (\<lceil>(6::real) * 60 / 30\<rceil> + 1)] = 0 # [1..<13]"
    by (simp add: upt_conv_Cons)
  then have "collect (predictionAt loaded_env foggy_conditions
                 (mergeTrends generateDefaultTrends improving_weather) 30)
               [0..<nat (\<lceil>(6::real) * 60 / 30\<rceil> + 1)] = Inl TypeError"
    by (simp only: collect.simps first_pass_throws sum.case)
  moreover have "validateSimulationInputs (Some foggy_conditions) 6 30 = Inr ()"
    by (simp add: validateSimulationInputs_def)
  moreover have "startTime loaded_env = 0" by (simp add: loaded_env_def)
  ultimately show ?thesis
    by (simp add: simulateRiskProgression_def Let_def)
qed

text \<open>
  Claim C9, as the code has it. With \<open>hoursAhead\<close> outside (0, 48] or \<open>intervalMinutes\<close>
  outside (0, 240] the call returns the failure object: \<open>success: false\<close>, the message of
  the validation error that was thrown first, and a timestamp. The object has no other key.
\<close>

theorem simulation_rejects_bad_parameters:
  assumes "hoursAhead \<le> 0 \<or> hoursAhead > 48 \<or> intervalMinutes \<le> 0 \<or> intervalMinutes > 240"
  shows "\<exists>f msg. simulateRiskProgression env conds trs hoursAhead intervalMinutes = Inl f \<and>
           fo_error f = Error msg \<and> fo_timestamp f = startTime env \<and>
           msg = (if conds = None then ''Initial conditions must be a valid object''
                  else if hoursAhead \<le> 0 \<or> hoursAhead > 48
                  then ''Hours ahead must be between 1 and 48''
                  else ''Interval minutes must be between 1 and 240'') \<and>
           failure_keys f = [''success'', ''error'', ''timestamp'']"
  using assms
  by (auto simp: simulateRiskProgression_def validateSimulationInputs_def Let_def failure_keys_def)

theorem simulation_rejects_bad_parameters_witness:
  "simulateRiskProgression quiet_env (Some scenario2) no_overrides 49 30 =
     Inl \<lparr> fo_error = Error ''Hours ahead must be between 1 and 48'', fo_timestamp = 0 \<rparr>"
  using simulation_rejects_bad_parameters[of 49 30 quiet_env "Some scenario2" no_overrides]
  by (auto simp: quiet_env_def)

text \<open>
  Claim C9 as stated gives the failure object the keys \<open>success\<close>, \<open>error\<close> and \<open>fallback\<close>;
  the object returned for \<open>hoursAhead = 0\<close> has the keys \<open>success\<close>, \<open>error\<close> and \<open>timestamp\<close>.
\<close>

theorem simulation_failure_has_no_fallback:
  "(case simulateRiskProgression quiet_env (Some scenario2) no_overrides 0 30 of
      Inl f \<Rightarrow> failure_keys f = [''success'', ''error'', ''timestamp''] \<and>
               ''fallback'' \<notin> set (failure_keys f)
    | Inr r \<Rightarrow> False)"
  by (simp add: simulateRiskProgression_def validateSimulationInputs_def Let_def failure_keys_def)

section \<open>Properties of the breakdown analyzer\<close>

lemma calculateFactorScores_cong:
  assumes "\<forall>k<10. draws env1 k = draws env2 k"
    and "clock_hour env1 = clock_hour env2" "clock_day env1 = clock_day env2"
    and "clock_month env1 = clock_month env2"
  shows "calculateFactorScores env1 c = calculateFactorScores env2 c"
proof -
  have d: "\<And>k. k < 10 \<Longrightarrow> draws env1 k = draws env2 k" using assms(1) by blast
  have "calculateWeatherScore env1 c = calculateWeatherScore env2 c"
    by (simp add: calculateWeatherScore_def placeholder_def d)
  moreover have "calculateTimeScore env1 c = calculateTimeScore env2 c"
    by (simp add: calculateTimeScore_def getHourOfDayRisk_def getDayOfWeekRisk_def
          getSeasonalRisk_def assms(2-4))
  moreover have "calculateCrowdScore env1 c = calculateCrowdScore env2 c"
    by (simp add: calculateCrowdScore_def placeholder_def d)
  moreover have "analyzerLocationScore env1 c = analyzerLocationScore env2 c"
    by (simp add: analyzerLocationScore_def placeholder_def d)
  moreover have "analyzerVisibilityScore env1 c = analyzerVisibilityScore env2 c"
    by (simp add: analyzerVisibilityScore_def placeholder_def getLightingConditions_def d assms(2))
  ultimately show ?thesis by (simp add: calculateFactorScores_def)
qed

text \<open>
  Claim C6, as the code has it. The percentages and the ranks of an analysis are a function
  of the conditions, the weights, the ten draws of \<open>Math.random()\<close> and the clock reading
  (hour, day of the week, month) of the call; the assessment passed in has no part in them.
  Two calls on the same conditions and weights agree on every percentage and rank when
  their draws and clock readings agree.
\<close>

theorem breakdown_determined_by_draws_and_clock:
  assumes "\<forall>k<10. draws env1 k = draws env2 k"
    and "clock_hour env1 = clock_hour env2" "clock_day env1 = clock_day env2"
    and "clock_month env1 = clock_month env2"
  shows "percentagesAndRanks (analyzeRiskBreakdown env1 conds ws assessment1) =
         percentagesAndRanks (analyzeRiskBreakdown env2 conds ws assessment2)"
  using calculateFactorScores_cong[OF assms]
  by (cases conds) (simp_all add: percentagesAndRanks_def analyzeRiskBreakdown_def Let_def)

theorem breakdown_determined_by_draws_and_clock_witness:
  "percentagesAndRanks
     (analyzeRiskBreakdown low_draws (Some scenario2) None None) =
   percentagesAndRanks
     (analyzeRiskBreakdown (low_draws\<lparr>draws := (\<lambda>k. if k < 10 then 0 else 1)\<rparr>)
        (Some scenario2) None (Some \<lparr>or_risk_level = ''HIGH'', or_risk_score = 9\<rparr>))"
  using breakdown_determined_by_draws_and_clock[of low_draws
      "low_draws\<lparr>draws := (\<lambda>k. if k < 10 then 0 else 1)\<rparr>" "Some scenario2" None None
      "Some \<lparr>or_risk_level = ''HIGH'', or_risk_score = 9\<rparr>"]
  by (simp add: low_draws_def)

lemma scenario2_intensity: "getWeatherIntensity (weather scenario2) = 5"
  by (simp add: getWeatherIntensity_def scenario2_def js_or_def lookup_lower_def weatherScores_def
        toLowerCase_def lower_char_def)

lemma scenario2_density: "js_or (lookup_lower densityMap (crowd_density scenario2)) 2 = 4"
  by (simp add: scenario2_def js_or_def lookup_lower_def densityMap_def
        toLowerCase_def lower_char_def)

lemma scenario2_rest:
  "getLocationInherentRisk (location scenario2) = 1"
  "getCurrentVisibilityConditions (visibility scenario2) = 32 / 10"
  by (simp_all add: getLocationInherentRisk_def truthy_def scenario2_def
        getCurrentVisibilityConditions_def)

lemma low_totals:
  "map (\<lambda>(f, s). (f, total_score s)) (calculateFactorScores low_draws scenario2) =
     [(''weather'', 26 / 10), (''time'', 1), (''crowd'', 22 / 10), (''location'', 1),
      (''visibility'', 21 / 10)]"
  by (simp add: calculateFactorScores_def calculateWeatherScore_def calculateTimeScore_def
        calculateCrowdScore_def analyzerLocationScore_def analyzerVisibilityScore_def
        scenario2_intensity scenario2_density scenario2_rest placeholder_def low_draws_def
        getHourOfDayRisk_def getDayOfWeekRisk_def getSeasonalRisk_def getLightingConditions_def
        Let_def)

lemma mid_totals:
  "map (\<lambda>(f, s). (f, total_score s)) (calculateFactorScores mid_draws scenario2) =
     [(''weather'', 32 / 10), (''time'', 1), (''crowd'', 295 / 100), (''location'', 16 / 10),
      (''visibility'', 23 / 10)]"
  by (simp add: calculateFactorScores_def calculateWeatherScore_def calculateTimeScore_def
        calculateCrowdScore_def analyzerLocationScore_def analyzerVisibilityScore_def
        scenario2_intensity scenario2_density scenario2_rest placeholder_def mid_draws_def
        getHourOfDayRisk_def getDayOfWeekRisk_def getSeasonalRisk_def getLightingConditions_def
        Let_def)

lemma contributions_from_totals:
  "calculateWeightedContributions fs ws =
     map (\<lambda>(f, w).
            let score = js_or (map_of (map (\<lambda>(f, s). (f, total_score s)) fs) f) 0
            in (f, \<lparr> raw_score = score, weight = w, weighted_score = score * w,
                     normalized_contribution = 0 \<rparr>)) ws"
proof -
  have "\<And>f. map_option total_score (map_of fs f) = map_of (map (\<lambda>(f, s). (f, total_score s)) fs) f"
    by (induction fs) auto
  then show ?thesis by (simp add: calculateWeightedContributions_def)
qed

lemma low_weighted:
  "map (\<lambda>(f, c). (f, weighted_score c))
     (calculateWeightedContributions (calculateFactorScores low_draws scenario2) defaultWeights) =
   [(''weather'', 78 / 100), (''time'', 20 / 100), (''crowd'', 55 / 100),
    (''location'', 15 / 100), (''visibility'', 21 / 100)]"
  by (simp add: contributions_from_totals low_totals defaultWeights_def js_or_def)

lemma mid_weighted:
  "map (\<lambda>(f, c). (f, weighted_score c))
     (calculateWeightedContributions (calculateFactorScores mid_draws scenario2) defaultWeights) =
   [(''weather'', 96 / 100), (''time'', 20 / 100), (''crowd'', 7375 / 10000),
    (''location'', 24 / 100), (''visibility'', 23 / 100)]"
  by (simp add: contributions_from_totals mid_totals defaultWeights_def js_or_def)

lemma percentages_from_weighted:
  "map (\<lambda>(f, d). (f, percentage d)) (calculatePercentageBreakdown cs) =
     (let total = foldl (\<lambda>s (f, w). s + w) 0 (map (\<lambda>(f, c). (f, weighted_score c)) cs)
      in map (\<lambda>(f, w). (f, js_round ((if total > 0 then w / total * 100 else 0) * 10) / 10))
             (map (\<lambda>(f, c). (f, weighted_score c)) cs))"
proof -
  have "\<And>a. foldl (\<lambda>s (f, contrib). s + weighted_score contrib) a cs =
        foldl (\<lambda>s (f, w). s + w) a (map (\<lambda>(f, c). (f, weighted_score c)) cs)"
    by (induction cs) (auto split: prod.splits)
  then show ?thesis
    by (simp add: calculatePercentageBreakdown_def Let_def comp_def case_prod_unfold)
qed

lemma low_percentages:
  "map (\<lambda>(f, d). (f, percentage d))
     (calculatePercentageBreakdown
        (calculateWeightedContributions (calculateFactorScores low_draws scenario2) defaultWeights)) =
   [(''weather'', 413 / 10), (''time'', 106 / 10), (''crowd'', 291 / 10),
    (''location'', 79 / 10), (''visibility'', 111 / 10)]"
  by (simp add: percentages_from_weighted low_weighted js_round_def)

lemma mid_percentages:
  "map (\<lambda>(f, d). (f, percentage d))
     (calculatePercentageBreakdown
        (calculateWeightedContributions (calculateFactorScores mid_draws scenario2) defaultWeights)) =
   [(''weather'', 405 / 10), (''time'', 84 / 10), (''crowd'', 312 / 10),
    (''location'', 101 / 10), (''visibility'', 97 / 10)]"
  by (simp add: percentages_from_weighted mid_weighted js_round_def)

lemma default_breakdown:
  "percentagesAndRanks (analyzeRiskBreakdown env (Some c) None a) =
     Inr (map (\<lambda>(f, d). (f, percentage d, rank d))
            (calculatePercentageBreakdown
               (calculateWeightedContributions (calculateFactorScores env c) defaultWeights)))"
proof -
  have "length defaultWeights = 5" by (simp add: defaultWeights_def)
  then show ?thesis
    by (simp add: percentagesAndRanks_def analyzeRiskBreakdown_def Let_def)
qed

lemma drop_ranks:
  "map ((\<lambda>(f, p, r). (f, p)) \<circ> (\<lambda>(f, d). (f, percentage d, rank d))) xs
     = map (\<lambda>(f, d). (f, percentage d)) xs"
  by (induction xs) auto

lemma breakdown_percentages:
  "map_sum id (map (\<lambda>(f, p, r). (f, p)))
     (percentagesAndRanks (analyzeRiskBreakdown low_draws (Some scenario2) None None)) =
     Inr [(''weather'', 413 / 10), (''time'', 106 / 10), (''crowd'', 291 / 10),
          (''location'', 79 / 10), (''visibility'', 111 / 10)] \<and>
   map_sum id (map (\<lambda>(f, p, r). (f, p)))
     (percentagesAndRanks (analyzeRiskBreakdown mid_draws (Some scenario2) None None)) =
     Inr [(''weather'', 405 / 10), (''time'', 84 / 10), (''crowd'', 312 / 10),
          (''location'', 101 / 10), (''visibility'', 97 / 10)]"
  by (simp add: default_breakdown drop_ranks low_percentages mid_percentages)

text \<open>
  Claim C6 as stated makes two calls on the same (conditions, weights, assessment) agree.
  Two calls on scenario 2 with the default weights, in the same clock hour, the first
  drawing 0 and the second 0.5 from \<open>Math.random()\<close> every time, give weather 41.3 percent
  and 40.5 percent.
\<close>

theorem breakdown_differs_between_calls:
  "percentagesAndRanks (analyzeRiskBreakdown low_draws (Some scenario2) None None) \<noteq>
   percentagesAndRanks (analyzeRiskBreakdown mid_draws (Some scenario2) None None)"
proof
  assume "percentagesAndRanks (analyzeRiskBreakdown low_draws (Some scenario2) None None) =
          percentagesAndRanks (analyzeRiskBreakdown mid_draws (Some scenario2) None None)"
  then have "map_sum id (map (\<lambda>(f, p, r). (f, p)))
               (percentagesAndRanks (analyzeRiskBreakdown low_draws (Some scenario2) None None)) =
             map_sum id (map (\<lambda>(f, p, r). (f, p)))
               (percentagesAndRanks (analyzeRiskBreakdown mid_draws (Some scenario2) None None))"
    by (rule arg_cong)
  then show False by (simp only: breakdown_percentages) simp
qed

end
